(* ===== verification/Prelude.thy ===== *)
theory Prelude
  imports Main
begin

text \<open>
  Shared vocabulary of the development: the JavaScript values the forms core passes
  around (\<open>jsval\<close>), JavaScript truthiness and equality as the sources use them
  (\<open>!x\<close>, \<open>===\<close>, \<open>looseIdentical\<close>), the string helpers that build error
  messages (\<open>Array.prototype.join\<close>), the error values that stand for every
  \<open>throw\<close> of the sources, the update-timing policy (\<open>FormHooks\<close>), and the
  named theorem collections the component theories fill.
\<close>

named_theorems js_simps "evaluation rules for the JavaScript helpers"
named_theorems wiring_simps "how the installed callbacks and listeners behave"

section \<open>JavaScript values\<close>

text \<open>
  A value that crosses the forms API (\<open>any\<close> in the sources). Numbers are
  integers plus \<open>NaN\<close>: no claim depends on fractional numbers, and \<open>NaN\<close> is
  kept because \<open>looseIdentical\<close> treats it specially. Objects are compared by
  reference, so an object is its reference \<open>JObj n\<close>.
\<close>

datatype jsval =
    JUndef
  | JNull
  | JBool bool
  | JNum int
  | JNaN
  | JStr string
  | JObj nat

text \<open>Truthiness (\<open>if (x)\<close>, \<open>!x\<close>, \<open>x && y\<close>).\<close>

fun truthy :: "jsval \<Rightarrow> bool" where
  "truthy JUndef = False"
| "truthy JNull = False"
| "truthy (JBool b) = b"
| "truthy (JNum n) = (n \<noteq> 0)"
| "truthy JNaN = False"
| "truthy (JStr s) = (s \<noteq> [])"
| "truthy (JObj _) = True"

text \<open>Loose equality with \<open>null\<close> (\<open>x == null\<close>): true for null and undefined only.\<close>

definition is_nullish :: "jsval \<Rightarrow> bool" where
  "is_nullish v \<longleftrightarrow> v = JNull \<or> v = JUndef"

text \<open>Strict equality \<open>===\<close>: \<open>NaN\<close> is not equal to itself.\<close>

fun strict_eq :: "jsval \<Rightarrow> jsval \<Rightarrow> bool" where
  "strict_eq JNaN _ = False"
| "strict_eq a b = (a = b)"

fun is_number :: "jsval \<Rightarrow> bool" where
  "is_number (JNum _) = True"
| "is_number JNaN = True"
| "is_number _ = False"

definition isNaN :: "jsval \<Rightarrow> bool" where
  "isNaN v \<longleftrightarrow> v = JNaN"

text \<open>
  \<open>looseIdentical\<close> of \<open>@angular/core\<close> (not in the sources):
  \<open>a === b || typeof a === 'number' && typeof b === 'number' && isNaN(a) && isNaN(b)\<close>.
\<close>

definition looseIdentical :: "jsval \<Rightarrow> jsval \<Rightarrow> bool" where
  "looseIdentical a b \<longleftrightarrow>
     strict_eq a b \<or> (is_number a \<and> is_number b \<and> isNaN a \<and> isNaN b)"

section \<open>Names, paths and messages\<close>

text \<open>
  A control name is a string that may be \<open>undefined\<close> (\<open>@Input() name\<close> before it
  is bound); a path is a list of names. \<open>Array.prototype.join\<close> prints an undefined
  element as the empty string.
\<close>

type_synonym name = "string option"

fun js_str :: "name \<Rightarrow> string" where
  "js_str None = []"
| "js_str (Some s) = s"

fun js_join :: "string \<Rightarrow> name list \<Rightarrow> string" where
  "js_join sep [] = []"
| "js_join sep [x] = js_str x"
| "js_join sep (x # y # xs) = js_str x @ sep @ js_join sep (y # xs)"

text \<open>Truthiness of a name: defined and not empty.\<close>

fun name_truthy :: "name \<Rightarrow> bool" where
  "name_truthy None = False"
| "name_truthy (Some s) = (s \<noteq> [])"

definition squote :: "string \<Rightarrow> string" where
  "squote s = CHR 0x27 # s @ [CHR 0x27]"

section \<open>Errors\<close>

text \<open>
  Every \<open>throw\<close> of the sources is a value. \<open>Error msg\<close> is
  \<open>new Error(msg)\<close> as \<open>_throwError\<close> builds it; the three template-driven errors
  are the exceptions of \<open>TemplateDrivenErrors\<close> (their long messages are not
  modelled); \<open>TypeError\<close> is a method call on \<open>null\<close>.
\<close>

datatype ng_error =
    Error string
  | FormGroupNameException
  | ModelParentException
  | MissingNameException
  | TypeError string

text \<open>An operation that throws returns \<open>Inl\<close> of its error, as in the guides.\<close>

type_synonym 'a throws = "ng_error + 'a"

section \<open>Update-timing policy\<close>

text \<open>\<open>FormHooks = 'change' | 'blur' | 'submit'\<close>.\<close>

datatype update_on = UpdChange | UpdBlur | UpdSubmit

section \<open>Shared lemmas\<close>

lemma looseIdentical_iff [js_simps]: "looseIdentical a b \<longleftrightarrow> a = b"
  by (cases a; cases b) (simp_all add: looseIdentical_def isNaN_def)

lemma is_nullish_simps [js_simps, simp]:
  "is_nullish JNull" "is_nullish JUndef" "\<not> is_nullish (JStr s)" "\<not> is_nullish (JBool b)"
  "\<not> is_nullish (JNum n)" "\<not> is_nullish JNaN" "\<not> is_nullish (JObj r)"
  by (simp_all add: is_nullish_def)

lemma js_join_snoc [js_simps]:
  "js_join sep (x # xs @ [y]) = js_join sep (x # xs) @ sep @ js_str y"
  by (induction xs arbitrary: x) auto

lemma fold_invariant [intro]:
  "P s \<Longrightarrow> (\<And>x t. x \<in> set xs \<Longrightarrow> P t \<Longrightarrow> P (f x t)) \<Longrightarrow> P (fold f xs s)"
  by (induction xs arbitrary: s) auto

end
