(* ===== verification/Default_Value_Accessor.thy ===== *)
theory Default_Value_Accessor
  imports Prelude
begin

text \<open>
  The \<open>DefaultValueAccessor\<close> of \<open>src/ng-model/default_value_accessor.ts\<close>: the
  adapter between a text input and a form control. Its state is a record with the two
  callback slots (\<open>onChange\<close>, \<open>onTouched\<close>) and the IME flags; the slots are
  polymorphic, so the accessor is verified for whatever callbacks the change pipeline
  registers (\<open>None\<close> is the accessor's own no-op default). A host event returns the
  new state and the callback call it makes, if any; the renderer calls of
  \<open>writeValue\<close> and \<open>setDisabledState\<close> are values of \<open>dom_op\<close>.
  Lemmas: Android detection equals the regular expression's meaning, buffering
  forwards exactly one value per composition, without buffering every input is
  forwarded, and \<open>writeValue\<close> normalises \<open>null\<close>/\<open>undefined\<close>.
\<close>

section \<open>Platform detection: \<open>_isAndroid\<close>\<close>

text \<open>\<open>String.prototype.toLowerCase\<close> on ASCII letters.\<close>

definition lower_char :: "char \<Rightarrow> char" where
  "lower_char c =
     (let n = (of_char c :: nat) in if 65 \<le> n \<and> n \<le> 90 then char_of (n + 32) else c)"

definition toLowerCase :: "string \<Rightarrow> string" where
  "toLowerCase s = map lower_char s"

definition is_digit :: "char \<Rightarrow> bool" where
  "is_digit c \<longleftrightarrow> (let n = (of_char c :: nat) in 48 \<le> n \<and> n \<le> 57)"

text \<open>
  \<open>/android (\d+)/.test(s)\<close>: some position of \<open>s\<close> starts with \<open>android \<close>
  followed by a digit (one digit suffices for \<open>\d+\<close> to match).
\<close>

definition android_at :: "string \<Rightarrow> bool" where
  "android_at s \<longleftrightarrow>
     take 8 s = ''android '' \<and> (case drop 8 s of d # _ \<Rightarrow> is_digit d | [] \<Rightarrow> False)"

fun android_regex_test :: "string \<Rightarrow> bool" where
  "android_regex_test [] = False"
| "android_regex_test (c # cs) = (android_at (c # cs) \<or> android_regex_test cs)"

text \<open>\<open>getDOM() ? getDOM().getUserAgent() : ''\<close>: \<open>None\<close> when there is no DOM adapter.\<close>

definition isAndroid :: "string option \<Rightarrow> bool" where
  "isAndroid domUA =
     (let userAgent = (case domUA of None \<Rightarrow> [] | Some ua \<Rightarrow> ua)
      in android_regex_test (toLowerCase userAgent))"

section \<open>State and construction\<close>

record ('c, 't) dva =
  dva_onChange :: "'c option"
  dva_onTouched :: "'t option"
  dva_composing :: bool
  dva_compositionMode :: bool

text \<open>
  The constructor: the callbacks are the no-op defaults, \<open>_composing = false\<close>, and the
  injected \<open>COMPOSITION_BUFFER_MODE\<close> (\<open>None\<close> when not provided) defaults to
  \<open>!_isAndroid()\<close>.
\<close>

definition dva_new :: "bool option \<Rightarrow> string option \<Rightarrow> ('c, 't) dva" where
  "dva_new compositionMode domUA =
     \<lparr>dva_onChange = None, dva_onTouched = None, dva_composing = False,
      dva_compositionMode = (case compositionMode of None \<Rightarrow> \<not> isAndroid domUA | Some m \<Rightarrow> m)\<rparr>"

section \<open>Operations\<close>

text \<open>\<open>Renderer2.setProperty(element, name, value)\<close> on the accessor's element.\<close>

datatype dom_op = SetProperty string jsval

definition dva_writeValue :: "jsval \<Rightarrow> dom_op" where
  "dva_writeValue value =
     (let normalizedValue = (if is_nullish value then JStr [] else value)
      in SetProperty ''value'' normalizedValue)"

definition dva_setDisabledState :: "bool \<Rightarrow> dom_op" where
  "dva_setDisabledState isDisabled = SetProperty ''disabled'' (JBool isDisabled)"

definition dva_registerOnChange :: "'c \<Rightarrow> ('c, 't) dva \<Rightarrow> ('c, 't) dva" where
  "dva_registerOnChange fn d = d\<lparr>dva_onChange := Some fn\<rparr>"

definition dva_registerOnTouched :: "'t \<Rightarrow> ('c, 't) dva \<Rightarrow> ('c, 't) dva" where
  "dva_registerOnTouched fn d = d\<lparr>dva_onTouched := Some fn\<rparr>"

text \<open>A call the accessor makes into its registered callbacks.\<close>

datatype dva_call = CallOnChange jsval | CallOnTouched

definition dva_handleInput :: "jsval \<Rightarrow> ('c, 't) dva \<Rightarrow> ('c, 't) dva \<times> dva_call option" where
  "dva_handleInput value d =
     (d, if \<not> dva_compositionMode d \<or> (dva_compositionMode d \<and> \<not> dva_composing d)
         then Some (CallOnChange value) else None)"

definition dva_compositionStart :: "('c, 't) dva \<Rightarrow> ('c, 't) dva" where
  "dva_compositionStart d = d\<lparr>dva_composing := True\<rparr>"

definition dva_compositionEnd :: "jsval \<Rightarrow> ('c, 't) dva \<Rightarrow> ('c, 't) dva \<times> dva_call option" where
  "dva_compositionEnd value d =
     (let d1 = d\<lparr>dva_composing := False\<rparr>
      in (d1, if dva_compositionMode d1 then Some (CallOnChange value) else None))"

text \<open>The host listeners of the directive: \<open>(input)\<close>, \<open>(blur)\<close>, \<open>(compositionstart)\<close>, \<open>(compositionend)\<close>.\<close>

datatype dom_event = InputEv jsval | BlurEv | CompositionStartEv | CompositionEndEv jsval

fun dva_host :: "dom_event \<Rightarrow> ('c, 't) dva \<Rightarrow> ('c, 't) dva \<times> dva_call option" where
  "dva_host (InputEv v) d = dva_handleInput v d"
| "dva_host BlurEv d = (d, Some CallOnTouched)"
| "dva_host CompositionStartEv d = (dva_compositionStart d, None)"
| "dva_host (CompositionEndEv v) d = dva_compositionEnd v d"

text \<open>A sequence of host events and the callback calls it makes, in order.\<close>

fun dva_run :: "dom_event list \<Rightarrow> ('c, 't) dva \<Rightarrow> ('c, 't) dva \<times> dva_call list" where
  "dva_run [] d = (d, [])"
| "dva_run (e # es) d =
     (let (d1, c) = dva_host e d; (d2, cs) = dva_run es d1
      in (d2, (case c of None \<Rightarrow> [] | Some x \<Rightarrow> [x]) @ cs))"

text \<open>Without buffering, what each host event forwards.\<close>

fun forwarded_unbuffered :: "dom_event \<Rightarrow> dva_call list" where
  "forwarded_unbuffered (InputEv v) = [CallOnChange v]"
| "forwarded_unbuffered BlurEv = [CallOnTouched]"
| "forwarded_unbuffered CompositionStartEv = []"
| "forwarded_unbuffered (CompositionEndEv v) = []"

section \<open>Lemmas\<close>

lemma dva_host_frame [simp]:
  "dva_compositionMode (fst (dva_host e d)) = dva_compositionMode d"
  "dva_onChange (fst (dva_host e d)) = dva_onChange d"
  "dva_onTouched (fst (dva_host e d)) = dva_onTouched d"
  by (cases e; simp add: dva_handleInput_def dva_compositionStart_def dva_compositionEnd_def)+

lemma dva_run_append:
  "dva_run (xs @ ys) d =
     (let (d1, c1) = dva_run xs d; (d2, c2) = dva_run ys d1 in (d2, c1 @ c2))"
  by (induction xs arbitrary: d) (auto split: prod.splits)

lemma dva_run_Cons_snd [simp]:
  "snd (dva_run (e # es) d) =
     (case snd (dva_host e d) of None \<Rightarrow> [] | Some x \<Rightarrow> [x]) @ snd (dva_run es (fst (dva_host e d)))"
  by (simp split: prod.splits)

lemma dva_run_inputs_composing:
  assumes "dva_compositionMode d" and "dva_composing d"
  shows "dva_run (map InputEv vs) d = (d, [])"
  using assms by (induction vs) (simp_all add: dva_handleInput_def)

lemma android_at_split:
  "android_at s \<longleftrightarrow> (\<exists>d r. s = ''android '' @ d # r \<and> is_digit d)"
proof
  assume "android_at s"
  then obtain d r where "take 8 s = ''android ''" "drop 8 s = d # r" "is_digit d"
    by (auto simp: android_at_def split: list.splits)
  then show "\<exists>d r. s = ''android '' @ d # r \<and> is_digit d"
    by (metis append_take_drop_id)
qed (auto simp: android_at_def)

lemma android_regex_test_iff [js_simps]:
  "android_regex_test s \<longleftrightarrow> (\<exists>p d r. s = p @ ''android '' @ d # r \<and> is_digit d)"
proof (induction s)
  case Nil
  then show ?case by simp
next
  case (Cons c cs)
  have "(\<exists>p d r. c # cs = p @ ''android '' @ d # r \<and> is_digit d) \<longleftrightarrow>
        android_at (c # cs) \<or> (\<exists>p d r. cs = p @ ''android '' @ d # r \<and> is_digit d)"
    (is "?l \<longleftrightarrow> ?r")
  proof
    assume ?l
    then obtain p d r where eq: "c # cs = p @ ''android '' @ d # r" "is_digit d" by blast
    then show ?r by (cases p) (auto simp: android_at_split)
  next
    assume ?r
    then show ?l
    proof
      assume "android_at (c # cs)"
      then show ?l by (metis android_at_split append_Nil)
    next
      assume "\<exists>p d r. cs = p @ ''android '' @ d # r \<and> is_digit d"
      then obtain p d r where "cs = p @ ''android '' @ d # r" "is_digit d" by blast
      then show ?l by (metis append_Cons)
    qed
  qed
  with Cons.IH show ?case by simp
qed

text \<open>
  C7. With composition buffering on, a composition (start, any number of input events,
  end) forwards exactly one change, the value at composition end, and leaves the
  accessor out of composition with its callbacks untouched.
\<close>

theorem dva_composition_forwards_once:
  assumes "dva_compositionMode d"
  shows "dva_run (CompositionStartEv # map InputEv vs @ [CompositionEndEv v]) d =
           (d\<lparr>dva_composing := False\<rparr>, [CallOnChange v])"
proof -
  let ?d1 = "d\<lparr>dva_composing := True\<rparr>"
  have "dva_run (map InputEv vs) ?d1 = (?d1, [])"
    using assms by (intro dva_run_inputs_composing) simp_all
  then show ?thesis
    using assms by (simp add: dva_run_append dva_compositionStart_def dva_compositionEnd_def)
qed

theorem dva_composition_forwards_once_witness:
  "dva_run [CompositionStartEv, InputEv (JStr ''n''), CompositionEndEv (JStr ''ni'')]
      (dva_new (Some True) None :: (unit, unit) dva) =
   ((dva_new (Some True) None)\<lparr>dva_composing := False\<rparr>, [CallOnChange (JStr ''ni'')])"
  using dva_composition_forwards_once [of "dva_new (Some True) None :: (unit, unit) dva"
      "[JStr ''n'']" "JStr ''ni''"]
  by (simp add: dva_new_def)

text \<open>
  C20. With composition buffering off (the Android default), every input event is
  forwarded at once, every blur reaches onTouched, and composition events forward
  nothing, whatever the composing flag says.
\<close>

theorem dva_unbuffered_forwards_all:
  assumes "\<not> dva_compositionMode d"
  shows "snd (dva_run es d) = concat (map forwarded_unbuffered es)"
  using assms
proof (induction es arbitrary: d)
  case (Cons e es)
  then have "snd (dva_run es (fst (dva_host e d))) = concat (map forwarded_unbuffered es)"
    by simp
  with Cons.prems show ?case
    by (cases e) (simp_all add: dva_handleInput_def dva_compositionEnd_def del: dva_run.simps)
qed simp

theorem dva_unbuffered_forwards_all_witness:
  "snd (dva_run [CompositionStartEv, InputEv (JStr ''a''), CompositionEndEv (JStr ''a'')]
      (dva_new (Some False) None :: (unit, unit) dva)) = [CallOnChange (JStr ''a'')]"
  using dva_unbuffered_forwards_all [of "dva_new (Some False) None :: (unit, unit) dva"
      "[CompositionStartEv, InputEv (JStr ''a''), CompositionEndEv (JStr ''a'')]"]
  by (simp add: dva_new_def del: dva_run.simps dva_run_Cons_snd)

text \<open>
  C23. Without an injected \<open>COMPOSITION_BUFFER_MODE\<close>, a new accessor buffers
  compositions exactly when the lower-cased user agent contains no
  \<open>android \<close> followed by a digit.
\<close>

theorem dva_new_default_mode:
  "dva_compositionMode (dva_new None (Some ua)) \<longleftrightarrow>
     \<not> (\<exists>p d r. toLowerCase ua = p @ ''android '' @ d # r \<and> is_digit d)"
  by (simp add: dva_new_def isAndroid_def android_regex_test_iff)

end
