(* ===== verification/Accessor_Selector.thy ===== *)
theory Accessor_Selector
  imports Prelude
begin

text \<open>
  How a form control directive finds its value accessor and reports configuration
  errors (\<open>src/ng-model/shared.ts\<close>): \<open>controlPath\<close>, the error messages of
  \<open>_throwError\<close>, \<open>isBuiltInAccessor\<close> and \<open>selectValueAccessor\<close>. An accessor is
  the class it was constructed from (the tagged variant that replaces the source's
  \<open>constructor ===\<close> tests) and an instance number (object identity). The
  \<open>forEach\<close> with its three mutable slots is the structural recursion
  \<open>select_loop\<close>; the reference \<open>select_spec\<close> classifies the candidates at once,
  and the lemmas prove that the loop computes it.
\<close>

section \<open>Paths and error messages\<close>

text \<open>\<open>controlPath(name, parent)\<close>: the parent's path followed by the name.\<close>

definition controlPath :: "name \<Rightarrow> name list \<Rightarrow> name list" where
  "controlPath nm parentPath = parentPath @ [nm]"

text \<open>
  The end of every message of \<open>_throwError\<close>: the joined path when it has several
  names, the name when the first one is truthy (\<open>`${dir.path}`\<close> prints the array
  joined by commas), and otherwise \<open>unspecified name attribute\<close>.
\<close>

definition messageEnd :: "name list \<Rightarrow> string" where
  "messageEnd path =
     (if length path > 1 then ''path: '' @ squote (js_join '' -> '' path)
      else if (case path of x # _ \<Rightarrow> name_truthy x | [] \<Rightarrow> False)
      then ''name: '' @ squote (js_join '','' path)
      else ''unspecified name attribute'')"

definition throwError :: "name list \<Rightarrow> string \<Rightarrow> ng_error" where
  "throwError path message = Error (message @ '' '' @ messageEnd path)"

section \<open>Accessors\<close>

text \<open>
  The class of an accessor: the default text accessor, the six built-in ones of
  \<open>BUILTIN_ACCESSORS\<close>, or a custom class (its name, and whether it implements the
  optional \<open>setDisabledState\<close>).
\<close>

datatype cva_class =
    DefaultValueAccessorC
  | CheckboxControlValueAccessorC
  | RangeValueAccessorC
  | NumberValueAccessorC
  | SelectControlValueAccessorC
  | SelectMultipleControlValueAccessorC
  | RadioControlValueAccessorC
  | CustomAccessorC string bool

datatype cva = CVA (cva_class: cva_class) (cva_id: nat)

definition BUILTIN_ACCESSORS :: "cva_class list" where
  "BUILTIN_ACCESSORS =
     [CheckboxControlValueAccessorC, RangeValueAccessorC, NumberValueAccessorC,
      SelectControlValueAccessorC, SelectMultipleControlValueAccessorC,
      RadioControlValueAccessorC]"

definition isBuiltInAccessor :: "cva \<Rightarrow> bool" where
  "isBuiltInAccessor valueAccessor \<longleftrightarrow> list_ex (\<lambda>a. cva_class valueAccessor = a) BUILTIN_ACCESSORS"

text \<open>Whether an accessor has the optional \<open>setDisabledState\<close> method.\<close>

fun has_setDisabledState :: "cva_class \<Rightarrow> bool" where
  "has_setDisabledState (CustomAccessorC _ b) = b"
| "has_setDisabledState _ = True"

text \<open>
  The injected \<open>NG_VALUE_ACCESSOR\<close> argument: absent (\<open>null\<close> or
  \<open>undefined\<close>), an array, or some other truthy value.
\<close>

datatype 'a js_arg = JsAbsent | JsArray "'a list" | JsNonArray

section \<open>Selection\<close>

type_synonym slots = "cva option \<times> cva option \<times> cva option"

text \<open>The \<open>forEach\<close> over the candidates, with the default, built-in and custom slots.\<close>

fun select_loop :: "name list \<Rightarrow> cva list \<Rightarrow> slots \<Rightarrow> slots throws" where
  "select_loop path [] acc = Inr acc"
| "select_loop path (v # vs) (defaultAccessor, builtinAccessor, customAccessor) =
     (if cva_class v = DefaultValueAccessorC
      then select_loop path vs (Some v, builtinAccessor, customAccessor)
      else if isBuiltInAccessor v
      then (if builtinAccessor \<noteq> None
            then Inl (throwError path ''More than one built-in value accessor matches form control with'')
            else select_loop path vs (defaultAccessor, Some v, customAccessor))
      else (if customAccessor \<noteq> None
            then Inl (throwError path ''More than one custom value accessor matches form control with'')
            else select_loop path vs (defaultAccessor, builtinAccessor, Some v)))"

definition selectValueAccessor :: "name list \<Rightarrow> cva js_arg \<Rightarrow> cva option throws" where
  "selectValueAccessor path valueAccessors =
     (case valueAccessors of
        JsAbsent \<Rightarrow> Inr None
      | JsNonArray \<Rightarrow>
          Inl (throwError path ''Value accessor was not provided as an array for form control with'')
      | JsArray vs \<Rightarrow>
          (case select_loop path vs (None, None, None) of
             Inl e \<Rightarrow> Inl e
           | Inr (defaultAccessor, builtinAccessor, customAccessor) \<Rightarrow>
               if customAccessor \<noteq> None then Inr customAccessor
               else if builtinAccessor \<noteq> None then Inr builtinAccessor
               else if defaultAccessor \<noteq> None then Inr defaultAccessor
               else Inl (throwError path ''No valid value accessor for form control with'')))"

subsection \<open>Reference selection\<close>

definition is_default_accessor :: "cva \<Rightarrow> bool" where
  "is_default_accessor v \<longleftrightarrow> cva_class v = DefaultValueAccessorC"

definition is_custom_accessor :: "cva \<Rightarrow> bool" where
  "is_custom_accessor v \<longleftrightarrow> \<not> is_default_accessor v \<and> \<not> isBuiltInAccessor v"

text \<open>
  The selection rule of the design: at most one built-in and at most one custom
  candidate; custom before built-in before default; among several default accessors
  the last one listed.
\<close>

definition select_spec :: "cva list \<Rightarrow> cva option" where
  "select_spec vs =
     (let ds = filter is_default_accessor vs; bs = filter isBuiltInAccessor vs;
          cs = filter is_custom_accessor vs
      in if length bs > 1 \<or> length cs > 1 then None
         else if cs \<noteq> [] then Some (hd cs)
         else if bs \<noteq> [] then Some (hd bs)
         else if ds \<noteq> [] then Some (last ds)
         else None)"

definition slots_ok :: "cva list \<Rightarrow> cva option \<Rightarrow> cva option \<Rightarrow> bool" where
  "slots_ok vs b c \<longleftrightarrow>
     length (filter isBuiltInAccessor vs) + (if b = None then 0 else 1) \<le> (1::nat) \<and>
     length (filter is_custom_accessor vs) + (if c = None then 0 else 1) \<le> (1::nat)"

fun fill_slot :: "cva list \<Rightarrow> cva option \<Rightarrow> cva option" where
  "fill_slot [] s = s"
| "fill_slot (v # vs) s = Some (last (v # vs))"

section \<open>Lemmas\<close>

lemma builtin_not_default [simp]:
  "isBuiltInAccessor v \<Longrightarrow> \<not> is_default_accessor v"
  by (cases v) (auto simp: isBuiltInAccessor_def BUILTIN_ACCESSORS_def is_default_accessor_def)

lemma fill_slot_eq [simp]: "fill_slot xs s = (if xs = [] then s else Some (last xs))"
  by (cases xs) simp_all

lemma select_loop_ok:
  "slots_ok vs b c \<Longrightarrow>
   select_loop path vs (d, b, c) =
     Inr (fill_slot (filter is_default_accessor vs) d,
          fill_slot (filter isBuiltInAccessor vs) b,
          fill_slot (filter is_custom_accessor vs) c)"
proof (induction vs arbitrary: d b c)
  case Nil
  then show ?case by simp
next
  case (Cons v vs)
  show ?case
  proof (cases "is_default_accessor v")
    case True
    then have "\<not> isBuiltInAccessor v" "\<not> is_custom_accessor v"
      using builtin_not_default by (auto simp: is_custom_accessor_def)
    with True Cons show ?thesis
      by (simp add: slots_ok_def is_default_accessor_def)
  next
    case nd: False
    show ?thesis
    proof (cases "isBuiltInAccessor v")
      case True
      with nd Cons.prems have "b = None" "filter isBuiltInAccessor vs = []"
        "slots_ok vs (Some v) c"
        by (auto simp: slots_ok_def is_custom_accessor_def split: if_splits)
      with True nd Cons.IH show ?thesis
        by (simp add: is_default_accessor_def is_custom_accessor_def)
    next
      case False
      with nd Cons.prems have "c = None" "filter is_custom_accessor vs = []"
        "slots_ok vs b (Some v)"
        by (auto simp: slots_ok_def is_custom_accessor_def split: if_splits)
      with False nd Cons.IH show ?thesis
        by (simp add: is_default_accessor_def is_custom_accessor_def)
    qed
  qed
qed

lemma select_loop_not_ok:
  "\<not> slots_ok vs b c \<Longrightarrow> isl (select_loop path vs (d, b, c))"
proof (induction vs arbitrary: d b c)
  case Nil
  then show ?case by (simp add: slots_ok_def split: if_splits)
next
  case (Cons v vs)
  show ?case
  proof (cases "is_default_accessor v")
    case True
    then have "\<not> isBuiltInAccessor v" "\<not> is_custom_accessor v"
      using builtin_not_default by (auto simp: is_custom_accessor_def)
    with True Cons show ?thesis
      by (simp add: slots_ok_def is_default_accessor_def)
  next
    case nd: False
    show ?thesis
    proof (cases "isBuiltInAccessor v")
      case True
      with nd Cons show ?thesis
        by (cases b) (auto simp: slots_ok_def is_default_accessor_def is_custom_accessor_def)
    next
      case False
      with nd Cons show ?thesis
        by (cases c) (auto simp: slots_ok_def is_default_accessor_def is_custom_accessor_def)
    qed
  qed
qed

lemma hd_eq_last_short: "length xs \<le> 1 \<Longrightarrow> xs \<noteq> [] \<Longrightarrow> hd xs = last xs"
  by (cases xs) auto

lemma selectValueAccessor_ok:
  assumes "slots_ok vs None None"
  shows "selectValueAccessor path (JsArray vs) =
           (case select_spec vs of
              Some a \<Rightarrow> Inr (Some a)
            | None \<Rightarrow> Inl (throwError path ''No valid value accessor for form control with''))"
proof -
  from assms have b: "length (filter isBuiltInAccessor vs) \<le> 1"
    and c: "length (filter is_custom_accessor vs) \<le> 1"
    by (simp_all add: slots_ok_def)
  show ?thesis
    using select_loop_ok [OF assms, of path None]
      hd_eq_last_short [OF b] hd_eq_last_short [OF c] b c
    by (simp add: selectValueAccessor_def select_spec_def Let_def)
qed

lemma selectValueAccessor_not_ok:
  assumes "\<not> slots_ok vs None None"
  shows "isl (selectValueAccessor path (JsArray vs)) \<and> select_spec vs = None"
proof -
  have "isl (select_loop path vs (None, None, None))"
    using assms by (rule select_loop_not_ok)
  moreover have "select_spec vs = None"
  proof -
    from assms have "length (filter isBuiltInAccessor vs) > 1 \<or>
        length (filter is_custom_accessor vs) > 1"
      by (auto simp: slots_ok_def split: if_splits)
    then show ?thesis by (auto simp: select_spec_def Let_def)
  qed
  ultimately show ?thesis
    by (auto simp: selectValueAccessor_def split: sum.splits)
qed

lemma select_loop_two_custom:
  assumes "filter isBuiltInAccessor vs = []"
    and "length (filter is_custom_accessor vs) + (if c = None then 0 else 1) \<ge> (2::nat)"
  shows "select_loop path vs (d, b, c) =
           Inl (throwError path ''More than one custom value accessor matches form control with'')"
  using assms
proof (induction vs arbitrary: d c)
  case (Cons v vs)
  show ?case
  proof (cases "is_default_accessor v")
    case True
    then have dv: "cva_class v = DefaultValueAccessorC" "\<not> isBuiltInAccessor v"
        "\<not> is_custom_accessor v"
      using builtin_not_default by (auto simp: is_default_accessor_def is_custom_accessor_def)
    with Cons.prems have "filter isBuiltInAccessor vs = []"
        "length (filter is_custom_accessor vs) + (if c = None then 0 else 1) \<ge> 2"
      by simp_all
    with Cons.IH dv show ?thesis by simp
  next
    case False
    with Cons.prems have cu: "is_custom_accessor v" "\<not> isBuiltInAccessor v"
        "cva_class v \<noteq> DefaultValueAccessorC"
      by (auto simp: is_custom_accessor_def is_default_accessor_def split: if_splits)
    with Cons.prems have vs: "filter isBuiltInAccessor vs = []"
        "length (filter is_custom_accessor vs) + 1 + (if c = None then 0 else 1) \<ge> 2"
      by simp_all
    show ?thesis
    proof (cases c)
      case None
      with vs have "length (filter is_custom_accessor vs) + (if Some v = None then 0 else 1) \<ge> 2"
        by simp
      with Cons.IH vs cu None show ?thesis by simp
    next
      case (Some c')
      with cu show ?thesis by simp
    qed
  qed
qed (simp split: if_splits)

text \<open>
  C8. On an array of candidates, \<open>selectValueAccessor\<close> returns an accessor exactly
  when the reference selection does (at most one built-in, at most one custom; custom,
  then built-in, then the last default), and that accessor; it never returns
  \<open>null\<close> for an array, so every other array ends in an error.
\<close>

theorem selectValueAccessor_spec:
  "(selectValueAccessor path (JsArray vs) = Inr (Some a) \<longleftrightarrow> select_spec vs = Some a) \<and>
   selectValueAccessor path (JsArray vs) \<noteq> Inr None"
proof (cases "slots_ok vs None None")
  case True
  then show ?thesis by (simp add: selectValueAccessor_ok split: option.splits)
next
  case False
  then show ?thesis using selectValueAccessor_not_ok [OF False, of path] by auto
qed

text \<open>
  C21. Priority: when exactly one custom accessor and at most one built-in accessor are
  attached, together with any default accessors in any order, the custom one is chosen.
\<close>

theorem selectValueAccessor_custom_wins:
  assumes "filter is_custom_accessor vs = [c]"
    and "length (filter isBuiltInAccessor vs) \<le> 1"
  shows "selectValueAccessor path (JsArray vs) = Inr (Some c)"
proof -
  from assms have ok: "slots_ok vs None None" by (simp add: slots_ok_def)
  from assms have "select_spec vs = Some c" by (simp add: select_spec_def Let_def)
  with ok show ?thesis by (simp add: selectValueAccessor_ok)
qed

theorem selectValueAccessor_custom_wins_witness:
  "selectValueAccessor [None] (JsArray [CVA CheckboxControlValueAccessorC 1,
      CVA (CustomAccessorC ''MyInput'' True) 2, CVA DefaultValueAccessorC 3]) =
   Inr (Some (CVA (CustomAccessorC ''MyInput'' True) 2))"
  using selectValueAccessor_custom_wins [of "[CVA CheckboxControlValueAccessorC 1,
      CVA (CustomAccessorC ''MyInput'' True) 2, CVA DefaultValueAccessorC 3]"
      "CVA (CustomAccessorC ''MyInput'' True) 2" "[None]"]
  by (simp add: is_custom_accessor_def is_default_accessor_def isBuiltInAccessor_def
      BUILTIN_ACCESSORS_def)

text \<open>
  C22. Two custom accessors and no built-in one: selection fails with the
  \<open>More than one custom value accessor\<close> error, whatever the order and the
  default accessors around them.
\<close>

theorem selectValueAccessor_two_custom:
  assumes "filter isBuiltInAccessor vs = []"
    and "length (filter is_custom_accessor vs) \<ge> 2"
  shows "selectValueAccessor path (JsArray vs) =
           Inl (throwError path ''More than one custom value accessor matches form control with'')"
  using select_loop_two_custom [of vs None path None None] assms
  by (simp add: selectValueAccessor_def)

theorem selectValueAccessor_two_custom_witness:
  "selectValueAccessor [Some ''city''] (JsArray [CVA (CustomAccessorC ''A'' False) 1,
      CVA DefaultValueAccessorC 2, CVA (CustomAccessorC ''B'' False) 3]) =
   Inl (Error (''More than one custom value accessor matches form control with name: '' @
      squote ''city''))"
  using selectValueAccessor_two_custom [of "[CVA (CustomAccessorC ''A'' False) 1,
      CVA DefaultValueAccessorC 2, CVA (CustomAccessorC ''B'' False) 3]" "[Some ''city'']"]
  by (simp add: is_custom_accessor_def is_default_accessor_def isBuiltInAccessor_def
      BUILTIN_ACCESSORS_def throwError_def messageEnd_def)

text \<open>
  C31. The message of a directive with a one-name path ends with that name when it is
  a non-empty string, and with \<open>unspecified name attribute\<close> otherwise; a longer
  path is printed joined by arrows.
\<close>

theorem throwError_names_control:
  "throwError [nm] msg =
     Error (msg @ '' '' @ (if name_truthy nm then ''name: '' @ squote (js_str nm)
                           else ''unspecified name attribute'')) \<and>
   throwError (controlPath nm (p # ps)) msg =
     Error (msg @ '' path: '' @ squote (js_join '' -> '' (p # ps) @ '' -> '' @ js_str nm))"
  by (cases nm) (simp_all add: throwError_def messageEnd_def controlPath_def js_join_snoc)

end
