(* ===== verification/Form_Control.thy ===== *)
theory Form_Control
  imports Prelude
begin

text \<open>
  The control value object (\<open>FormControl\<close> of \<open>@angular/forms\<close>). It is not part
  of the sources: it is the collaborator whose contract the spec fixes (section 6) and
  whose methods the sources call (\<open>setValue\<close>, \<open>markAsDirty\<close>,
  \<open>markAsTouched\<close>, \<open>updateValueAndValidity\<close>, \<open>registerOnChange\<close>,
  \<open>registerOnDisabledChange\<close>, \<open>_clearChangeFns\<close>, \<open>_syncPendingControls\<close>,
  \<open>enable\<close>/\<open>disable\<close>). The record keeps the value, the flags, the pending state,
  the update policy, the composed validators, the two listener registries (their
  element types are parameters: the change pipeline decides what a listener is) and
  two observable effects: the \<open>valueChanges\<close> emissions and the number of validity
  recomputations. Methods that call listeners return the control part here; the
  listener calls are made by the pipeline.
\<close>

section \<open>Validators\<close>

text \<open>
  A validator bound on the element: a plain validator function, or a validator
  directive object (its number, and whether it implements
  \<open>registerOnValidatorChange\<close>).
\<close>

datatype raw_validator = ValidatorFunction nat | ValidatorObject nat bool

text \<open>A validator function: a normalised raw validator, or a composition of several.\<close>

datatype vfn = Normalized raw_validator | Composed "vfn list"

text \<open>
  \<open>Validators.compose\<close> (and \<open>composeAsync\<close>, of the same shape): the present
  validators in order, \<open>null\<close> when there is none.
\<close>

definition compose :: "vfn option list \<Rightarrow> vfn option" where
  "compose validators =
     (let presentValidators = [v. Some v \<leftarrow> validators]
      in if presentValidators = [] then None else Some (Composed presentValidators))"

section \<open>The control\<close>

record ('m, 'd) form_control =
  fc_value :: jsval
  fc_pendingValue :: jsval
  fc_pendingChange :: bool
  fc_pendingDirty :: bool
  fc_pendingTouched :: bool
  fc_dirty :: bool
  fc_touched :: bool
  fc_disabled :: bool
  fc_updateOnOpt :: "update_on option"
  fc_parentUpdateOn :: "update_on option"
  fc_validator :: "vfn option"
  fc_asyncValidator :: "vfn option"
  fc_onChange :: "'m list"
  fc_onDisabledChange :: "'d list"
  fc_valueChanges :: "jsval list"
  fc_validityRuns :: nat

text \<open>
  The \<open>updateOn\<close> getter: the control's own \<open>_updateOn\<close>, else its parent's
  policy, else \<open>'change'\<close>.
\<close>

definition fc_updateOn :: "('m, 'd) form_control \<Rightarrow> update_on" where
  "fc_updateOn c =
     (case fc_updateOnOpt c of
        Some u \<Rightarrow> u
      | None \<Rightarrow> (case fc_parentUpdateOn c of Some u \<Rightarrow> u | None \<Rightarrow> UpdChange))"

text \<open>Options of \<open>setValue\<close> and \<open>updateValueAndValidity\<close>: an absent option counts as \<open>true\<close>.\<close>

record set_opts =
  emitModelToViewChange :: bool
  emitViewToModelChange :: bool
  emitEvent :: bool

definition no_opts :: set_opts where
  "no_opts = \<lparr>emitModelToViewChange = True, emitViewToModelChange = True, emitEvent = True\<rparr>"

text \<open>\<open>updateValueAndValidity({emitEvent})\<close>: recompute validity, then emit \<open>valueChanges\<close>.\<close>

definition fc_updateValueAndValidity :: "bool \<Rightarrow> ('m, 'd) form_control \<Rightarrow> ('m, 'd) form_control" where
  "fc_updateValueAndValidity emit c =
     c\<lparr>fc_validityRuns := Suc (fc_validityRuns c),
       fc_valueChanges := (if emit then fc_valueChanges c @ [fc_value c] else fc_valueChanges c)\<rparr>"

text \<open>\<open>new FormControl()\<close>: value \<open>null\<close>, no listeners, validity computed silently.\<close>

definition fc_new :: "('m, 'd) form_control" where
  "fc_new =
     fc_updateValueAndValidity False
      \<lparr>fc_value = JNull, fc_pendingValue = JNull, fc_pendingChange = False,
       fc_pendingDirty = False, fc_pendingTouched = False, fc_dirty = False, fc_touched = False,
       fc_disabled = False, fc_updateOnOpt = None, fc_parentUpdateOn = None,
       fc_validator = None, fc_asyncValidator = None, fc_onChange = [], fc_onDisabledChange = [],
       fc_valueChanges = [], fc_validityRuns = 0\<rparr>"

definition fc_markAsDirty :: "('m, 'd) form_control \<Rightarrow> ('m, 'd) form_control" where
  "fc_markAsDirty c = c\<lparr>fc_dirty := True\<rparr>"

definition fc_markAsTouched :: "('m, 'd) form_control \<Rightarrow> ('m, 'd) form_control" where
  "fc_markAsTouched c = c\<lparr>fc_touched := True\<rparr>"

text \<open>The first statement of \<open>setValue\<close>: \<open>this.value = this._pendingValue = value\<close>.\<close>

definition fc_assign :: "jsval \<Rightarrow> ('m, 'd) form_control \<Rightarrow> ('m, 'd) form_control" where
  "fc_assign v c = c\<lparr>fc_value := v, fc_pendingValue := v\<rparr>"

definition fc_registerOnChange :: "'m \<Rightarrow> ('m, 'd) form_control \<Rightarrow> ('m, 'd) form_control" where
  "fc_registerOnChange fn c = c\<lparr>fc_onChange := fc_onChange c @ [fn]\<rparr>"

definition fc_registerOnDisabledChange :: "'d \<Rightarrow> ('m, 'd) form_control \<Rightarrow> ('m, 'd) form_control" where
  "fc_registerOnDisabledChange fn c = c\<lparr>fc_onDisabledChange := fc_onDisabledChange c @ [fn]\<rparr>"

definition fc_clearChangeFns :: "('m, 'd) form_control \<Rightarrow> ('m, 'd) form_control" where
  "fc_clearChangeFns c = c\<lparr>fc_onChange := [], fc_onDisabledChange := []\<rparr>"

text \<open>
  \<open>_syncPendingControls\<close> of a control under the \<open>'submit'\<close> policy: commit the
  pending dirty and touched flags, and the pending value by
  \<open>setValue(_pendingValue, {emitModelToViewChange: false})\<close>, which calls no listener;
  the result says whether a value was committed. It does not clear \<open>_pendingChange\<close>.
\<close>

definition fc_syncPendingControls :: "('m, 'd) form_control \<Rightarrow> ('m, 'd) form_control \<times> bool" where
  "fc_syncPendingControls c =
     (if fc_updateOn c = UpdSubmit then
        (let c1 = (if fc_pendingDirty c then fc_markAsDirty c else c);
             c2 = (if fc_pendingTouched c1 then fc_markAsTouched c1 else c1)
         in if fc_pendingChange c2
            then (fc_updateValueAndValidity True (fc_assign (fc_pendingValue c2) c2), True)
            else (c2, False))
      else (c, False))"

text \<open>The control part of \<open>disable()\<close> and \<open>enable()\<close>; the listeners run after it.\<close>

definition fc_disable :: "('m, 'd) form_control \<Rightarrow> ('m, 'd) form_control" where
  "fc_disable c = c\<lparr>fc_disabled := True, fc_valueChanges := fc_valueChanges c @ [fc_value c]\<rparr>"

definition fc_enable :: "('m, 'd) form_control \<Rightarrow> ('m, 'd) form_control" where
  "fc_enable c = fc_updateValueAndValidity True (c\<lparr>fc_disabled := False\<rparr>)"

section \<open>Lemmas\<close>

lemmas fc_ops_defs [wiring_simps] =
  fc_updateValueAndValidity_def fc_markAsDirty_def fc_markAsTouched_def fc_assign_def
  fc_registerOnChange_def fc_registerOnDisabledChange_def fc_clearChangeFns_def
  fc_disable_def fc_enable_def

text \<open>The policy depends on \<open>_updateOn\<close> and the parent only.\<close>

lemma fc_updateOn_frame [simp]:
  "fc_updateOn (fc_value_update f1 c) = fc_updateOn c"
  "fc_updateOn (fc_pendingValue_update f2 c) = fc_updateOn c"
  "fc_updateOn (fc_pendingChange_update f3 c) = fc_updateOn c"
  "fc_updateOn (fc_pendingDirty_update f4 c) = fc_updateOn c"
  "fc_updateOn (fc_pendingTouched_update f5 c) = fc_updateOn c"
  "fc_updateOn (fc_dirty_update f6 c) = fc_updateOn c"
  "fc_updateOn (fc_touched_update f7 c) = fc_updateOn c"
  "fc_updateOn (fc_disabled_update f8 c) = fc_updateOn c"
  "fc_updateOn (fc_validator_update f9 c) = fc_updateOn c"
  "fc_updateOn (fc_asyncValidator_update f10 c) = fc_updateOn c"
  "fc_updateOn (fc_onChange_update f11 c) = fc_updateOn c"
  "fc_updateOn (fc_onDisabledChange_update f12 c) = fc_updateOn c"
  "fc_updateOn (fc_valueChanges_update f13 c) = fc_updateOn c"
  "fc_updateOn (fc_validityRuns_update f14 c) = fc_updateOn c"
  by (simp_all add: fc_updateOn_def split: option.splits)

lemma fc_updateOn_ops [simp]:
  "fc_updateOn (fc_updateValueAndValidity e c) = fc_updateOn c"
  "fc_updateOn (fc_markAsDirty c) = fc_updateOn c"
  "fc_updateOn (fc_markAsTouched c) = fc_updateOn c"
  "fc_updateOn (fc_assign v c) = fc_updateOn c"
  by (simp_all add: fc_ops_defs)

lemma fc_new_simps [simp]:
  "fc_value fc_new = JNull" "fc_pendingValue fc_new = JNull" "\<not> fc_pendingChange fc_new"
  "\<not> fc_pendingDirty fc_new" "\<not> fc_pendingTouched fc_new" "\<not> fc_dirty fc_new"
  "\<not> fc_touched fc_new" "\<not> fc_disabled fc_new" "fc_updateOnOpt fc_new = None"
  "fc_parentUpdateOn fc_new = None" "fc_validator fc_new = None" "fc_asyncValidator fc_new = None"
  "fc_onChange fc_new = []" "fc_onDisabledChange fc_new = []" "fc_valueChanges fc_new = []"
  "fc_validityRuns fc_new = 1"
  by (simp_all add: fc_new_def fc_updateValueAndValidity_def)

lemma compose_Nil [simp]: "compose [] = None"
  by (simp add: compose_def)

end
