(* ===== verification/Shared_Helpers.thy ===== *)
theory Shared_Helpers
  imports Accessor_Selector Form_Control
begin

text \<open>
  The stateless helpers of \<open>src/ng-model/shared.ts\<close> that the directives call
  around the change pipeline: validator composition (\<open>composeValidators\<close>,
  \<open>composeAsyncValidators\<close>, \<open>setUpFormContainer\<close>), the change test of
  \<open>ngOnChanges\<close> (\<open>isPropertyUpdated\<close> over a \<open>SimpleChange\<close>), directive-list
  removal (\<open>removeDir\<close>), and the deprecation warning \<open>_ngModelWarning\<close> with its
  once-per-class and once-per-instance flags. Lemmas: \<open>removeDir\<close> is
  \<open>remove1\<close>, \<open>isPropertyUpdated\<close> is "first change or a different value", and the
  warning is logged at most once per class under the \<open>'once'\<close> policy.
\<close>

section \<open>Validator composition\<close>

text \<open>\<open>normalizeValidator\<close>: a validator object becomes its bound \<open>validate\<close>.\<close>

definition normalizeValidator :: "raw_validator \<Rightarrow> vfn" where
  "normalizeValidator v = Normalized v"

definition normalizeAsyncValidator :: "raw_validator \<Rightarrow> vfn" where
  "normalizeAsyncValidator v = Normalized v"

definition composeValidators :: "raw_validator list option \<Rightarrow> vfn option" where
  "composeValidators validators =
     (case validators of
        None \<Rightarrow> None
      | Some vs \<Rightarrow> compose (map (\<lambda>v. Some (normalizeValidator v)) vs))"

definition composeAsyncValidators :: "raw_validator list option \<Rightarrow> vfn option" where
  "composeAsyncValidators validators =
     (case validators of
        None \<Rightarrow> None
      | Some vs \<Rightarrow> compose (map (\<lambda>v. Some (normalizeAsyncValidator v)) vs))"

text \<open>The validators of a form group or array, as \<open>setUpFormContainer\<close> sees them.\<close>

record container_validators =
  cv_validator :: "vfn option"
  cv_asyncValidator :: "vfn option"

definition setUpFormContainer ::
  "container_validators option \<Rightarrow> name list \<Rightarrow> vfn option \<Rightarrow> vfn option \<Rightarrow> container_validators throws" where
  "setUpFormContainer control path dirValidator dirAsyncValidator =
     (case control of
        None \<Rightarrow> Inl (throwError path ''Cannot find control with'')
      | Some c \<Rightarrow>
          Inr \<lparr>cv_validator = compose [cv_validator c, dirValidator],
               cv_asyncValidator = compose [cv_asyncValidator c, dirAsyncValidator]\<rparr>)"

section \<open>Change detection\<close>

text \<open>\<open>SimpleChange\<close> of one input; \<open>None\<close> when \<open>changes\<close> has no such key.\<close>

record 'a simple_change =
  sc_previousValue :: 'a
  sc_currentValue :: 'a
  sc_firstChange :: bool

definition isPropertyUpdated :: "jsval simple_change option \<Rightarrow> jsval \<Rightarrow> bool" where
  "isPropertyUpdated change viewModel =
     (case change of
        None \<Rightarrow> False
      | Some ch \<Rightarrow> if sc_firstChange ch then True
                   else \<not> looseIdentical viewModel (sc_currentValue ch))"

section \<open>Directive lists\<close>

text \<open>\<open>Array.prototype.indexOf\<close> (by \<open>===\<close>, object identity), \<open>-1\<close> when absent.\<close>

fun indexOf :: "'a list \<Rightarrow> 'a \<Rightarrow> int" where
  "indexOf [] el = -1"
| "indexOf (x # xs) el = (if x = el then 0 else (let i = indexOf xs el in if i < 0 then i else i + 1))"

definition removeDir :: "'a list \<Rightarrow> 'a \<Rightarrow> 'a list" where
  "removeDir list el =
     (let index = indexOf list el
      in if index > -1 then take (nat index) list @ drop (nat index + 1) list else list)"

section \<open>The deprecation warning\<close>

text \<open>
  The flags \<open>_ngModelWarning\<close> reads and sets: the class's
  \<open>_ngModelWarningSentOnce\<close>, each instance's \<open>_ngModelWarningSent\<close> (by
  instance number), and the warnings \<open>ReactiveErrors.ngModelWarning\<close> printed.
\<close>

record warn_state =
  w_sentOnce :: bool
  w_sent :: "nat \<Rightarrow> bool"
  w_log :: "string list"

definition ngModelWarning ::
  "bool \<Rightarrow> string \<Rightarrow> nat \<Rightarrow> string option \<Rightarrow> warn_state \<Rightarrow> warn_state" where
  "ngModelWarning devMode nm inst warningConfig s =
     (if \<not> devMode \<or> warningConfig = Some ''never'' then s
      else if ((warningConfig = None \<or> warningConfig = Some ''once'') \<and> \<not> w_sentOnce s) \<or>
              (warningConfig = Some ''always'' \<and> \<not> w_sent s inst)
      then s\<lparr>w_log := w_log s @ [nm], w_sentOnce := True, w_sent := (w_sent s)(inst := True)\<rparr>
      else s)"

text \<open>A sequence of directive instances of one class, each calling the warning once.\<close>

definition ngModelWarning_calls ::
  "bool \<Rightarrow> string \<Rightarrow> string option \<Rightarrow> nat list \<Rightarrow> warn_state \<Rightarrow> warn_state" where
  "ngModelWarning_calls devMode nm warningConfig insts s =
     fold (\<lambda>i. ngModelWarning devMode nm i warningConfig) insts s"

section \<open>Lemmas\<close>

lemma composeValidators_Some [simp]:
  "composeValidators (Some vs) = (if vs = [] then None else Some (Composed (map Normalized vs)))"
  by (simp add: composeValidators_def compose_def normalizeValidator_def comp_def)

lemma composeAsyncValidators_Some [simp]:
  "composeAsyncValidators (Some vs) = (if vs = [] then None else Some (Composed (map Normalized vs)))"
  by (simp add: composeAsyncValidators_def compose_def normalizeAsyncValidator_def comp_def)

lemma indexOf_found: "indexOf xs el \<ge> 0 \<longleftrightarrow> el \<in> set xs"
  by (induction xs) (auto simp: Let_def)

lemma indexOf_prefix:
  "el \<in> set xs \<Longrightarrow> \<exists>ys zs. xs = ys @ el # zs \<and> el \<notin> set ys \<and> indexOf xs el = int (length ys)"
proof (induction xs)
  case (Cons x xs)
  show ?case
  proof (cases "x = el")
    case True
    then show ?thesis by force
  next
    case False
    with Cons obtain ys zs where "xs = ys @ el # zs" "el \<notin> set ys" "indexOf xs el = int (length ys)"
      by auto
    with False have "x # xs = (x # ys) @ el # zs \<and> el \<notin> set (x # ys) \<and>
        indexOf (x # xs) el = int (length (x # ys))"
      by (auto simp: Let_def)
    then show ?thesis by blast
  qed
qed simp

lemma ngModelWarning_once_step:
  assumes "warningConfig = None \<or> warningConfig = Some ''once''"
  shows "length (w_log (ngModelWarning devMode nm i warningConfig s)) \<le>
           length (w_log s) + (if w_sentOnce s then 0 else 1)
       \<and> (w_sentOnce s \<longrightarrow> w_sentOnce (ngModelWarning devMode nm i warningConfig s))
       \<and> (length (w_log (ngModelWarning devMode nm i warningConfig s)) > length (w_log s) \<longrightarrow>
            w_sentOnce (ngModelWarning devMode nm i warningConfig s))"
  using assms by (auto simp: ngModelWarning_def)

text \<open>
  C29. \<open>removeDir(list, el)\<close> removes exactly the first occurrence of \<open>el\<close> and
  leaves a list without it unchanged: it is the library's \<open>remove1\<close>.
\<close>

theorem removeDir_is_remove1: "removeDir xs el = remove1 el xs"
proof (cases "el \<in> set xs")
  case True
  from indexOf_prefix [OF True] obtain ys zs where xs: "xs = ys @ el # zs"
      and ys: "el \<notin> set ys" and ix: "indexOf xs el = int (length ys)"
    by blast
  from ys have "remove1 el xs = ys @ zs" unfolding xs by (simp add: remove1_append)
  moreover from ix have "removeDir xs el = ys @ zs" unfolding xs by (simp add: removeDir_def Let_def)
  ultimately show ?thesis by simp
next
  case False
  then have "indexOf xs el < 0" using indexOf_found [of xs el] by linarith
  then have "removeDir xs el = xs" by (simp add: removeDir_def Let_def)
  with False show ?thesis by (simp add: remove1_idem)
qed

text \<open>
  C28. \<open>isPropertyUpdated\<close> reports no update when \<open>ngModel\<close> did not change, and
  otherwise an update exactly on the first change or when the new value differs from
  the last view model (with \<open>NaN\<close> equal to \<open>NaN\<close>).
\<close>

theorem isPropertyUpdated_iff:
  "\<not> isPropertyUpdated None viewModel \<and>
   (isPropertyUpdated (Some ch) viewModel \<longleftrightarrow>
      sc_firstChange ch \<or> sc_currentValue ch \<noteq> viewModel)"
  by (auto simp: isPropertyUpdated_def looseIdentical_iff)

text \<open>
  C30. Under the \<open>'once'\<close> warning policy (or none configured), however many
  \<open>ngModel\<close> instances of a class call \<open>_ngModelWarning\<close>, at most one warning is
  printed, and none once the class flag is set.
\<close>

theorem ngModelWarning_at_most_once:
  assumes "warningConfig = None \<or> warningConfig = Some ''once''"
  shows "length (w_log (ngModelWarning_calls devMode nm warningConfig insts s)) \<le>
           length (w_log s) + (if w_sentOnce s then 0 else 1)"
proof (induction insts arbitrary: s)
  case Nil
  then show ?case by (simp add: ngModelWarning_calls_def)
next
  case (Cons i insts)
  let ?s1 = "ngModelWarning devMode nm i warningConfig s"
  have run: "ngModelWarning_calls devMode nm warningConfig (i # insts) s =
      ngModelWarning_calls devMode nm warningConfig insts ?s1"
    by (simp add: ngModelWarning_calls_def)
  have step: "length (w_log ?s1) \<le> length (w_log s) + (if w_sentOnce s then 0 else 1)"
      "w_sentOnce s \<longrightarrow> w_sentOnce ?s1"
      "length (w_log ?s1) > length (w_log s) \<longrightarrow> w_sentOnce ?s1"
    using ngModelWarning_once_step [OF assms] by blast+
  have IH: "length (w_log (ngModelWarning_calls devMode nm warningConfig insts ?s1)) \<le>
      length (w_log ?s1) + (if w_sentOnce ?s1 then 0 else 1)"
    by (rule Cons.IH)
  show ?case
  proof (cases "w_sentOnce s")
    case True
    with step have "w_sentOnce ?s1" "length (w_log ?s1) \<le> length (w_log s)" by simp_all
    with IH show ?thesis unfolding run using True by simp
  next
    case False
    show ?thesis
    proof (cases "length (w_log ?s1) > length (w_log s)")
      case True
      with step have "w_sentOnce ?s1" by simp
      with IH step(1) False show ?thesis unfolding run by simp
    next
      case grown: False
      with IH False show ?thesis unfolding run by (simp split: if_splits)
    qed
  qed
qed

theorem ngModelWarning_at_most_once_witness:
  "length (w_log (ngModelWarning_calls True ''ngModel'' (Some ''once'') [1, 2, 3]
       \<lparr>w_sentOnce = False, w_sent = (\<lambda>_. False), w_log = []\<rparr>)) \<le> 1"
  using ngModelWarning_at_most_once [of "Some ''once''" True "''ngModel''" "[1, 2, 3]"
      "\<lparr>w_sentOnce = False, w_sent = (\<lambda>_. False), w_log = []\<rparr>"]
  by simp

end
