(* ===== verification/Change_Pipeline.thy ===== *)
theory Change_Pipeline
  imports Default_Value_Accessor Shared_Helpers
begin

text \<open>
  The change pipeline of \<open>src/ng-model/shared.ts\<close>: \<open>setUpControl\<close> wires one
  control to one directive and its accessor, \<open>cleanUpControl\<close> unwires it,
  \<open>updateControl\<close> commits a pending view value, \<open>syncPendingControls\<close> commits
  the \<open>'submit'\<close> controls of a form. The closures the sources install are
  values of small datatypes (\<open>change_cb\<close>, \<open>touched_cb\<close>, \<open>model_cb\<close>,
  \<open>disabled_cb\<close>), one constructor per arrow function, and the dispatch functions
  \<open>run_*_cb\<close> execute their bodies. The state they act on is a \<open>binding\<close>: the
  control, the directive's fields, the selected accessor's callback slots (and IME
  flags when it is the text accessor), the calls made on the view, the
  \<open>ngModelChange\<close> emissions, the validator-change callbacks, the microtask queue,
  the errors that reached the event loop, and the enclosing form's registry (the
  names of its controls, whether this directive is registered, its update policy).
\<close>

section \<open>Installed callbacks\<close>

text \<open>
  \<open>ViewToModelCb\<close> is the closure of \<open>setUpViewChangePipeline\<close>,
  \<open>BlurToTouchedCb\<close> that of \<open>setUpBlurPipeline\<close>, \<open>ModelToViewCb\<close> that of
  \<open>setUpModelChangePipeline\<close>, \<open>DisabledToViewCb\<close> the disabled listener of
  \<open>setUpControl\<close>, and the \<open>NoControl\<close> ones the throwing stubs of
  \<open>cleanUpControl\<close>.
\<close>

datatype change_cb = ViewToModelCb | NoControlOnChangeCb
datatype touched_cb = BlurToTouchedCb | NoControlOnTouchedCb
datatype model_cb = ModelToViewCb
datatype disabled_cb = DisabledToViewCb

type_synonym control = "(model_cb, disabled_cb) form_control"
type_synonym accessor = "(change_cb, touched_cb) dva"

section \<open>The directive\<close>

text \<open>
  The structural parent of an \<open>ngModel\<close>: an \<open>NgModelGroup\<close>, an \<open>NgForm\<close>,
  another \<open>AbstractFormGroupDirective\<close> (\<open>formGroupName\<close>), or another
  \<open>ControlContainer\<close> (\<open>formGroup\<close>, \<open>formArrayName\<close>), with its path.
\<close>

datatype parent_kind = NgModelGroupP | NgFormP | FormGroupNameP | OtherContainerP

record container =
  ct_kind :: parent_kind
  ct_path :: "name list"

text \<open>\<open>ngModelOptions\<close>: \<open>name\<close>, \<open>standalone\<close> (only its truthiness is read), \<open>updateOn\<close>.\<close>

record ng_options =
  opt_name :: name
  opt_standalone :: bool
  opt_updateOn :: "update_on option"

text \<open>The fields of \<open>NgModel\<close> (and of \<open>NgControl\<close>, which it extends).\<close>

record ngmodel =
  nm_parent :: "container option"
  nm_rawValidators :: "raw_validator list"
  nm_rawAsyncValidators :: "raw_validator list"
  nm_valueAccessor :: "cva option"
  nm_registered :: bool
  nm_viewModel :: jsval
  nm_name :: name
  nm_isDisabled :: jsval
  nm_model :: jsval
  nm_options :: "ng_options option"

text \<open>The \<open>path\<close> getter: \<open>controlPath(name, parent)\<close>, or \<open>[name]\<close> without a parent.\<close>

definition nm_path :: "ngmodel \<Rightarrow> name list" where
  "nm_path d =
     (case nm_parent d of Some p \<Rightarrow> controlPath (nm_name d) (ct_path p) | None \<Rightarrow> [nm_name d])"

definition nm_validator :: "ngmodel \<Rightarrow> vfn option" where
  "nm_validator d = composeValidators (Some (nm_rawValidators d))"

definition nm_asyncValidator :: "ngmodel \<Rightarrow> vfn option" where
  "nm_asyncValidator d = composeAsyncValidators (Some (nm_rawAsyncValidators d))"

section \<open>The binding\<close>

text \<open>
  Work deferred with \<open>resolvedPromise.then\<close>: \<open>_updateValue\<close>,
  \<open>_updateDisabled\<close>, and the form's \<open>addControl\<close>/\<open>removeControl\<close>.
\<close>

datatype task = SetValueTask jsval | DisabledTask bool | AddControlTask | RemoveControlTask

text \<open>
  A call that reaches the view: a renderer call of the text accessor, or a
  \<open>writeValue\<close>/\<open>setDisabledState\<close> call on another accessor.
\<close>

datatype view_op = Render dom_op | AccessorWriteValue cva jsval | AccessorSetDisabledState cva bool

record binding =
  ctrl :: control
  dir :: ngmodel
  acc :: accessor
  viewOps :: "view_op list"
  emitted :: "jsval list"
  validatorCb :: "nat \<Rightarrow> bool"
  queue :: "task list"
  uncaught :: "ng_error list"
  formNames :: "name list"
  inForm :: bool
  formUpdateOn :: update_on

section \<open>The accessor as the pipeline calls it\<close>

text \<open>
  \<open>dir.valueAccessor!.writeValue(v)\<close>: the text accessor's renderer call, or the
  call on another accessor. The pipeline installs listeners only after
  \<open>setUpControl\<close> checked that an accessor is present, so the \<open>None\<close> case is
  never reached from an installed listener.
\<close>

definition accessor_write :: "cva \<Rightarrow> jsval \<Rightarrow> view_op" where
  "accessor_write a v =
     (if cva_class a = DefaultValueAccessorC then Render (dva_writeValue v) else AccessorWriteValue a v)"

definition accessor_setDisabled :: "cva \<Rightarrow> bool \<Rightarrow> view_op" where
  "accessor_setDisabled a isDisabled =
     (if cva_class a = DefaultValueAccessorC then Render (dva_setDisabledState isDisabled)
      else AccessorSetDisabledState a isDisabled)"

definition va_writeValue :: "jsval \<Rightarrow> binding \<Rightarrow> binding" where
  "va_writeValue v b =
     (case nm_valueAccessor (dir b) of
        None \<Rightarrow> b
      | Some a \<Rightarrow> b\<lparr>viewOps := viewOps b @ [accessor_write a v]\<rparr>)"

definition va_setDisabledState :: "bool \<Rightarrow> binding \<Rightarrow> binding" where
  "va_setDisabledState isDisabled b =
     (case nm_valueAccessor (dir b) of
        None \<Rightarrow> b
      | Some a \<Rightarrow> b\<lparr>viewOps := viewOps b @ [accessor_setDisabled a isDisabled]\<rparr>)"

definition va_has_setDisabledState :: "binding \<Rightarrow> bool" where
  "va_has_setDisabledState b =
     (case nm_valueAccessor (dir b) of None \<Rightarrow> False | Some a \<Rightarrow> has_setDisabledState (cva_class a))"

definition va_registerOnChange :: "change_cb \<Rightarrow> binding \<Rightarrow> binding" where
  "va_registerOnChange fn b = b\<lparr>acc := dva_registerOnChange fn (acc b)\<rparr>"

definition va_registerOnTouched :: "touched_cb \<Rightarrow> binding \<Rightarrow> binding" where
  "va_registerOnTouched fn b = b\<lparr>acc := dva_registerOnTouched fn (acc b)\<rparr>"

section \<open>Callback bodies\<close>

text \<open>\<open>NgModel.viewToModelUpdate\<close>: remember the value and emit \<open>ngModelChange\<close>.\<close>

definition viewToModelUpdate :: "jsval \<Rightarrow> binding \<Rightarrow> binding" where
  "viewToModelUpdate newValue b =
     b\<lparr>dir := (dir b)\<lparr>nm_viewModel := newValue\<rparr>, emitted := emitted b @ [newValue]\<rparr>"

text \<open>The listener of \<open>setUpModelChangePipeline\<close>: control to view, then to \<open>ngModel\<close>.\<close>

definition model_to_view :: "jsval \<Rightarrow> bool \<Rightarrow> binding \<Rightarrow> binding" where
  "model_to_view newValue emitModelEvent b =
     (let b1 = va_writeValue newValue b
      in if emitModelEvent then viewToModelUpdate newValue b1 else b1)"

fun run_model_cb :: "model_cb \<Rightarrow> jsval \<Rightarrow> bool \<Rightarrow> binding \<Rightarrow> binding" where
  "run_model_cb ModelToViewCb v emitModelEvent b = model_to_view v emitModelEvent b"

text \<open>
  \<open>FormControl.setValue(value, options)\<close>: assign, call every change listener with
  the value and \<open>emitViewToModelChange !== false\<close> unless
  \<open>emitModelToViewChange === false\<close>, then \<open>updateValueAndValidity(options)\<close>.
\<close>

definition control_setValue :: "jsval \<Rightarrow> set_opts \<Rightarrow> binding \<Rightarrow> binding" where
  "control_setValue v opts b =
     (let b1 = b\<lparr>ctrl := fc_assign v (ctrl b)\<rparr>;
          b2 = (if fc_onChange (ctrl b1) \<noteq> [] \<and> emitModelToViewChange opts
                then fold (\<lambda>f. run_model_cb f (fc_value (ctrl b1)) (emitViewToModelChange opts))
                       (fc_onChange (ctrl b1)) b1
                else b1)
      in b2\<lparr>ctrl := fc_updateValueAndValidity (emitEvent opts) (ctrl b2)\<rparr>)"

text \<open>\<open>updateControl\<close>: commit the pending view value.\<close>

definition updateControl :: "binding \<Rightarrow> binding" where
  "updateControl b =
     (let b1 = (if fc_pendingDirty (ctrl b) then b\<lparr>ctrl := fc_markAsDirty (ctrl b)\<rparr> else b);
          b2 = control_setValue (fc_pendingValue (ctrl b1))
                 (no_opts\<lparr>emitModelToViewChange := False\<rparr>) b1;
          b3 = viewToModelUpdate (fc_pendingValue (ctrl b2)) b2
      in b3\<lparr>ctrl := (ctrl b3)\<lparr>fc_pendingChange := False\<rparr>\<rparr>)"

text \<open>The closure of \<open>setUpViewChangePipeline\<close>.\<close>

definition view_change :: "jsval \<Rightarrow> binding \<Rightarrow> binding" where
  "view_change newValue b =
     (let b1 = b\<lparr>ctrl := (ctrl b)\<lparr>fc_pendingValue := newValue, fc_pendingChange := True,
                                   fc_pendingDirty := True\<rparr>\<rparr>
      in if fc_updateOn (ctrl b1) = UpdChange then updateControl b1 else b1)"

text \<open>The closure of \<open>setUpBlurPipeline\<close>.\<close>

definition blur_touched :: "binding \<Rightarrow> binding" where
  "blur_touched b =
     (let b1 = b\<lparr>ctrl := (ctrl b)\<lparr>fc_pendingTouched := True\<rparr>\<rparr>;
          b2 = (if fc_updateOn (ctrl b1) = UpdBlur \<and> fc_pendingChange (ctrl b1)
                then updateControl b1 else b1)
      in if fc_updateOn (ctrl b2) \<noteq> UpdSubmit then b2\<lparr>ctrl := fc_markAsTouched (ctrl b2)\<rparr> else b2)"

definition noControlError :: "ngmodel \<Rightarrow> ng_error" where
  "noControlError d =
     throwError (nm_path d) ''There is no FormControl instance attached to form control element with''"

text \<open>The accessor's \<open>onChange\<close>/\<open>onTouched\<close> slots called: \<open>None\<close> is its no-op default.\<close>

fun run_change_cb :: "change_cb option \<Rightarrow> jsval \<Rightarrow> binding \<Rightarrow> binding throws" where
  "run_change_cb None v b = Inr b"
| "run_change_cb (Some ViewToModelCb) v b = Inr (view_change v b)"
| "run_change_cb (Some NoControlOnChangeCb) v b = Inl (noControlError (dir b))"

fun run_touched_cb :: "touched_cb option \<Rightarrow> binding \<Rightarrow> binding throws" where
  "run_touched_cb None b = Inr b"
| "run_touched_cb (Some BlurToTouchedCb) b = Inr (blur_touched b)"
| "run_touched_cb (Some NoControlOnTouchedCb) b = Inl (noControlError (dir b))"

fun run_disabled_cb :: "disabled_cb \<Rightarrow> bool \<Rightarrow> binding \<Rightarrow> binding" where
  "run_disabled_cb DisabledToViewCb isDisabled b = va_setDisabledState isDisabled b"

text \<open>\<open>disable()\<close> and \<open>enable()\<close> of the control, with their disabled listeners.\<close>

definition control_disable :: "binding \<Rightarrow> binding" where
  "control_disable b =
     (let b1 = b\<lparr>ctrl := fc_disable (ctrl b)\<rparr>
      in fold (\<lambda>f. run_disabled_cb f True) (fc_onDisabledChange (ctrl b1)) b1)"

definition control_enable :: "binding \<Rightarrow> binding" where
  "control_enable b =
     (let b1 = b\<lparr>ctrl := fc_enable (ctrl b)\<rparr>
      in fold (\<lambda>f. run_disabled_cb f False) (fc_onDisabledChange (ctrl b1)) b1)"

section \<open>Set-up and tear-down\<close>

definition setUpViewChangePipeline :: "binding \<Rightarrow> binding" where
  "setUpViewChangePipeline b = va_registerOnChange ViewToModelCb b"

definition setUpBlurPipeline :: "binding \<Rightarrow> binding" where
  "setUpBlurPipeline b = va_registerOnTouched BlurToTouchedCb b"

definition setUpModelChangePipeline :: "binding \<Rightarrow> binding" where
  "setUpModelChangePipeline b = b\<lparr>ctrl := fc_registerOnChange ModelToViewCb (ctrl b)\<rparr>"

text \<open>\<open>validator.registerOnValidatorChange(fn)\<close> where the validator has that method.\<close>

definition registerOnValidatorChange :: "bool \<Rightarrow> raw_validator \<Rightarrow> binding \<Rightarrow> binding" where
  "registerOnValidatorChange on v b =
     (case v of
        ValidatorFunction _ \<Rightarrow> b
      | ValidatorObject i hasRegister \<Rightarrow>
          if hasRegister then b\<lparr>validatorCb := (validatorCb b)(i := on)\<rparr> else b)"

definition setUpControl :: "control option \<Rightarrow> binding \<Rightarrow> binding throws" where
  "setUpControl control b =
     (case control of
        None \<Rightarrow> Inl (throwError (nm_path (dir b)) ''Cannot find control with'')
      | Some c \<Rightarrow>
          if nm_valueAccessor (dir b) = None
          then Inl (throwError (nm_path (dir b)) ''No value accessor for form control with'')
          else
            (let d = dir b;
                 c1 = c\<lparr>fc_validator := compose [fc_validator c, nm_validator d],
                        fc_asyncValidator := compose [fc_asyncValidator c, nm_asyncValidator d]\<rparr>;
                 b1 = va_writeValue (fc_value c1) (b\<lparr>ctrl := c1\<rparr>);
                 b2 = setUpViewChangePipeline b1;
                 b3 = setUpModelChangePipeline b2;
                 b4 = setUpBlurPipeline b3;
                 b5 = (if va_has_setDisabledState b4
                       then b4\<lparr>ctrl := fc_registerOnDisabledChange DisabledToViewCb (ctrl b4)\<rparr>
                       else b4);
                 b6 = fold (registerOnValidatorChange True) (nm_rawValidators d) b5
             in Inr (fold (registerOnValidatorChange True) (nm_rawAsyncValidators d) b6)))"

definition cleanUpControl :: "control option \<Rightarrow> binding \<Rightarrow> binding throws" where
  "cleanUpControl control b =
     (if nm_valueAccessor (dir b) = None
      then Inl (TypeError ''Cannot read property registerOnChange of null'')
      else
        (let b1 = va_registerOnChange NoControlOnChangeCb b;
             b2 = va_registerOnTouched NoControlOnTouchedCb b1;
             b3 = fold (registerOnValidatorChange False) (nm_rawValidators (dir b2)) b2;
             b4 = fold (registerOnValidatorChange False) (nm_rawAsyncValidators (dir b3)) b3
         in Inr (case control of None \<Rightarrow> b4 | Some c \<Rightarrow> b4\<lparr>ctrl := fc_clearChangeFns c\<rparr>)))"

section \<open>Submit\<close>

text \<open>
  \<open>form._syncPendingControls()\<close>: the form group syncs each of its controls; the
  form's controls are those of the directives passed along.
\<close>

definition form_syncPendingControls :: "binding list \<Rightarrow> binding list" where
  "form_syncPendingControls bs = map (\<lambda>b. b\<lparr>ctrl := fst (fc_syncPendingControls (ctrl b))\<rparr>) bs"

definition dir_syncPending :: "binding \<Rightarrow> binding" where
  "dir_syncPending b =
     (if fc_updateOn (ctrl b) = UpdSubmit \<and> fc_pendingChange (ctrl b)
      then (let b1 = viewToModelUpdate (fc_pendingValue (ctrl b)) b
            in b1\<lparr>ctrl := (ctrl b1)\<lparr>fc_pendingChange := False\<rparr>\<rparr>)
      else b)"

definition syncPendingControls :: "binding list \<Rightarrow> binding list" where
  "syncPendingControls directives = map dir_syncPending (form_syncPendingControls directives)"

section \<open>View events\<close>

text \<open>
  A DOM event on the text accessor's element: its host listener runs, and the call
  it makes into the registered callback runs the pipeline. An exception escapes to
  the event loop and is recorded; what the listener changed before it stays.
\<close>

definition catch_into :: "binding \<Rightarrow> binding throws \<Rightarrow> binding" where
  "catch_into b r = (case r of Inl e \<Rightarrow> b\<lparr>uncaught := uncaught b @ [e]\<rparr> | Inr b' \<Rightarrow> b')"

definition deliver :: "dom_event \<Rightarrow> binding \<Rightarrow> binding" where
  "deliver e b =
     (let (a1, call) = dva_host e (acc b); b1 = b\<lparr>acc := a1\<rparr>
      in case call of
           None \<Rightarrow> b1
         | Some (CallOnChange v) \<Rightarrow> catch_into b1 (run_change_cb (dva_onChange a1) v b1)
         | Some CallOnTouched \<Rightarrow> catch_into b1 (run_touched_cb (dva_onTouched a1) b1))"

section \<open>A wired text input\<close>

text \<open>
  The state \<open>setUpControl\<close> produces for a standalone \<open>ngModel\<close> on a text
  input with buffering on, no validators and \<open>ngModelOptions\<close> \<open>{updateOn: pol}\<close>: the concrete
  input the witnesses below run on (\<open>NgModel\<close> proves that its lifecycle reaches it).
\<close>

definition demo_binding :: "update_on \<Rightarrow> binding" where
  "demo_binding pol =
     \<lparr>ctrl = (fc_new :: control)\<lparr>fc_updateOnOpt := Some pol, fc_onChange := [ModelToViewCb],
                                 fc_onDisabledChange := [DisabledToViewCb],
                                 fc_validityRuns := 2\<rparr>,
      dir = \<lparr>nm_parent = None, nm_rawValidators = [], nm_rawAsyncValidators = [],
             nm_valueAccessor = Some (CVA DefaultValueAccessorC 0), nm_registered = True,
             nm_viewModel = JUndef, nm_name = None, nm_isDisabled = JUndef, nm_model = JUndef,
             nm_options = Some \<lparr>opt_name = None, opt_standalone = False, opt_updateOn = Some pol\<rparr>\<rparr>,
      acc = \<lparr>dva_onChange = Some ViewToModelCb, dva_onTouched = Some BlurToTouchedCb,
             dva_composing = False, dva_compositionMode = True\<rparr>,
      viewOps = [Render (SetProperty ''value'' (JStr []))], emitted = [],
      validatorCb = (\<lambda>_. False), queue = [], uncaught = [], formNames = [], inForm = False,
      formUpdateOn = UpdChange\<rparr>"

section \<open>Lemmas\<close>

subsection \<open>Effects of the building blocks\<close>

lemma control_setValue_silent [wiring_simps]:
  "\<not> emitModelToViewChange opts \<Longrightarrow>
   control_setValue v opts b = b\<lparr>ctrl := fc_updateValueAndValidity (emitEvent opts) (fc_assign v (ctrl b))\<rparr>"
  by (simp add: control_setValue_def)

lemma updateControl_eq [wiring_simps]:
  "updateControl b =
     (let c = ctrl b;
          c1 = (if fc_pendingDirty c then fc_markAsDirty c else c);
          c2 = fc_updateValueAndValidity True (fc_assign (fc_pendingValue c) c1)
      in b\<lparr>ctrl := c2\<lparr>fc_pendingChange := False\<rparr>,
           dir := (dir b)\<lparr>nm_viewModel := fc_pendingValue c\<rparr>,
           emitted := emitted b @ [fc_pendingValue c]\<rparr>)"
  by (simp add: updateControl_def control_setValue_silent no_opts_def viewToModelUpdate_def
      Let_def fc_ops_defs)

lemma demo_binding_simps [simp]:
  "dva_onChange (acc (demo_binding pol)) = Some ViewToModelCb"
  "dva_onTouched (acc (demo_binding pol)) = Some BlurToTouchedCb"
  "dva_compositionMode (acc (demo_binding pol))" "\<not> dva_composing (acc (demo_binding pol))"
  "fc_updateOn (ctrl (demo_binding pol)) = pol"
  "fc_onChange (ctrl (demo_binding pol)) = [ModelToViewCb]"
  "nm_valueAccessor (dir (demo_binding pol)) = Some (CVA DefaultValueAccessorC 0)"
  "\<not> fc_pendingChange (ctrl (demo_binding pol))"
  "fc_value (ctrl (demo_binding pol)) = JNull"
  "emitted (demo_binding pol) = []" "uncaught (demo_binding pol) = []" "queue (demo_binding pol) = []"
  "viewOps (demo_binding pol) = [Render (SetProperty ''value'' (JStr []))]"
  "nm_path (dir (demo_binding pol)) = [None]"
  by (simp_all add: demo_binding_def fc_updateOn_def nm_path_def)

lemma catch_into_Inr [simp]: "catch_into b (Inr b') = b'"
  by (simp add: catch_into_def)

lemma catch_into_Inl [simp]: "catch_into b (Inl e) = b\<lparr>uncaught := uncaught b @ [e]\<rparr>"
  by (simp add: catch_into_def)

lemma deliver_input [wiring_simps]:
  "\<not> (dva_compositionMode (acc b) \<and> dva_composing (acc b)) \<Longrightarrow>
   deliver (InputEv v) b = catch_into b (run_change_cb (dva_onChange (acc b)) v b)"
  by (simp add: deliver_def dva_handleInput_def)

lemma deliver_input_buffered [wiring_simps]:
  "dva_compositionMode (acc b) \<and> dva_composing (acc b) \<Longrightarrow> deliver (InputEv v) b = b"
  by (simp add: deliver_def dva_handleInput_def)

lemma deliver_blur [wiring_simps]:
  "deliver BlurEv b = catch_into b (run_touched_cb (dva_onTouched (acc b)) b)"
  by (simp add: deliver_def)

lemma fold_registerOnValidatorChange [wiring_simps]:
  "fold (registerOnValidatorChange on) vs b =
     b\<lparr>validatorCb := (\<lambda>i. if ValidatorObject i True \<in> set vs then on else validatorCb b i)\<rparr>"
proof (induction vs arbitrary: b)
  case (Cons v vs)
  then show ?case
    by (cases v) (auto simp: registerOnValidatorChange_def fun_eq_iff)
qed simp

lemma setUpControl_Some [wiring_simps]:
  assumes "nm_valueAccessor (dir b) = Some a"
  shows "setUpControl (Some c) b =
    Inr (b\<lparr>ctrl := c\<lparr>fc_validator := compose [fc_validator c, nm_validator (dir b)],
                     fc_asyncValidator := compose [fc_asyncValidator c, nm_asyncValidator (dir b)],
                     fc_onChange := fc_onChange c @ [ModelToViewCb],
                     fc_onDisabledChange := fc_onDisabledChange c @
                        (if has_setDisabledState (cva_class a) then [DisabledToViewCb] else [])\<rparr>,
           acc := (acc b)\<lparr>dva_onChange := Some ViewToModelCb, dva_onTouched := Some BlurToTouchedCb\<rparr>,
           viewOps := viewOps b @ [accessor_write a (fc_value c)],
           validatorCb := (\<lambda>i. if ValidatorObject i True \<in> set (nm_rawValidators (dir b)) \<or>
                                  ValidatorObject i True \<in> set (nm_rawAsyncValidators (dir b))
                               then True else validatorCb b i)\<rparr>)"
  using assms
  by (simp add: setUpControl_def va_writeValue_def setUpViewChangePipeline_def
      setUpModelChangePipeline_def setUpBlurPipeline_def va_registerOnChange_def
      va_registerOnTouched_def dva_registerOnChange_def dva_registerOnTouched_def
      va_has_setDisabledState_def fold_registerOnValidatorChange fc_ops_defs fun_eq_iff Let_def)

subsection \<open>Properties\<close>

text \<open>
  C10. \<open>setUpControl\<close> fails before wiring anything: with \<open>Cannot find control\<close>
  when there is no control, and with \<open>No value accessor\<close> when the directive has no
  accessor.
\<close>

theorem setUpControl_errors:
  "setUpControl None b = Inl (throwError (nm_path (dir b)) ''Cannot find control with'') \<and>
   (nm_valueAccessor (dir b) = None \<longrightarrow>
      setUpControl (Some c) b =
        Inl (throwError (nm_path (dir b)) ''No value accessor for form control with''))"
  by (simp add: setUpControl_def)

theorem setUpControl_errors_witness:
  "nm_valueAccessor (dir ((demo_binding UpdChange)\<lparr>dir := (dir (demo_binding UpdChange))\<lparr>nm_valueAccessor := None\<rparr>\<rparr>)) = None \<and>
   setUpControl (Some fc_new) ((demo_binding UpdChange)\<lparr>dir := (dir (demo_binding UpdChange))\<lparr>nm_valueAccessor := None\<rparr>\<rparr>) =
     Inl (Error (''No value accessor for form control with unspecified name attribute''))"
  using setUpControl_errors [of "(demo_binding UpdChange)\<lparr>dir := (dir (demo_binding UpdChange))\<lparr>nm_valueAccessor := None\<rparr>\<rparr>" fc_new]
  by (simp add: demo_binding_def throwError_def messageEnd_def nm_path_def)

text \<open>
  C9. With an accessor, \<open>setUpControl\<close> always succeeds and wires exactly: the
  view-change and blur callbacks into the accessor, one model-change listener appended
  to the control, the disabled listener when the accessor supports it, one initial
  \<open>writeValue\<close> of the control's current value, the directive's sync and async
  validators composed after the control's own, and a change callback for every sync or
  async validator that implements \<open>registerOnValidatorChange\<close>; it emits nothing
  and leaves the value alone.
\<close>

theorem setUpControl_wires:
  assumes "nm_valueAccessor (dir b) = Some a"
  shows "\<exists>b'. setUpControl (Some c) b = Inr b' \<and>
     dva_onChange (acc b') = Some ViewToModelCb \<and> dva_onTouched (acc b') = Some BlurToTouchedCb \<and>
     fc_onChange (ctrl b') = fc_onChange c @ [ModelToViewCb] \<and>
     fc_onDisabledChange (ctrl b') = fc_onDisabledChange c @
        (if has_setDisabledState (cva_class a) then [DisabledToViewCb] else []) \<and>
     viewOps b' = viewOps b @ [accessor_write a (fc_value c)] \<and>
     fc_validator (ctrl b') = compose [fc_validator c, nm_validator (dir b)] \<and>
     fc_asyncValidator (ctrl b') = compose [fc_asyncValidator c, nm_asyncValidator (dir b)] \<and>
     (\<forall>i. validatorCb b' i \<longleftrightarrow>
        ValidatorObject i True \<in> set (nm_rawValidators (dir b) @ nm_rawAsyncValidators (dir b)) \<or>
        validatorCb b i) \<and>
     fc_value (ctrl b') = fc_value c \<and> emitted b' = emitted b \<and> uncaught b' = uncaught b"
  using assms by (simp add: setUpControl_Some)

theorem setUpControl_wires_witness:
  "nm_valueAccessor (dir (demo_binding UpdBlur)) = Some (CVA DefaultValueAccessorC 0) \<and>
   (\<exists>b'. setUpControl (Some fc_new) (demo_binding UpdBlur) = Inr b' \<and>
      fc_onChange (ctrl b') = [ModelToViewCb] \<and>
      viewOps b' = viewOps (demo_binding UpdBlur) @ [Render (SetProperty ''value'' (JStr []))])"
  using setUpControl_wires [of "demo_binding UpdBlur" "CVA DefaultValueAccessorC 0" fc_new]
  by (simp add: accessor_write_def dva_writeValue_def) blast

text \<open>
  C4. Under the \<open>'change'\<close> policy, one input event on a wired text accessor that
  is not buffering a composition assigns the control exactly once, emits
  \<open>ngModelChange\<close> exactly once with the typed value, marks the control dirty, leaves
  nothing pending, and writes nothing back into the view.
\<close>

theorem change_policy_commits_once:
  assumes "dva_onChange (acc b) = Some ViewToModelCb" and "fc_updateOn (ctrl b) = UpdChange"
    and "\<not> (dva_compositionMode (acc b) \<and> dva_composing (acc b))"
  shows "let b' = deliver (InputEv v) b in
     fc_value (ctrl b') = v \<and> fc_valueChanges (ctrl b') = fc_valueChanges (ctrl b) @ [v] \<and>
     emitted b' = emitted b @ [v] \<and> nm_viewModel (dir b') = v \<and> fc_dirty (ctrl b') \<and>
     \<not> fc_pendingChange (ctrl b') \<and> viewOps b' = viewOps b \<and> uncaught b' = uncaught b"
  using assms by (simp add: deliver_input view_change_def updateControl_eq Let_def fc_ops_defs)

theorem change_policy_commits_once_witness:
  "let b' = deliver (InputEv (JStr ''a'')) (demo_binding UpdChange) in
     fc_value (ctrl b') = JStr ''a'' \<and> emitted b' = [JStr ''a'']"
  using change_policy_commits_once [of "demo_binding UpdChange" "JStr ''a''"]
  by (simp add: Let_def)

text \<open>
  C5. Under the \<open>'blur'\<close> policy, an input event only records the pending value;
  the following blur commits it exactly once (one emission), marks the control
  touched and dirty, and nothing is written back into the view.
\<close>

theorem blur_policy_commits_on_blur:
  assumes "dva_onChange (acc b) = Some ViewToModelCb" and "dva_onTouched (acc b) = Some BlurToTouchedCb"
    and "fc_updateOn (ctrl b) = UpdBlur"
    and "\<not> (dva_compositionMode (acc b) \<and> dva_composing (acc b))"
  shows "let b1 = deliver (InputEv v) b; b2 = deliver BlurEv b1 in
     fc_value (ctrl b1) = fc_value (ctrl b) \<and> emitted b1 = emitted b \<and>
     fc_pendingChange (ctrl b1) \<and> fc_pendingValue (ctrl b1) = v \<and>
     fc_value (ctrl b2) = v \<and> emitted b2 = emitted b @ [v] \<and> fc_touched (ctrl b2) \<and>
     fc_dirty (ctrl b2) \<and> \<not> fc_pendingChange (ctrl b2) \<and> viewOps b2 = viewOps b"
  using assms
  by (simp add: deliver_input deliver_blur view_change_def blur_touched_def updateControl_eq
      Let_def fc_ops_defs)

theorem blur_policy_commits_on_blur_witness:
  "let b2 = deliver BlurEv (deliver (InputEv (JStr ''x'')) (demo_binding UpdBlur)) in
     fc_value (ctrl b2) = JStr ''x'' \<and> emitted b2 = [JStr ''x'']"
  using blur_policy_commits_on_blur [of "demo_binding UpdBlur" "JStr ''x''"]
  by (simp add: Let_def)

text \<open>
  C16. A blur with no pending change marks the control touched (unless the policy is
  \<open>'submit'\<close>) without committing anything and without calling
  \<open>viewToModelUpdate\<close>.
\<close>

theorem blur_without_pending:
  assumes "dva_onTouched (acc b) = Some BlurToTouchedCb" and "\<not> fc_pendingChange (ctrl b)"
  shows "let b' = deliver BlurEv b in
     fc_value (ctrl b') = fc_value (ctrl b) \<and> emitted b' = emitted b \<and>
     dir b' = dir b \<and> fc_pendingTouched (ctrl b') \<and>
     fc_touched (ctrl b') = (fc_touched (ctrl b) \<or> fc_updateOn (ctrl b) \<noteq> UpdSubmit)"
  using assms by (simp add: deliver_blur blur_touched_def Let_def fc_ops_defs)

theorem blur_without_pending_witness:
  "let b' = deliver BlurEv (demo_binding UpdChange) in fc_touched (ctrl b') \<and> emitted b' = []"
  using blur_without_pending [of "demo_binding UpdChange"]
  by (simp add: Let_def)

text \<open>
  C6. Under the \<open>'submit'\<close> policy, input and blur events commit nothing and do not
  mark the control touched; \<open>syncPendingControls\<close> then commits the pending value
  exactly once (one emission, value assigned, touched and dirty set, pending flag
  cleared), and a second sync changes nothing more.
\<close>

theorem submit_policy_commits_on_sync:
  assumes "dva_onChange (acc b) = Some ViewToModelCb" and "dva_onTouched (acc b) = Some BlurToTouchedCb"
    and "fc_updateOn (ctrl b) = UpdSubmit"
    and "\<not> (dva_compositionMode (acc b) \<and> dva_composing (acc b))"
  shows "let b2 = deliver BlurEv (deliver (InputEv v) b);
             b3 = hd (syncPendingControls [b2]); b4 = hd (syncPendingControls [b3]) in
     fc_value (ctrl b2) = fc_value (ctrl b) \<and> emitted b2 = emitted b \<and>
     fc_touched (ctrl b2) = fc_touched (ctrl b) \<and>
     fc_value (ctrl b3) = v \<and> emitted b3 = emitted b @ [v] \<and> \<not> fc_pendingChange (ctrl b3) \<and>
     fc_touched (ctrl b3) \<and> fc_dirty (ctrl b3) \<and>
     fc_value (ctrl b4) = v \<and> emitted b4 = emitted b3"
  using assms
  by (simp add: deliver_input deliver_blur view_change_def blur_touched_def
      syncPendingControls_def form_syncPendingControls_def dir_syncPending_def
      fc_syncPendingControls_def viewToModelUpdate_def Let_def fc_ops_defs)

theorem submit_policy_commits_on_sync_witness:
  "let b3 = hd (syncPendingControls [deliver BlurEv (deliver (InputEv (JStr ''y'')) (demo_binding UpdSubmit))]) in
     fc_value (ctrl b3) = JStr ''y'' \<and> emitted b3 = [JStr ''y'']"
  using submit_policy_commits_on_sync [of "demo_binding UpdSubmit" "JStr ''y''"]
  by (simp add: Let_def)

text \<open>
  C14. Model to view: on a control whose only listener is the pipeline's and a text
  accessor, \<open>setValue\<close> assigns the value, writes it into the view exactly when
  \<open>emitModelToViewChange\<close> is not false, and emits \<open>ngModelChange\<close> exactly when
  \<open>emitViewToModelChange\<close> is not false as well.
\<close>

theorem setValue_model_to_view:
  assumes "fc_onChange (ctrl b) = [ModelToViewCb]" and "nm_valueAccessor (dir b) = Some a"
    and "cva_class a = DefaultValueAccessorC"
  shows "let b' = control_setValue v opts b in
     fc_value (ctrl b') = v \<and>
     viewOps b' = viewOps b @ (if emitModelToViewChange opts then [Render (dva_writeValue v)] else []) \<and>
     emitted b' = emitted b @
       (if emitModelToViewChange opts \<and> emitViewToModelChange opts then [v] else [])"
  using assms
  by (simp add: control_setValue_def model_to_view_def va_writeValue_def accessor_write_def
      viewToModelUpdate_def Let_def fc_ops_defs)

theorem setValue_model_to_view_witness:
  "let b' = control_setValue (JStr ''m'') no_opts (demo_binding UpdChange) in
     viewOps b' = viewOps (demo_binding UpdChange) @ [Render (SetProperty ''value'' (JStr ''m''))] \<and>
     emitted b' = [JStr ''m'']"
  using setValue_model_to_view [of "demo_binding UpdChange" "CVA DefaultValueAccessorC 0" "JStr ''m''" no_opts]
  by (simp add: Let_def no_opts_def dva_writeValue_def)

text \<open>
  C17. After \<open>cleanUpControl\<close>, the control has no listeners left, the change
  callbacks of the sync and async validators are unregistered, and an input or blur event on the accessor raises
  the "no FormControl instance attached" error without touching the control or
  emitting anything.
\<close>

theorem cleanUpControl_detaches:
  assumes "nm_valueAccessor (dir b) = Some a"
    and "\<not> (dva_compositionMode (acc b) \<and> dva_composing (acc b))"
  shows "\<exists>b'. cleanUpControl (Some (ctrl b)) b = Inr b' \<and>
     fc_onChange (ctrl b') = [] \<and> fc_onDisabledChange (ctrl b') = [] \<and>
     (\<forall>i. ValidatorObject i True \<in> set (nm_rawValidators (dir b) @ nm_rawAsyncValidators (dir b)) \<longrightarrow>
        \<not> validatorCb b' i) \<and>
     deliver (InputEv v) b' = b'\<lparr>uncaught := uncaught b' @ [noControlError (dir b)]\<rparr> \<and>
     deliver BlurEv b' = b'\<lparr>uncaught := uncaught b' @ [noControlError (dir b)]\<rparr>"
  using assms
  by (simp add: cleanUpControl_def va_registerOnChange_def va_registerOnTouched_def
      dva_registerOnChange_def dva_registerOnTouched_def fold_registerOnValidatorChange
      deliver_input deliver_blur fc_ops_defs)

theorem cleanUpControl_detaches_witness:
  "\<exists>b'. cleanUpControl (Some (ctrl (demo_binding UpdChange))) (demo_binding UpdChange) = Inr b' \<and>
     fc_onChange (ctrl b') = [] \<and>
     deliver (InputEv (JStr ''z'')) b' = b'\<lparr>uncaught := uncaught b' @ [noControlError (dir (demo_binding UpdChange))]\<rparr>"
  using cleanUpControl_detaches [of "demo_binding UpdChange" "CVA DefaultValueAccessorC 0" "JStr ''z''"]
  by auto

end
