(* ===== verification/NgModel.thy ===== *)
theory NgModel
  imports Change_Pipeline
begin

text \<open>
  The \<open>NgModel\<close> directive of \<open>src/ng-model/ng_model.ts\<close> and the event loop it
  lives in. The constructor selects the accessor; \<open>ngOnChanges\<close> validates the
  configuration, registers once (standalone: \<open>setUpControl\<close> at once; inside a form:
  the form's deferred \<open>addControl\<close>), and defers the disabled and value updates to
  the microtask queue; \<open>ngOnDestroy\<close> asks the form to remove the control. The
  microtask queue is the list \<open>queue\<close>, drained in order by \<open>flush\<close>. A run of the
  program is a list of events (DOM events, change-detection passes with their
  \<open>SimpleChanges\<close>, microtask checkpoints, validator changes, programmatic
  \<open>setValue\<close>, form submits, destruction) applied by \<open>ng_step\<close>; the reachable
  states are those of runs from a freshly constructed directive. Lemmas: every
  reachable state keeps the pipeline invariant \<open>ngm_inv\<close> (nothing pending under
  \<open>'change'\<close>, one model listener at most, no wiring before registration).
\<close>

section \<open>Configuration checks\<close>

text \<open>\<open>NgModelGroup\<close> and \<open>formGroupName\<close> extend \<open>AbstractFormGroupDirective\<close>.\<close>

definition isAbstractFormGroupDirective :: "parent_kind \<Rightarrow> bool" where
  "isAbstractFormGroupDirective k \<longleftrightarrow> k = NgModelGroupP \<or> k = FormGroupNameP"

definition isStandalone :: "ngmodel \<Rightarrow> bool" where
  "isStandalone d \<longleftrightarrow>
     nm_parent d = None \<or> (case nm_options d of Some opts \<Rightarrow> opt_standalone opts | None \<Rightarrow> False)"

text \<open>\<open>x instanceof C\<close> is false for a \<open>null\<close> parent.\<close>

definition parent_is :: "ngmodel \<Rightarrow> parent_kind \<Rightarrow> bool" where
  "parent_is d k \<longleftrightarrow> (case nm_parent d of Some p \<Rightarrow> ct_kind p = k | None \<Rightarrow> False)"

definition checkParentType :: "ngmodel \<Rightarrow> unit throws" where
  "checkParentType d =
     (if \<not> parent_is d NgModelGroupP \<and>
         (case nm_parent d of Some p \<Rightarrow> isAbstractFormGroupDirective (ct_kind p) | None \<Rightarrow> False)
      then Inl FormGroupNameException
      else if \<not> parent_is d NgModelGroupP \<and> \<not> parent_is d NgFormP
      then Inl ModelParentException
      else Inr ())"

definition checkName :: "ngmodel \<Rightarrow> ngmodel throws" where
  "checkName d =
     (let d1 = (case nm_options d of
                  Some opts \<Rightarrow> if name_truthy (opt_name opts) then d\<lparr>nm_name := opt_name opts\<rparr> else d
                | None \<Rightarrow> d)
      in if \<not> isStandalone d1 \<and> \<not> name_truthy (nm_name d1) then Inl MissingNameException else Inr d1)"

definition checkForErrors :: "ngmodel \<Rightarrow> ngmodel throws" where
  "checkForErrors d =
     (if \<not> isStandalone d
      then (case checkParentType d of Inl e \<Rightarrow> Inl e | Inr _ \<Rightarrow> checkName d)
      else checkName d)"

section \<open>Registration\<close>

definition setUpdateStrategy :: "binding \<Rightarrow> binding" where
  "setUpdateStrategy b =
     (case nm_options (dir b) of
        Some opts \<Rightarrow>
          (case opt_updateOn opts of
             Some u \<Rightarrow> b\<lparr>ctrl := (ctrl b)\<lparr>fc_updateOnOpt := Some u\<rparr>\<rparr>
           | None \<Rightarrow> b)
      | None \<Rightarrow> b)"

definition setUpStandalone :: "binding \<Rightarrow> binding throws" where
  "setUpStandalone b =
     (case setUpControl (Some (ctrl b)) b of
        Inl e \<Rightarrow> Inl e
      | Inr b1 \<Rightarrow> Inr (b1\<lparr>ctrl := fc_updateValueAndValidity False (ctrl b1)\<rparr>))"

text \<open>\<open>formDirective.addControl(this)\<close> and \<open>removeControl(this)\<close> of \<open>NgForm\<close> defer their work.\<close>

definition formAddControl :: "binding \<Rightarrow> binding" where
  "formAddControl b = b\<lparr>queue := queue b @ [AddControlTask]\<rparr>"

definition formRemoveControl :: "binding \<Rightarrow> binding" where
  "formRemoveControl b = b\<lparr>queue := queue b @ [RemoveControlTask]\<rparr>"

text \<open>
  \<open>_setUpControl\<close>. A throw leaves the update strategy already applied, so the
  error comes with the state at the throw.
\<close>

definition ngModel_setUpControl :: "binding \<Rightarrow> (ng_error \<times> binding) + binding" where
  "ngModel_setUpControl b =
     (let b1 = setUpdateStrategy b
      in if isStandalone (dir b1)
         then (case setUpStandalone b1 of
                 Inl e \<Rightarrow> Inl (e, b1)
               | Inr b2 \<Rightarrow> Inr (b2\<lparr>dir := (dir b2)\<lparr>nm_registered := True\<rparr>\<rparr>))
         else (let b2 = formAddControl b1 in Inr (b2\<lparr>dir := (dir b2)\<lparr>nm_registered := True\<rparr>\<rparr>)))"

section \<open>Inputs and deferred updates\<close>

text \<open>\<open>SimpleChanges\<close> of the four inputs; \<open>None\<close> for an input that did not change.\<close>

record ng_changes =
  chg_model :: "jsval simple_change option"
  chg_isDisabled :: "jsval simple_change option"
  chg_name :: "name simple_change option"
  chg_options :: "ng_options option simple_change option"

text \<open>Angular assigns the changed inputs before it calls \<open>ngOnChanges\<close>.\<close>

definition set_inputs :: "ng_changes \<Rightarrow> ngmodel \<Rightarrow> ngmodel" where
  "set_inputs changes d =
     d\<lparr>nm_model := (case chg_model changes of Some c \<Rightarrow> sc_currentValue c | None \<Rightarrow> nm_model d),
       nm_isDisabled := (case chg_isDisabled changes of Some c \<Rightarrow> sc_currentValue c | None \<Rightarrow> nm_isDisabled d),
       nm_name := (case chg_name changes of Some c \<Rightarrow> sc_currentValue c | None \<Rightarrow> nm_name d),
       nm_options := (case chg_options changes of Some c \<Rightarrow> sc_currentValue c | None \<Rightarrow> nm_options d)\<rparr>"

definition updateValue :: "jsval \<Rightarrow> binding \<Rightarrow> binding" where
  "updateValue value b = b\<lparr>queue := queue b @ [SetValueTask value]\<rparr>"

text \<open>\<open>disabledValue === '' || (disabledValue && disabledValue !== 'false')\<close>.\<close>

definition disabled_of :: "jsval \<Rightarrow> bool" where
  "disabled_of disabledValue \<longleftrightarrow>
     disabledValue = JStr [] \<or> (truthy disabledValue \<and> disabledValue \<noteq> JStr ''false'')"

definition updateDisabled :: "jsval simple_change \<Rightarrow> binding \<Rightarrow> binding" where
  "updateDisabled change b =
     (let isDisabled = disabled_of (sc_currentValue change)
      in b\<lparr>queue := queue b @ [DisabledTask isDisabled]\<rparr>)"

definition ngOnChanges :: "ng_changes \<Rightarrow> binding \<Rightarrow> (ng_error \<times> binding) + binding" where
  "ngOnChanges changes b =
     (case checkForErrors (dir b) of
        Inl e \<Rightarrow> Inl (e, b)
      | Inr d1 \<Rightarrow>
          (let b1 = b\<lparr>dir := d1\<rparr>
           in case (if \<not> nm_registered d1 then ngModel_setUpControl b1 else Inr b1) of
                Inl eb \<Rightarrow> Inl eb
              | Inr b2 \<Rightarrow>
                  (let b3 = (case chg_isDisabled changes of Some c \<Rightarrow> updateDisabled c b2 | None \<Rightarrow> b2)
                   in if isPropertyUpdated (chg_model changes) (nm_viewModel (dir b3))
                      then (let b4 = updateValue (nm_model (dir b3)) b3
                            in Inr (b4\<lparr>dir := (dir b4)\<lparr>nm_viewModel := nm_model (dir b4)\<rparr>\<rparr>))
                      else Inr b3)))"

text \<open>
  \<open>ngOnDestroy\<close>: \<open>this.formDirective && this.formDirective.removeControl(this)\<close>.
  Under an \<open>NgForm\<close> or \<open>NgModelGroup\<close> the form directive is the \<open>NgForm\<close>,
  whose \<open>removeControl\<close> is deferred; the other containers reject an \<open>ngModel\<close>
  in \<open>ngOnChanges\<close> and never hold it.
\<close>

definition ngOnDestroy :: "binding \<Rightarrow> binding" where
  "ngOnDestroy b =
     (if parent_is (dir b) NgFormP \<or> parent_is (dir b) NgModelGroupP then formRemoveControl b else b)"

section \<open>The form's deferred work\<close>

text \<open>
  The body of \<open>NgForm.addControl\<close>: \<open>registerControl(dir.name, dir.control)\<close> (the
  control joins the form's group and inherits its update policy), then
  \<open>setUpControl\<close>, a silent validity update, and the directive joins
  \<open>_directives\<close>. The case of a name already registered, where the directive would
  adopt the registered control, is not modelled: the directive keeps its own.
\<close>

definition form_addControl_now :: "binding \<Rightarrow> binding" where
  "form_addControl_now b =
     (let nm = nm_name (dir b);
          b1 = b\<lparr>formNames := (if nm \<in> set (formNames b) then formNames b else formNames b @ [nm]),
                 ctrl := (ctrl b)\<lparr>fc_parentUpdateOn := Some (formUpdateOn b)\<rparr>\<rparr>
      in case setUpControl (Some (ctrl b1)) b1 of
           Inl e \<Rightarrow> b1\<lparr>uncaught := uncaught b1 @ [e]\<rparr>
         | Inr b2 \<Rightarrow> b2\<lparr>ctrl := fc_updateValueAndValidity False (ctrl b2), inForm := True\<rparr>)"

text \<open>
  The body of \<open>NgForm.removeControl\<close>: the group drops the control registered under
  the directive's name, and \<open>removeDir\<close> drops the directive.
\<close>

definition form_removeControl_now :: "binding \<Rightarrow> binding" where
  "form_removeControl_now b =
     b\<lparr>formNames := filter (\<lambda>n. n \<noteq> nm_name (dir b)) (formNames b), inForm := False\<rparr>"

fun run_task :: "task \<Rightarrow> binding \<Rightarrow> binding" where
  "run_task (SetValueTask value) b =
     control_setValue value (no_opts\<lparr>emitViewToModelChange := False\<rparr>) b"
| "run_task (DisabledTask isDisabled) b =
     (if isDisabled \<and> \<not> fc_disabled (ctrl b) then control_disable b
      else if \<not> isDisabled \<and> fc_disabled (ctrl b) then control_enable b
      else b)"
| "run_task AddControlTask b = form_addControl_now b"
| "run_task RemoveControlTask b = form_removeControl_now b"

fun run_tasks :: "task list \<Rightarrow> binding \<Rightarrow> binding" where
  "run_tasks [] b = b"
| "run_tasks (t # ts) b = run_tasks ts (run_task t b)"

text \<open>A microtask checkpoint: the queued callbacks run in the order they were scheduled.\<close>

definition flush :: "binding \<Rightarrow> binding" where
  "flush b = run_tasks (queue b) (b\<lparr>queue := []\<rparr>)"

section \<open>Construction and runs\<close>

text \<open>
  The constructor: a fresh \<open>FormControl\<close>, the injected validators (\<open>|| []\<close>), and
  \<open>selectValueAccessor(this, valueAccessors)\<close>, which may throw. The element's text
  accessor \<open>a\<close>, the form's registered names and its update policy come with it.
\<close>

definition ngModel_new ::
  "container option \<Rightarrow> raw_validator list option \<Rightarrow> raw_validator list option \<Rightarrow>
   cva js_arg \<Rightarrow> accessor \<Rightarrow> name list \<Rightarrow> update_on \<Rightarrow> binding throws" where
  "ngModel_new parent validators asyncValidators valueAccessors a names formPolicy =
     (let d0 = \<lparr>nm_parent = parent,
                nm_rawValidators = (case validators of None \<Rightarrow> [] | Some vs \<Rightarrow> vs),
                nm_rawAsyncValidators = (case asyncValidators of None \<Rightarrow> [] | Some vs \<Rightarrow> vs),
                nm_valueAccessor = None, nm_registered = False, nm_viewModel = JUndef,
                nm_name = None, nm_isDisabled = JUndef, nm_model = JUndef, nm_options = None\<rparr>
      in case selectValueAccessor (nm_path d0) valueAccessors of
           Inl e \<Rightarrow> Inl e
         | Inr va \<Rightarrow>
             Inr \<lparr>ctrl = fc_new, dir = d0\<lparr>nm_valueAccessor := va\<rparr>, acc = a, viewOps = [],
                  emitted = [], validatorCb = (\<lambda>_. False), queue = [], uncaught = [],
                  formNames = names, inForm = False, formUpdateOn = formPolicy\<rparr>)"

datatype ng_event =
    DomEvent dom_event
  | ChangeDetection ng_changes
  | Microtasks
  | ValidatorChange nat
  | ProgrammaticSetValue jsval set_opts
  | SubmitForm
  | Destroy

text \<open>
  One event of the page. \<open>SubmitForm\<close> is the submit of the enclosing \<open>NgForm\<close>:
  \<open>onSubmit\<close> calls \<open>syncPendingControls(this.form, this._directives)\<close>, which
  reaches the directive only when it was added to the form (\<open>inForm\<close>); a standalone
  \<open>ngModel\<close> is never synced.
\<close>

fun ng_step :: "binding \<Rightarrow> ng_event \<Rightarrow> binding" where
  "ng_step b (DomEvent e) = deliver e b"
| "ng_step b (ChangeDetection changes) =
     (case ngOnChanges changes (b\<lparr>dir := set_inputs changes (dir b)\<rparr>) of
        Inl (e, b1) \<Rightarrow> b1\<lparr>uncaught := uncaught b1 @ [e]\<rparr>
      | Inr b1 \<Rightarrow> b1)"
| "ng_step b Microtasks = flush b"
| "ng_step b (ValidatorChange i) =
     (if validatorCb b i then b\<lparr>ctrl := fc_updateValueAndValidity True (ctrl b)\<rparr> else b)"
| "ng_step b (ProgrammaticSetValue v opts) = control_setValue v opts b"
| "ng_step b SubmitForm = (if inForm b then hd (syncPendingControls [b]) else b)"
| "ng_step b Destroy = ngOnDestroy b"

fun ng_run :: "binding \<Rightarrow> ng_event list \<Rightarrow> binding" where
  "ng_run b [] = b"
| "ng_run b (e # es) = ng_run (ng_step b e) es"

inductive reachable :: "binding \<Rightarrow> bool" where
  init: "ngModel_new parent vs avs vas (dva_new mode ua) names pol = Inr b \<Longrightarrow> reachable b"
| step: "reachable b \<Longrightarrow> reachable (ng_step b e)"

text \<open>
  \<open>demo_binding pol\<close> is what the first change detection of a standalone
  \<open>ngModel\<close> with \<open>[ngModelOptions]="{updateOn: pol}"\<close> on a text input produces.
\<close>

definition demo_options :: "update_on \<Rightarrow> ng_changes" where
  "demo_options pol =
     \<lparr>chg_model = None, chg_isDisabled = None, chg_name = None,
      chg_options = Some \<lparr>sc_previousValue = None,
        sc_currentValue = Some \<lparr>opt_name = None, opt_standalone = False, opt_updateOn = Some pol\<rparr>,
        sc_firstChange = True\<rparr>\<rparr>"

section \<open>The pipeline invariant\<close>

text \<open>
  What every reachable state keeps, with \<open>ts\<close> the tasks taken off the queue and
  not yet run: nothing is wired before registration; nothing is pending before the
  view callback is installed, nor ever under \<open>'change'\<close>; a pending change is
  dirty; the model listener plus the pending \<open>addControl\<close> tasks number at most
  one, and while \<open>addControl\<close> is pending the view callback is not installed.
\<close>

definition ngm_inv :: "task list \<Rightarrow> binding \<Rightarrow> bool" where
  "ngm_inv ts b \<longleftrightarrow>
     (\<not> nm_registered (dir b) \<longrightarrow>
        dva_onChange (acc b) = None \<and> dva_onTouched (acc b) = None \<and> fc_onChange (ctrl b) = [] \<and>
        AddControlTask \<notin> set (ts @ queue b)) \<and>
     (dva_onChange (acc b) = None \<longrightarrow> \<not> fc_pendingChange (ctrl b)) \<and>
     (fc_updateOn (ctrl b) = UpdChange \<longrightarrow> \<not> fc_pendingChange (ctrl b)) \<and>
     (fc_pendingChange (ctrl b) \<longrightarrow> fc_pendingDirty (ctrl b)) \<and>
     length (fc_onChange (ctrl b)) + count_list (ts @ queue b) AddControlTask \<le> 1 \<and>
     (AddControlTask \<in> set (ts @ queue b) \<longrightarrow> dva_onChange (acc b) = None)"

section \<open>Lemmas\<close>

subsection \<open>Frames of the building blocks\<close>

lemma fold_model_cb_frame [simp]:
  "ctrl (fold (\<lambda>f. run_model_cb f v e) fs b) = ctrl b \<and>
   acc (fold (\<lambda>f. run_model_cb f v e) fs b) = acc b \<and>
   queue (fold (\<lambda>f. run_model_cb f v e) fs b) = queue b \<and>
   nm_registered (dir (fold (\<lambda>f. run_model_cb f v e) fs b)) = nm_registered (dir b) \<and>
   nm_name (dir (fold (\<lambda>f. run_model_cb f v e) fs b)) = nm_name (dir b) \<and>
   formNames (fold (\<lambda>f. run_model_cb f v e) fs b) = formNames b \<and>
   validatorCb (fold (\<lambda>f. run_model_cb f v e) fs b) = validatorCb b \<and>
   nm_rawValidators (dir (fold (\<lambda>f. run_model_cb f v e) fs b)) = nm_rawValidators (dir b) \<and>
   nm_rawAsyncValidators (dir (fold (\<lambda>f. run_model_cb f v e) fs b)) = nm_rawAsyncValidators (dir b)"
proof (induction fs arbitrary: b)
  case (Cons f fs)
  then show ?case
    by (cases f) (simp add: model_to_view_def va_writeValue_def viewToModelUpdate_def
        split: option.splits)
qed simp

lemma control_setValue_frame [simp]:
  "ctrl (control_setValue v opts b) = fc_updateValueAndValidity (emitEvent opts) (fc_assign v (ctrl b))"
  "acc (control_setValue v opts b) = acc b"
  "queue (control_setValue v opts b) = queue b"
  "nm_registered (dir (control_setValue v opts b)) = nm_registered (dir b)"
  "validatorCb (control_setValue v opts b) = validatorCb b"
  "nm_rawValidators (dir (control_setValue v opts b)) = nm_rawValidators (dir b)"
  "nm_rawAsyncValidators (dir (control_setValue v opts b)) = nm_rawAsyncValidators (dir b)"
  by (simp_all add: control_setValue_def Let_def)

lemma fold_disabled_cb_frame:
  "\<exists>ops. fold (\<lambda>f. run_disabled_cb f x) fs b = b\<lparr>viewOps := ops\<rparr>"
proof (induction fs arbitrary: b)
  case Nil
  show ?case by (rule exI [of _ "viewOps b"]) simp
next
  case (Cons f fs)
  have "\<exists>ops1. run_disabled_cb f x b = b\<lparr>viewOps := ops1\<rparr>"
    by (cases f) (auto simp: va_setDisabledState_def intro: exI [of _ "viewOps b"] split: option.splits)
  then obtain ops1 where one: "run_disabled_cb f x b = b\<lparr>viewOps := ops1\<rparr>" by blast
  obtain ops where "fold (\<lambda>f. run_disabled_cb f x) fs (b\<lparr>viewOps := ops1\<rparr>) =
      b\<lparr>viewOps := ops1\<rparr>\<lparr>viewOps := ops\<rparr>"
    using Cons.IH by blast
  with one show ?case by auto
qed

lemma control_disable_frame:
  "\<exists>ops. control_disable b = b\<lparr>ctrl := fc_disable (ctrl b), viewOps := ops\<rparr>"
  using fold_disabled_cb_frame [of True "fc_onDisabledChange (fc_disable (ctrl b))"
      "b\<lparr>ctrl := fc_disable (ctrl b)\<rparr>"]
  by (auto simp: control_disable_def)

lemma control_enable_frame:
  "\<exists>ops. control_enable b = b\<lparr>ctrl := fc_enable (ctrl b), viewOps := ops\<rparr>"
  using fold_disabled_cb_frame [of False "fc_onDisabledChange (fc_enable (ctrl b))"
      "b\<lparr>ctrl := fc_enable (ctrl b)\<rparr>"]
  by (auto simp: control_enable_def)

subsection \<open>The invariant, operation by operation\<close>

text \<open>The invariant reads the wiring, the pending flags, the policy and the queue only.\<close>

lemma ngm_inv_cong:
  assumes "nm_registered (dir b') = nm_registered (dir b)"
    and "dva_onChange (acc b') = dva_onChange (acc b)" and "dva_onTouched (acc b') = dva_onTouched (acc b)"
    and "fc_onChange (ctrl b') = fc_onChange (ctrl b)" and "fc_updateOn (ctrl b') = fc_updateOn (ctrl b)"
    and "fc_pendingChange (ctrl b') = fc_pendingChange (ctrl b)"
    and "fc_pendingDirty (ctrl b') = fc_pendingDirty (ctrl b)" and "queue b' = queue b"
  shows "ngm_inv ts b' = ngm_inv ts b"
  using assms by (simp add: ngm_inv_def)

lemma ngm_inv_control_setValue [intro]:
  "ngm_inv ts b \<Longrightarrow> ngm_inv ts (control_setValue v opts b)"
  by (subst ngm_inv_cong [of _ b]) (simp_all add: fc_ops_defs)

lemma ngm_inv_ctrl_update:
  assumes "ngm_inv ts b" and "fc_onChange c = fc_onChange (ctrl b)" and "fc_updateOn c = fc_updateOn (ctrl b)"
    and "fc_pendingChange c = fc_pendingChange (ctrl b)" and "fc_pendingDirty c = fc_pendingDirty (ctrl b)"
  shows "ngm_inv ts (b\<lparr>ctrl := c, viewOps := ops\<rparr>)" and "ngm_inv ts (b\<lparr>ctrl := c\<rparr>)"
  using assms by (simp_all add: ngm_inv_def)

lemma ngm_inv_pending_cleared:
  assumes "ngm_inv ts b" and "fc_onChange c = fc_onChange (ctrl b)" and "fc_updateOn c = fc_updateOn (ctrl b)"
    and "\<not> fc_pendingChange c"
  shows "ngm_inv ts (b\<lparr>ctrl := c, dir := (dir b)\<lparr>nm_viewModel := vm\<rparr>, emitted := em\<rparr>)"
  using assms by (simp add: ngm_inv_def)

lemma ngm_inv_run_task:
  assumes "ngm_inv (t # ts) b"
  shows "ngm_inv ts (run_task t b)"
proof (cases t)
  case (SetValueTask v)
  with assms have "ngm_inv ts b" by (simp add: ngm_inv_def)
  with SetValueTask show ?thesis by (simp add: ngm_inv_control_setValue)
next
  case (DisabledTask d)
  with assms have inv: "ngm_inv ts b" by (simp add: ngm_inv_def)
  obtain ops1 where dis: "control_disable b = b\<lparr>ctrl := fc_disable (ctrl b), viewOps := ops1\<rparr>"
    using control_disable_frame by blast
  obtain ops2 where en: "control_enable b = b\<lparr>ctrl := fc_enable (ctrl b), viewOps := ops2\<rparr>"
    using control_enable_frame by blast
  have "ngm_inv ts (control_disable b)" "ngm_inv ts (control_enable b)"
    unfolding dis en by (rule ngm_inv_ctrl_update (1) [OF inv]; simp add: fc_ops_defs)+
  with inv DisabledTask show ?thesis by simp
next
  case AddControlTask
  with assms have reg: "nm_registered (dir b)" and none: "dva_onChange (acc b) = None"
    and nol: "fc_onChange (ctrl b) = []" and cnt: "count_list (ts @ queue b) AddControlTask = 0"
    and np: "\<not> fc_pendingChange (ctrl b)"
    by (auto simp: ngm_inv_def)
  show ?thesis
  proof (cases "nm_valueAccessor (dir b)")
    case None
    with reg none nol cnt np AddControlTask show ?thesis
      by (simp add: form_addControl_now_def setUpControl_def Let_def ngm_inv_def)
  next
    case (Some a)
    with reg none nol cnt np AddControlTask show ?thesis
      by (simp add: form_addControl_now_def setUpControl_Some Let_def ngm_inv_def fc_ops_defs
          count_list_0_iff)
  qed
next
  case RemoveControlTask
  with assms show ?thesis by (simp add: form_removeControl_now_def ngm_inv_def)
qed

lemma queue_run_task [simp]: "queue (run_task t b) = queue b"
proof (cases t)
  case (DisabledTask d)
  obtain ops1 where "control_disable b = b\<lparr>ctrl := fc_disable (ctrl b), viewOps := ops1\<rparr>"
    using control_disable_frame by blast
  moreover obtain ops2 where "control_enable b = b\<lparr>ctrl := fc_enable (ctrl b), viewOps := ops2\<rparr>"
    using control_enable_frame by blast
  ultimately show ?thesis using DisabledTask by simp
next
  case AddControlTask
  then show ?thesis
    by (cases "nm_valueAccessor (dir b)")
      (simp add: form_addControl_now_def setUpControl_def Let_def,
       simp add: form_addControl_now_def setUpControl_Some Let_def)
qed (simp_all add: form_removeControl_now_def)

lemma ngm_inv_run_tasks: "ngm_inv ts b \<Longrightarrow> queue b = [] \<Longrightarrow> ngm_inv [] (run_tasks ts b)"
  by (induction ts arbitrary: b) (simp_all add: ngm_inv_run_task)

lemma ngm_inv_flush: "ngm_inv [] b \<Longrightarrow> ngm_inv [] (flush b)"
  unfolding flush_def by (rule ngm_inv_run_tasks) (simp_all add: ngm_inv_def)

lemma ngm_inv_view_change:
  assumes "ngm_inv [] b" and "dva_onChange (acc b) = Some ViewToModelCb"
  shows "ngm_inv [] (view_change v b)"
  using assms by (simp add: view_change_def updateControl_eq Let_def ngm_inv_def fc_ops_defs)

lemma ngm_inv_blur_touched: "ngm_inv [] b \<Longrightarrow> ngm_inv [] (blur_touched b)"
  by (simp add: blur_touched_def updateControl_eq Let_def ngm_inv_def fc_ops_defs)

lemma ngm_inv_uncaught [simp]: "ngm_inv ts (b\<lparr>uncaught := es\<rparr>) = ngm_inv ts b"
  by (simp add: ngm_inv_def)

lemma ngm_inv_deliver:
  assumes inv: "ngm_inv [] b"
  shows "ngm_inv [] (deliver e b)"
proof -
  obtain a1 call where h: "dva_host e (acc b) = (a1, call)" by fastforce
  have slots: "dva_onChange a1 = dva_onChange (acc b)" "dva_onTouched a1 = dva_onTouched (acc b)"
    using dva_host_frame [of e "acc b"] h by simp_all
  let ?b1 = "b\<lparr>acc := a1\<rparr>"
  have inv1: "ngm_inv [] ?b1" using inv slots by (simp add: ngm_inv_def)
  have "ngm_inv [] (catch_into ?b1 (run_change_cb (dva_onChange a1) v ?b1))" for v
  proof (cases "dva_onChange a1")
    case (Some f)
    with inv1 show ?thesis by (cases f) (simp_all add: ngm_inv_view_change)
  qed (simp add: inv1)
  moreover have "ngm_inv [] (catch_into ?b1 (run_touched_cb (dva_onTouched a1) ?b1))"
  proof (cases "dva_onTouched a1")
    case (Some f)
    with inv1 show ?thesis by (cases f) (simp_all add: ngm_inv_blur_touched)
  qed (simp add: inv1)
  ultimately show ?thesis
    using inv1 h by (simp add: deliver_def Let_def split: option.splits dva_call.splits)
qed

lemma checkForErrors_Inr:
  "checkForErrors d = Inr d1 \<Longrightarrow> d1 = d\<lparr>nm_name := nm_name d1\<rparr>"
  by (auto simp: checkForErrors_def checkName_def Let_def split: sum.splits option.splits if_splits)

text \<open>What the checks leave of the inputs just assigned: everything but the name.\<close>

lemma checkForErrors_set_inputs:
  assumes "checkForErrors (set_inputs changes d0) = Inr d"
  shows "nm_registered d = nm_registered d0 \<and> nm_viewModel d = nm_viewModel d0 \<and>
         nm_valueAccessor d = nm_valueAccessor d0 \<and>
         nm_model d = (case chg_model changes of Some c \<Rightarrow> sc_currentValue c | None \<Rightarrow> nm_model d0)"
proof -
  have d: "d = (set_inputs changes d0)\<lparr>nm_name := nm_name d\<rparr>"
    using checkForErrors_Inr [OF assms] .
  have "nm_registered d = nm_registered ((set_inputs changes d0)\<lparr>nm_name := nm_name d\<rparr>)"
    "nm_model d = nm_model ((set_inputs changes d0)\<lparr>nm_name := nm_name d\<rparr>)"
    "nm_viewModel d = nm_viewModel ((set_inputs changes d0)\<lparr>nm_name := nm_name d\<rparr>)"
    "nm_valueAccessor d = nm_valueAccessor ((set_inputs changes d0)\<lparr>nm_name := nm_name d\<rparr>)"
    by (subst d, rule refl)+
  then show ?thesis by (simp add: set_inputs_def)
qed

lemma ngm_inv_dir [simp]:
  "nm_registered d = nm_registered (dir b) \<Longrightarrow> ngm_inv ts (b\<lparr>dir := d\<rparr>) = ngm_inv ts b"
  by (simp add: ngm_inv_def)

lemma ngm_inv_enqueue [simp]:
  "t \<noteq> AddControlTask \<Longrightarrow> ngm_inv ts (b\<lparr>queue := queue b @ [t]\<rparr>) = ngm_inv ts b"
  by (simp add: ngm_inv_def)

text \<open>Registration runs on an unregistered directive, whose control has nothing pending.\<close>

lemma ngm_inv_ngModel_setUpControl:
  assumes inv: "ngm_inv [] b" and unreg: "\<not> nm_registered (dir b)"
  shows "ngm_inv [] (case ngModel_setUpControl b of Inl (e, b1) \<Rightarrow> b1 | Inr b1 \<Rightarrow> b1)"
proof -
  from inv unreg have none: "dva_onChange (acc b) = None" "dva_onTouched (acc b) = None"
    "fc_onChange (ctrl b) = []" "AddControlTask \<notin> set (queue b)" "\<not> fc_pendingChange (ctrl b)"
    by (simp_all add: ngm_inv_def)
  let ?b1 = "setUpdateStrategy b"
  have b1: "acc ?b1 = acc b" "dir ?b1 = dir b" "queue ?b1 = queue b" "fc_onChange (ctrl ?b1) = []"
    "\<not> fc_pendingChange (ctrl ?b1)" "fc_value (ctrl ?b1) = fc_value (ctrl b)"
    "fc_onDisabledChange (ctrl ?b1) = fc_onDisabledChange (ctrl b)"
    using none by (simp_all add: setUpdateStrategy_def split: option.splits)
  have add: "count_list (queue b) AddControlTask = 0" using none(4) by (simp add: count_list_0_iff)
  show ?thesis
  proof (cases "nm_valueAccessor (dir b)")
    case None
    with b1 none add unreg show ?thesis
      by (simp add: ngModel_setUpControl_def setUpStandalone_def setUpControl_def formAddControl_def
          Let_def ngm_inv_def)
  next
    case (Some a)
    with b1 none add unreg show ?thesis
      by (simp add: ngModel_setUpControl_def setUpStandalone_def setUpControl_Some formAddControl_def
          Let_def ngm_inv_def fc_ops_defs)
  qed
qed

lemma ngm_inv_ngOnChanges:
  assumes inv: "ngm_inv [] b"
  shows "ngm_inv [] (case ngOnChanges changes b of Inl (e, b1) \<Rightarrow> b1\<lparr>uncaught := uncaught b1 @ [e]\<rparr>
                       | Inr b1 \<Rightarrow> b1)"
proof (cases "checkForErrors (dir b)")
  case (Inl e)
  with inv show ?thesis by (simp add: ngOnChanges_def)
next
  case (Inr d1)
  let ?b1 = "b\<lparr>dir := d1\<rparr>"
  have d1: "nm_registered d1 = nm_registered (dir b)"
    using checkForErrors_Inr [OF Inr] by (metis ngmodel.select_convs(5) ngmodel.surjective
        ngmodel.update_convs(7))
  with inv have inv1: "ngm_inv [] ?b1" by simp
  obtain b2 where b2: "(if \<not> nm_registered d1 then ngModel_setUpControl ?b1 else Inr ?b1) = Inr b2 \<or>
      (\<exists>e. (if \<not> nm_registered d1 then ngModel_setUpControl ?b1 else Inr ?b1) = Inl (e, b2))"
    and inv2: "ngm_inv [] b2"
    using inv1 ngm_inv_ngModel_setUpControl [OF inv1]
    by (cases "nm_registered d1"; cases "ngModel_setUpControl ?b1") auto
  let ?b3 = "case chg_isDisabled changes of Some c \<Rightarrow> updateDisabled c b2 | None \<Rightarrow> b2"
  have inv3: "ngm_inv [] ?b3"
    using inv2 by (simp add: updateDisabled_def Let_def split: option.splits)
  have "ngm_inv [] (updateValue v ?b3\<lparr>dir := dir' \<lparr>nm_viewModel := vm\<rparr>\<rparr>)"
    if "nm_registered dir' = nm_registered (dir ?b3)" for v dir' vm
    using inv3 that by (simp add: updateValue_def ngm_inv_def)
  then show ?thesis
    using b2 inv2 inv3 Inr by (auto simp: ngOnChanges_def Let_def updateValue_def)
qed

lemma ngm_inv_ng_step: "ngm_inv [] b \<Longrightarrow> ngm_inv [] (ng_step b e)"
proof (cases e)
  case (ChangeDetection changes)
  assume inv: "ngm_inv [] b"
  then have "ngm_inv [] (b\<lparr>dir := set_inputs changes (dir b)\<rparr>)"
    by (simp add: set_inputs_def)
  with ChangeDetection show ?thesis by (simp add: ngm_inv_ngOnChanges)
next
  case SubmitForm
  assume "ngm_inv [] b"
  with SubmitForm show ?thesis
    by (simp add: syncPendingControls_def form_syncPendingControls_def dir_syncPending_def
        fc_syncPendingControls_def viewToModelUpdate_def Let_def ngm_inv_def fc_ops_defs)
next
  case (ValidatorChange i)
  assume "ngm_inv [] b"
  with ValidatorChange show ?thesis by (auto intro: ngm_inv_ctrl_update (2) simp: fc_ops_defs)
qed (simp_all add: ngm_inv_deliver ngm_inv_flush ngm_inv_control_setValue ngOnDestroy_def
      formRemoveControl_def)

lemma ngm_inv_init:
  "ngModel_new parent vs avs vas (dva_new mode ua) names pol = Inr b \<Longrightarrow> ngm_inv [] b"
  by (auto simp: ngModel_new_def dva_new_def ngm_inv_def Let_def fc_updateOn_def split: sum.splits)

lemma reachable_ngm_inv: "reachable b \<Longrightarrow> ngm_inv [] b"
  by (induction rule: reachable.induct) (simp_all add: ngm_inv_init ngm_inv_ng_step)

subsection \<open>Deferred updates\<close>

lemma control_setValue_to_view:
  assumes "fc_onChange (ctrl b) = [ModelToViewCb]" and "nm_valueAccessor (dir b) = Some a"
    and "emitModelToViewChange opts" and "\<not> emitViewToModelChange opts"
  shows "control_setValue v opts b =
     b\<lparr>ctrl := fc_updateValueAndValidity (emitEvent opts) (fc_assign v (ctrl b)),
       viewOps := viewOps b @ [accessor_write a v]\<rparr>"
  using assms by (simp add: control_setValue_def model_to_view_def va_writeValue_def Let_def fc_ops_defs)

text \<open>A run of queued \<open>_updateValue\<close> callbacks, in closed form.\<close>

lemma run_tasks_setValues:
  assumes "fc_onChange (ctrl b) = [ModelToViewCb]" and "nm_valueAccessor (dir b) = Some a"
  shows "run_tasks (map SetValueTask vs) b =
     b\<lparr>ctrl := (ctrl b)\<lparr>fc_value := (if vs = [] then fc_value (ctrl b) else last vs),
                      fc_pendingValue := (if vs = [] then fc_pendingValue (ctrl b) else last vs),
                      fc_valueChanges := fc_valueChanges (ctrl b) @ vs,
                      fc_validityRuns := fc_validityRuns (ctrl b) + length vs\<rparr>,
       viewOps := viewOps b @ map (accessor_write a) vs\<rparr>"
  using assms
proof (induction vs arbitrary: b)
  case (Cons v vs)
  let ?b1 = "control_setValue v (no_opts\<lparr>emitViewToModelChange := False\<rparr>) b"
  have b1: "?b1 = b\<lparr>ctrl := fc_updateValueAndValidity True (fc_assign v (ctrl b)),
                    viewOps := viewOps b @ [accessor_write a v]\<rparr>"
    using Cons.prems by (simp add: control_setValue_to_view no_opts_def)
  have "run_tasks (map SetValueTask vs) ?b1 = ?b1\<lparr>ctrl := (ctrl ?b1)\<lparr>fc_value := (if vs = [] then fc_value (ctrl ?b1) else last vs),
                      fc_pendingValue := (if vs = [] then fc_pendingValue (ctrl ?b1) else last vs),
                      fc_valueChanges := fc_valueChanges (ctrl ?b1) @ vs,
                      fc_validityRuns := fc_validityRuns (ctrl ?b1) + length vs\<rparr>,
       viewOps := viewOps ?b1 @ map (accessor_write a) vs\<rparr>"
    using Cons.prems by (intro Cons.IH) (simp_all add: b1 fc_ops_defs)
  then show ?case by (simp add: b1 fc_ops_defs)
qed simp

subsection \<open>The wired text input is reachable\<close>

lemma demo_binding_constructed:
  "\<exists>b0. ngModel_new None None None (JsArray [CVA DefaultValueAccessorC 0])
          (dva_new (Some True) None) [] UpdChange = Inr b0 \<and>
        ng_step b0 (ChangeDetection (demo_options pol)) = demo_binding pol"
  by (simp add: ngModel_new_def selectValueAccessor_def nm_path_def demo_options_def set_inputs_def
      ngOnChanges_def checkForErrors_def checkName_def isStandalone_def ngModel_setUpControl_def
      setUpdateStrategy_def setUpStandalone_def setUpControl_Some isPropertyUpdated_def
      demo_binding_def dva_new_def accessor_write_def dva_writeValue_def Let_def fc_ops_defs
      fc_new_def nm_validator_def nm_asyncValidator_def compose_def)

lemma demo_binding_reachable: "reachable (demo_binding pol)"
proof -
  from demo_binding_constructed [of pol] obtain b0 where
    "ngModel_new None None None (JsArray [CVA DefaultValueAccessorC 0]) (dva_new (Some True) None) [] UpdChange = Inr b0"
    and "ng_step b0 (ChangeDetection (demo_options pol)) = demo_binding pol"
    by blast
  then show ?thesis by (metis reachable.init reachable.step)
qed


subsection \<open>Properties\<close>

text \<open>
  C2. In every state a run of the directive can reach, nothing is pending under the
  \<open>'change'\<close> policy, and a pending view value is always dirty and belongs to a
  registered directive: \<open>updateOn\<close> is fixed before the view callback is
  installed, and the form's deferred \<open>addControl\<close> changes the inherited policy only
  while no callback is installed.
\<close>

theorem reachable_pending_policy:
  assumes "reachable b"
  shows "(fc_updateOn (ctrl b) = UpdChange \<longrightarrow> \<not> fc_pendingChange (ctrl b)) \<and>
         (fc_pendingChange (ctrl b) \<longrightarrow> fc_pendingDirty (ctrl b) \<and> nm_registered (dir b))"
  using reachable_ngm_inv [OF assms] by (auto simp: ngm_inv_def)

theorem reachable_pending_policy_witness:
  "let b = ng_step (demo_binding UpdBlur) (DomEvent (InputEv (JStr ''q''))) in
     fc_pendingChange (ctrl b) \<and> fc_pendingDirty (ctrl b)"
  using reachable_pending_policy [OF reachable.step [OF demo_binding_reachable,
      of UpdBlur "DomEvent (InputEv (JStr ''q''))"]]
  by (simp add: Let_def deliver_input view_change_def)

text \<open>
  C3. In every reachable state the control carries at most one model-change listener
  of the pipeline, however many change detections, microtask checkpoints and events
  ran, and before registration nothing is wired: \<open>_registered\<close> guards
  \<open>_setUpControl\<close>, and the deferred \<open>addControl\<close> is queued once.
\<close>

theorem reachable_listener_once:
  assumes "reachable b"
  shows "length (fc_onChange (ctrl b)) \<le> 1 \<and>
         (\<not> nm_registered (dir b) \<longrightarrow>
            fc_onChange (ctrl b) = [] \<and> dva_onChange (acc b) = None \<and> dva_onTouched (acc b) = None)"
  using reachable_ngm_inv [OF assms] by (auto simp: ngm_inv_def)

theorem reachable_listener_once_witness:
  "length (fc_onChange (ctrl (ng_step (demo_binding UpdChange) (ChangeDetection (demo_options UpdChange))))) \<le> 1"
  using reachable_listener_once [OF reachable.step [OF demo_binding_reachable,
      of UpdChange "ChangeDetection (demo_options UpdChange)"]]
  by simp

text \<open>
  C11. The first change detection of a standalone \<open>ngModel\<close> on a text input with
  model \<open>v\<close> registers the directive, installs the view and blur callbacks and the
  model listener, writes the control's \<open>null\<close> into the view, and defers the
  model: only the next microtask checkpoint assigns \<open>v\<close> and writes it into the
  view, without emitting \<open>ngModelChange\<close> and without error.
\<close>

theorem first_change_detection_standalone:
  assumes "ngModel_new None vs avs (JsArray [CVA DefaultValueAccessorC i]) (dva_new mode ua) names fp = Inr b"
  shows "let b1 = ng_step b (ChangeDetection
                    \<lparr>chg_model = Some \<lparr>sc_previousValue = JUndef, sc_currentValue = v, sc_firstChange = True\<rparr>,
                     chg_isDisabled = None, chg_name = None, chg_options = None\<rparr>);
             b2 = ng_step b1 Microtasks in
     nm_registered (dir b1) \<and> dva_onChange (acc b1) = Some ViewToModelCb \<and>
     dva_onTouched (acc b1) = Some BlurToTouchedCb \<and> fc_onChange (ctrl b1) = [ModelToViewCb] \<and>
     queue b1 = [SetValueTask v] \<and> nm_viewModel (dir b1) = v \<and>
     viewOps b1 = [Render (dva_writeValue JNull)] \<and>
     fc_value (ctrl b2) = v \<and> viewOps b2 = [Render (dva_writeValue JNull), Render (dva_writeValue v)] \<and>
     emitted b2 = [] \<and> queue b2 = [] \<and> uncaught b2 = []"
proof -
  have b: "b = \<lparr>ctrl = fc_new, dir = \<lparr>nm_parent = None,
                nm_rawValidators = (case vs of None \<Rightarrow> [] | Some vs \<Rightarrow> vs),
                nm_rawAsyncValidators = (case avs of None \<Rightarrow> [] | Some vs \<Rightarrow> vs),
                nm_valueAccessor = Some (CVA DefaultValueAccessorC i), nm_registered = False, nm_viewModel = JUndef,
                nm_name = None, nm_isDisabled = JUndef, nm_model = JUndef, nm_options = None\<rparr>,
                acc = dva_new mode ua, viewOps = [],
                emitted = [], validatorCb = (\<lambda>_. False), queue = [], uncaught = [],
                formNames = names, inForm = False, formUpdateOn = fp\<rparr>"
    using assms by (simp add: ngModel_new_def selectValueAccessor_def nm_path_def)
  show ?thesis
    unfolding b
    by (simp add: set_inputs_def ngOnChanges_def checkForErrors_def checkName_def isStandalone_def
      ngModel_setUpControl_def setUpdateStrategy_def setUpStandalone_def setUpControl_Some
      isPropertyUpdated_def updateValue_def flush_def control_setValue_to_view no_opts_def
      dva_new_def accessor_write_def Let_def fc_ops_defs)
qed

theorem first_change_detection_standalone_witness:
  "\<exists>b. ngModel_new None None None (JsArray [CVA DefaultValueAccessorC 0]) (dva_new (Some True) None) [] UpdChange = Inr b \<and>
       viewOps (ng_step (ng_step b (ChangeDetection
                    \<lparr>chg_model = Some \<lparr>sc_previousValue = JUndef, sc_currentValue = JStr ''hi'', sc_firstChange = True\<rparr>,
                     chg_isDisabled = None, chg_name = None, chg_options = None\<rparr>)) Microtasks) =
         [Render (SetProperty ''value'' (JStr [])), Render (SetProperty ''value'' (JStr ''hi''))]"
proof -
  obtain b where b: "ngModel_new None None None (JsArray [CVA DefaultValueAccessorC 0]) (dva_new (Some True) None) [] UpdChange = Inr b"
    by (simp add: ngModel_new_def selectValueAccessor_def)
  show ?thesis
    using b first_change_detection_standalone [OF b, of "JStr ''hi''"]
    by (simp add: Let_def dva_writeValue_def)
qed

text \<open>
  C13. Deferred model writes run in the order they were queued: a checkpoint over
  \<open>_updateValue\<close> callbacks for \<open>v1 ... vn\<close> leaves the control at \<open>vn\<close>,
  writes each value into the view in order, emits one \<open>valueChanges\<close> per value,
  never emits \<open>ngModelChange\<close>, and empties the queue.
\<close>

theorem microtasks_last_value_wins:
  assumes "fc_onChange (ctrl b) = [ModelToViewCb]" and "nm_valueAccessor (dir b) = Some a"
    and "queue b = map SetValueTask vs" and "vs \<noteq> []"
  shows "let b' = ng_step b Microtasks in
     fc_value (ctrl b') = last vs \<and> viewOps b' = viewOps b @ map (accessor_write a) vs \<and>
     fc_valueChanges (ctrl b') = fc_valueChanges (ctrl b) @ vs \<and>
     emitted b' = emitted b \<and> queue b' = []"
proof -
  have "run_tasks (map SetValueTask vs) (b\<lparr>queue := []\<rparr>) =
     (b\<lparr>queue := []\<rparr>)\<lparr>ctrl := (ctrl b)\<lparr>fc_value := (if vs = [] then fc_value (ctrl b) else last vs),
                      fc_pendingValue := (if vs = [] then fc_pendingValue (ctrl b) else last vs),
                      fc_valueChanges := fc_valueChanges (ctrl b) @ vs,
                      fc_validityRuns := fc_validityRuns (ctrl b) + length vs\<rparr>,
       viewOps := viewOps b @ map (accessor_write a) vs\<rparr>"
    using run_tasks_setValues [of "b\<lparr>queue := []\<rparr>" a vs] assms by simp
  with assms show ?thesis by (simp add: flush_def Let_def)
qed

theorem microtasks_last_value_wins_witness:
  "let b' = ng_step ((demo_binding UpdChange)\<lparr>queue := [SetValueTask (JStr ''a''), SetValueTask (JStr ''b'')]\<rparr>) Microtasks in
     fc_value (ctrl b') = JStr ''b'' \<and> emitted b' = []"
  using microtasks_last_value_wins [of "(demo_binding UpdChange)\<lparr>queue := [SetValueTask (JStr ''a''), SetValueTask (JStr ''b'')]\<rparr>"
      "CVA DefaultValueAccessorC 0" "[JStr ''a'', JStr ''b'']"]
  by (simp add: Let_def)

text \<open>
  C12. On a registered directive whose checks pass, a change of the \<open>ngModel\<close> input
  queues exactly one \<open>setValue\<close> of the new value (and remembers it as the view
  model) when it is the first change or differs from the last view model, and queues
  nothing otherwise: the value a view event just emitted, bound back by the parent,
  does not travel back to the view.
\<close>

theorem change_detection_model_input:
  assumes "nm_registered (dir b)" and "checkForErrors (set_inputs changes (dir b)) = Inr d"
    and "chg_isDisabled changes = None" and "chg_model changes = Some c"
  shows "ng_step b (ChangeDetection changes) =
     (if sc_firstChange c \<or> sc_currentValue c \<noteq> nm_viewModel (dir b)
      then b\<lparr>dir := d\<lparr>nm_viewModel := sc_currentValue c\<rparr>, queue := queue b @ [SetValueTask (sc_currentValue c)]\<rparr>
      else b\<lparr>dir := d\<rparr>)"
proof -
  have "nm_registered d" "nm_model d = sc_currentValue c" "nm_viewModel d = nm_viewModel (dir b)"
    using checkForErrors_set_inputs [OF assms(2)] assms(1,4) by simp_all
  with assms show ?thesis
    by (simp add: ngOnChanges_def isPropertyUpdated_def looseIdentical_iff updateValue_def Let_def)
qed

theorem change_detection_model_input_witness:
  "queue (ng_step (deliver (InputEv (JStr ''ab'')) (demo_binding UpdChange))
     (ChangeDetection \<lparr>chg_model = Some \<lparr>sc_previousValue = JUndef, sc_currentValue = JStr ''ab'',
                                        sc_firstChange = False\<rparr>,
                       chg_isDisabled = None, chg_name = None, chg_options = None\<rparr>)) = []"
proof -
  let ?b = "deliver (InputEv (JStr ''ab'')) (demo_binding UpdChange)"
  let ?ch = "\<lparr>chg_model = Some \<lparr>sc_previousValue = JUndef, sc_currentValue = JStr ''ab'',
                                        sc_firstChange = False\<rparr>,
                       chg_isDisabled = None, chg_name = None, chg_options = None\<rparr>"
  have b: "?b = updateControl ((demo_binding UpdChange)\<lparr>ctrl := (ctrl (demo_binding UpdChange))\<lparr>
      fc_pendingValue := JStr ''ab'', fc_pendingChange := True, fc_pendingDirty := True\<rparr>\<rparr>)"
    by (simp add: deliver_input view_change_def)
  have "nm_registered (dir ?b)" "nm_viewModel (dir ?b) = JStr ''ab''" "queue ?b = []"
    unfolding b by (simp_all add: updateControl_eq Let_def demo_binding_def)
  moreover have "checkForErrors (set_inputs ?ch (dir ?b)) = Inr (set_inputs ?ch (dir ?b))"
    unfolding b by (simp add: updateControl_eq Let_def demo_binding_def set_inputs_def checkForErrors_def
        checkName_def isStandalone_def)
  ultimately show ?thesis
    using change_detection_model_input [of ?b ?ch "set_inputs ?ch (dir ?b)"
        "\<lparr>sc_previousValue = JUndef, sc_currentValue = JStr ''ab'', sc_firstChange = False\<rparr>"]
    by simp
qed

text \<open>The truth table of the \<open>disabled\<close> input.\<close>

lemma disabled_of_table:
  "disabled_of v \<longleftrightarrow>
     (case v of JStr s \<Rightarrow> s \<noteq> ''false'' | JBool x \<Rightarrow> x | JNum n \<Rightarrow> n \<noteq> 0 | JObj _ \<Rightarrow> True
      | _ \<Rightarrow> False)"
  by (cases v) (auto simp: disabled_of_def)

text \<open>
  C18. A change of the \<open>disabled\<close> input takes effect at the next microtask
  checkpoint: the control ends disabled exactly as the input says (for the empty
  string, the bare attribute, and every string but \<open>'false'\<close>, for \<open>true\<close>,
  non-zero numbers and objects; never for \<open>false\<close>, \<open>0\<close>, \<open>null\<close>,
  \<open>undefined\<close> or \<open>NaN\<close>), the accessor's
  \<open>setDisabledState\<close> is called once when the state flips and not at all
  otherwise, and the value and the emissions are untouched.
\<close>

theorem disabled_input_toggles:
  assumes "fc_onDisabledChange (ctrl b) = [DisabledToViewCb]" and "nm_valueAccessor (dir b) = Some a"
    and "queue b = []"
  shows "let b' = ng_step (updateDisabled c b) Microtasks; x = disabled_of (sc_currentValue c) in
     fc_disabled (ctrl b') = x \<and>
     (x \<longleftrightarrow> (case sc_currentValue c of JStr s \<Rightarrow> s \<noteq> ''false'' | JBool y \<Rightarrow> y
                | JNum n \<Rightarrow> n \<noteq> 0 | JObj _ \<Rightarrow> True | _ \<Rightarrow> False)) \<and>
     viewOps b' = viewOps b @ (if x \<noteq> fc_disabled (ctrl b) then [accessor_setDisabled a x] else []) \<and>
     emitted b' = emitted b \<and> fc_value (ctrl b') = fc_value (ctrl b)"
  using assms
  by (simp add: updateDisabled_def flush_def control_disable_def control_enable_def
      va_setDisabledState_def Let_def fc_ops_defs disabled_of_table [symmetric])

theorem disabled_input_toggles_witness:
  "viewOps (ng_step (updateDisabled \<lparr>sc_previousValue = JUndef, sc_currentValue = JStr [], sc_firstChange = True\<rparr>
      (demo_binding UpdChange)) Microtasks) =
   viewOps (demo_binding UpdChange) @ [Render (SetProperty ''disabled'' (JBool True))]"
  using disabled_input_toggles [of "demo_binding UpdChange" "CVA DefaultValueAccessorC 0"
      "\<lparr>sc_previousValue = JUndef, sc_currentValue = JStr [], sc_firstChange = True\<rparr>"]
  by (simp add: Let_def demo_binding_def disabled_of_def accessor_setDisabled_def dva_setDisabledState_def)

text \<open>
  C19. \<open>_checkForErrors\<close> rejects an \<open>ngModel\<close> that is not standalone under a
  \<open>formGroupName\<close> (\<open>formGroupNameException\<close>), under any container other than
  \<open>NgForm\<close> or \<open>NgModelGroup\<close> (\<open>modelParentException\<close>), and under those
  without a name (\<open>missingNameException\<close>); a standalone one always passes.
\<close>

theorem checkForErrors_errors:
  "(\<not> isStandalone d \<and> nm_parent d = Some p \<and> ct_kind p = FormGroupNameP \<longrightarrow>
      checkForErrors d = Inl FormGroupNameException) \<and>
   (\<not> isStandalone d \<and> nm_parent d = Some p \<and> ct_kind p = OtherContainerP \<longrightarrow>
      checkForErrors d = Inl ModelParentException) \<and>
   (\<not> isStandalone d \<and> nm_parent d = Some p \<and> ct_kind p \<in> {NgFormP, NgModelGroupP} \<and>
      \<not> name_truthy (nm_name d) \<and> (\<forall>opts. nm_options d = Some opts \<longrightarrow> \<not> name_truthy (opt_name opts)) \<longrightarrow>
      checkForErrors d = Inl MissingNameException) \<and>
   (isStandalone d \<longrightarrow> (\<exists>d'. checkForErrors d = Inr d'))"
  by (auto simp: checkForErrors_def checkParentType_def checkName_def parent_is_def
      isAbstractFormGroupDirective_def isStandalone_def Let_def split: option.splits)

theorem checkForErrors_errors_witness:
  "checkForErrors \<lparr>nm_parent = Some \<lparr>ct_kind = FormGroupNameP, ct_path = [Some ''g'']\<rparr>,
      nm_rawValidators = [], nm_rawAsyncValidators = [], nm_valueAccessor = None, nm_registered = False,
      nm_viewModel = JUndef, nm_name = Some ''n'', nm_isDisabled = JUndef, nm_model = JUndef,
      nm_options = None\<rparr> = Inl FormGroupNameException"
  using checkForErrors_errors [of "\<lparr>nm_parent = Some \<lparr>ct_kind = FormGroupNameP, ct_path = [Some ''g'']\<rparr>,
      nm_rawValidators = [], nm_rawAsyncValidators = [], nm_valueAccessor = None, nm_registered = False,
      nm_viewModel = JUndef, nm_name = Some ''n'', nm_isDisabled = JUndef, nm_model = JUndef,
      nm_options = None\<rparr>" "\<lparr>ct_kind = FormGroupNameP, ct_path = [Some ''g'']\<rparr>"]
  by (simp add: isStandalone_def)

text \<open>
  C32. When registration of a standalone \<open>ngModel\<close> fails for want of an accessor,
  \<open>ngOnChanges\<close> throws "No value accessor" after the update strategy has been
  applied: nothing is wired, the directive stays unregistered (the next pass tries
  again), and the disabled and model updates of the pass are never queued.
\<close>

theorem setup_failure_aborts_pass:
  assumes "nm_parent (dir b) = None" and "\<not> nm_registered (dir b)" and "nm_valueAccessor (dir b) = None"
    and "checkForErrors (dir b) = Inr d"
  shows "ngOnChanges changes b =
     Inl (throwError (nm_path d) ''No value accessor for form control with'', setUpdateStrategy (b\<lparr>dir := d\<rparr>))"
proof -
  have "d = (dir b)\<lparr>nm_name := nm_name d\<rparr>" using checkForErrors_Inr [OF assms(4)] .
  then have "nm_parent d = None" "\<not> nm_registered d" "nm_valueAccessor d = None"
    using assms(1-3) by (metis ngmodel.ext_inject ngmodel.surjective ngmodel.update_convs(7))+
  then show ?thesis
    using assms(4)
    by (simp add: ngOnChanges_def ngModel_setUpControl_def setUpStandalone_def setUpControl_def
        isStandalone_def setUpdateStrategy_def Let_def split: option.splits)
qed

theorem setup_failure_aborts_pass_witness:
  "\<exists>b. ngModel_new None None None JsAbsent (dva_new (Some True) None) [] UpdChange = Inr b \<and>
     ngOnChanges \<lparr>chg_model = None, chg_isDisabled = None, chg_name = None, chg_options = None\<rparr> b =
       Inl (Error ''No value accessor for form control with unspecified name attribute'', b)"
proof -
  obtain b where b: "ngModel_new None None None JsAbsent (dva_new (Some True) None) [] UpdChange = Inr b"
    by (simp add: ngModel_new_def selectValueAccessor_def)
  have "nm_parent (dir b) = None" "\<not> nm_registered (dir b)" "nm_valueAccessor (dir b) = None"
    "checkForErrors (dir b) = Inr (dir b)" "nm_path (dir b) = [None]" "setUpdateStrategy (b\<lparr>dir := dir b\<rparr>) = b"
    using b by (auto simp: ngModel_new_def selectValueAccessor_def checkForErrors_def checkName_def
        isStandalone_def nm_path_def setUpdateStrategy_def)
  with b show ?thesis
    using setup_failure_aborts_pass [of b "dir b" "\<lparr>chg_model = None, chg_isDisabled = None, chg_name = None, chg_options = None\<rparr>"]
    by (auto simp: throwError_def messageEnd_def)
qed

text \<open>
  C33. The first change detection of an \<open>ngModel\<close> named \<open>n\<close> inside an
  \<open>NgForm\<close> only marks it registered and queues the form's \<open>addControl\<close>;
  nothing is wired before the checkpoint. The checkpoint registers \<open>n\<close> with the
  form, wires the pipeline, writes the control's \<open>null\<close> into the view, and the
  control follows the form's update policy.
\<close>

theorem form_registration_deferred:
  assumes "ngModel_new (Some \<lparr>ct_kind = NgFormP, ct_path = []\<rparr>) vs avs (JsArray [CVA DefaultValueAccessorC i])
             (dva_new mode ua) names fp = Inr b"
    and "n \<noteq> []"
  shows "let b1 = ng_step b (ChangeDetection \<lparr>chg_model = None, chg_isDisabled = None,
                    chg_name = Some \<lparr>sc_previousValue = None, sc_currentValue = Some n, sc_firstChange = True\<rparr>,
                    chg_options = None\<rparr>);
             b2 = ng_step b1 Microtasks in
     nm_registered (dir b1) \<and> queue b1 = [AddControlTask] \<and> dva_onChange (acc b1) = None \<and>
     fc_onChange (ctrl b1) = [] \<and> viewOps b1 = [] \<and>
     Some n \<in> set (formNames b2) \<and> inForm b2 \<and> dva_onChange (acc b2) = Some ViewToModelCb \<and>
     fc_onChange (ctrl b2) = [ModelToViewCb] \<and> fc_updateOn (ctrl b2) = fp \<and>
     viewOps b2 = [Render (dva_writeValue JNull)] \<and> queue b2 = [] \<and> uncaught b2 = []"
proof -
  have b: "b = \<lparr>ctrl = fc_new, dir = \<lparr>nm_parent = Some \<lparr>ct_kind = NgFormP, ct_path = []\<rparr>,
                nm_rawValidators = (case vs of None \<Rightarrow> [] | Some vs \<Rightarrow> vs),
                nm_rawAsyncValidators = (case avs of None \<Rightarrow> [] | Some vs \<Rightarrow> vs),
                nm_valueAccessor = Some (CVA DefaultValueAccessorC i), nm_registered = False, nm_viewModel = JUndef,
                nm_name = None, nm_isDisabled = JUndef, nm_model = JUndef, nm_options = None\<rparr>,
                acc = dva_new mode ua, viewOps = [],
                emitted = [], validatorCb = (\<lambda>_. False), queue = [], uncaught = [],
                formNames = names, inForm = False, formUpdateOn = fp\<rparr>"
    using assms(1) by (simp add: ngModel_new_def selectValueAccessor_def nm_path_def)
  show ?thesis
    unfolding b using assms(2)
    by (simp add: set_inputs_def ngOnChanges_def checkForErrors_def checkParentType_def parent_is_def
      isAbstractFormGroupDirective_def checkName_def isStandalone_def
      ngModel_setUpControl_def setUpdateStrategy_def formAddControl_def isPropertyUpdated_def flush_def
      form_addControl_now_def setUpControl_Some dva_new_def accessor_write_def fc_updateOn_def Let_def
      fc_ops_defs)
qed

theorem form_registration_deferred_witness:
  "\<exists>b. ngModel_new (Some \<lparr>ct_kind = NgFormP, ct_path = []\<rparr>) None None (JsArray [CVA DefaultValueAccessorC 0])
          (dva_new (Some True) None) [] UpdSubmit = Inr b \<and>
     fc_updateOn (ctrl (ng_step (ng_step b (ChangeDetection \<lparr>chg_model = None, chg_isDisabled = None,
                    chg_name = Some \<lparr>sc_previousValue = None, sc_currentValue = Some ''n'', sc_firstChange = True\<rparr>,
                    chg_options = None\<rparr>)) Microtasks)) = UpdSubmit"
proof -
  obtain b where b: "ngModel_new (Some \<lparr>ct_kind = NgFormP, ct_path = []\<rparr>) None None (JsArray [CVA DefaultValueAccessorC 0])
          (dva_new (Some True) None) [] UpdSubmit = Inr b"
    by (simp add: ngModel_new_def selectValueAccessor_def)
  show ?thesis
    using b form_registration_deferred [OF b, of "''n''"] by (auto simp: Let_def)
qed

end
