(* ===== verification/Event_Loop.thy ===== *)
theory Event_Loop
  imports NgModel
begin

text \<open>
  The event loop around the directive, beyond one checkpoint: the microtask loop as
  the browser runs it (one task popped at a time, while a task may schedule more), and
  what the directive's deferred work guarantees over whole runs.
\<close>

section \<open>The microtask loop\<close>

text \<open>
  The browser pops the first microtask and runs it, then looks at the queue again;
  a task could schedule further tasks, so the loop need not end in general. It is a
  partial function: \<open>None\<close> is a loop that never ends.
\<close>

partial_function (option) drain :: "binding \<Rightarrow> binding option" where
  "drain b = (case queue b of [] \<Rightarrow> Some b | t # ts \<Rightarrow> drain (run_task t (b\<lparr>queue := ts\<rparr>)))"

section \<open>Lemmas\<close>

lemma fold_model_cb_queue:
  "fold (\<lambda>f. run_model_cb f v e) fs (b\<lparr>queue := q\<rparr>) = (fold (\<lambda>f. run_model_cb f v e) fs b)\<lparr>queue := q\<rparr>"
proof (induction fs arbitrary: b)
  case (Cons f fs)
  have "run_model_cb f v e (b\<lparr>queue := q\<rparr>) = (run_model_cb f v e b)\<lparr>queue := q\<rparr>"
    by (cases f) (simp add: model_to_view_def va_writeValue_def viewToModelUpdate_def split: option.splits)
  with Cons.IH show ?case by simp
qed simp

lemma fold_disabled_cb_queue:
  "fold (\<lambda>f. run_disabled_cb f x) fs (b\<lparr>queue := q\<rparr>) = (fold (\<lambda>f. run_disabled_cb f x) fs b)\<lparr>queue := q\<rparr>"
proof (induction fs arbitrary: b)
  case (Cons f fs)
  have "run_disabled_cb f x (b\<lparr>queue := q\<rparr>) = (run_disabled_cb f x b)\<lparr>queue := q\<rparr>"
    by (cases f) (simp add: va_setDisabledState_def split: option.splits)
  with Cons.IH show ?case by simp
qed simp

lemma control_setValue_queue:
  "control_setValue v opts (b\<lparr>queue := q\<rparr>) = (control_setValue v opts b)\<lparr>queue := q\<rparr>"
proof -
  have swap: "b\<lparr>queue := q, ctrl := c\<rparr> = b\<lparr>ctrl := c, queue := q\<rparr>" for c by simp
  show ?thesis by (simp add: control_setValue_def Let_def swap fold_model_cb_queue)
qed

lemma control_disable_enable_queue:
  "control_disable (b\<lparr>queue := q\<rparr>) = (control_disable b)\<lparr>queue := q\<rparr>"
  "control_enable (b\<lparr>queue := q\<rparr>) = (control_enable b)\<lparr>queue := q\<rparr>"
proof -
  have swap: "b\<lparr>queue := q, ctrl := c\<rparr> = b\<lparr>ctrl := c, queue := q\<rparr>" for c by simp
  show "control_disable (b\<lparr>queue := q\<rparr>) = (control_disable b)\<lparr>queue := q\<rparr>"
    by (simp add: control_disable_def swap fold_disabled_cb_queue)
  show "control_enable (b\<lparr>queue := q\<rparr>) = (control_enable b)\<lparr>queue := q\<rparr>"
    by (simp add: control_enable_def swap fold_disabled_cb_queue)
qed

text \<open>No task reads or writes the queue.\<close>

lemma run_task_queue_update: "run_task t (b\<lparr>queue := q\<rparr>) = (run_task t b)\<lparr>queue := q\<rparr>"
proof (cases t)
  case AddControlTask
  then show ?thesis
    by (cases "nm_valueAccessor (dir b)")
      (simp add: form_addControl_now_def setUpControl_def Let_def,
       simp add: form_addControl_now_def setUpControl_Some Let_def)
qed (simp_all add: control_setValue_queue control_disable_enable_queue form_removeControl_now_def)

lemma run_tasks_append: "run_tasks (ts @ us) b = run_tasks us (run_tasks ts b)"
  by (induction ts arbitrary: b) simp_all

lemma drain_run_tasks: "drain b = Some (run_tasks (queue b) (b\<lparr>queue := []\<rparr>))"
proof (induction "queue b" arbitrary: b)
  case Nil
  then show ?case by (simp add: drain.simps)
next
  case (Cons t ts)
  have "drain b = drain (run_task t (b\<lparr>queue := ts\<rparr>))"
    using Cons.hyps(2) [symmetric] by (simp add: drain.simps)
  also have "\<dots> = Some (run_tasks ts ((run_task t (b\<lparr>queue := ts\<rparr>))\<lparr>queue := []\<rparr>))"
    using Cons.hyps(1) [of "run_task t (b\<lparr>queue := ts\<rparr>)"] by simp
  also have "(run_task t (b\<lparr>queue := ts\<rparr>))\<lparr>queue := []\<rparr> = run_task t (b\<lparr>queue := []\<rparr>)"
    by (simp add: run_task_queue_update [symmetric])
  finally show ?case using Cons.hyps(2) [symmetric] by simp
qed

lemma queue_run_tasks [simp]: "queue (run_tasks ts b) = queue b"
  by (induction ts arbitrary: b) simp_all

lemma fc_value_run_tasks_snoc [simp]:
  "fc_value (ctrl (run_tasks (ts @ [SetValueTask v]) b)) = v"
  by (simp add: run_tasks_append fc_ops_defs)

text \<open>
  The microtask loop terminates on every state: popping one task at a time, it
  returns (\<open>Some\<close>), ends with an empty queue, and computes the checkpoint
  \<open>flush\<close> that runs the queued tasks in order. No task schedules another, so a
  checkpoint never leaves work behind.
\<close>

lemma microtask_loop_terminates:
  "drain b = Some (flush b) \<and> queue (flush b) = []"
  by (simp add: drain_run_tasks flush_def)

subsection \<open>Properties\<close>

text \<open>
  C34. A change of the \<open>ngModel\<close> input that \<open>ngOnChanges\<close> sees as an update
  (first change, or a value other than the last view model) always reaches the
  control: after the next checkpoint the control holds the new value, whatever was
  queued before and whether or not the \<open>disabled\<close> input changed in the same pass.
\<close>

theorem model_input_reaches_control:
  assumes "nm_registered (dir b)" and "checkForErrors (set_inputs changes (dir b)) = Inr d"
    and "chg_model changes = Some c"
    and "sc_firstChange c \<or> sc_currentValue c \<noteq> nm_viewModel (dir b)"
  shows "fc_value (ctrl (ng_step (ng_step b (ChangeDetection changes)) Microtasks)) = sc_currentValue c"
proof -
  have "nm_registered d" "nm_model d = sc_currentValue c" "nm_viewModel d = nm_viewModel (dir b)"
    using checkForErrors_set_inputs [OF assms(2)] assms(1,3) by simp_all
  then obtain ts where "queue (ng_step b (ChangeDetection changes)) = ts @ [SetValueTask (sc_currentValue c)]"
    using assms(2-4)
    by (cases "chg_isDisabled changes")
      (auto simp: ngOnChanges_def isPropertyUpdated_def looseIdentical_iff updateValue_def
        updateDisabled_def Let_def)
  then show ?thesis by (simp add: flush_def)
qed

theorem model_input_reaches_control_witness:
  "fc_value (ctrl (ng_step (ng_step (demo_binding UpdBlur) (ChangeDetection
      \<lparr>chg_model = Some \<lparr>sc_previousValue = JUndef, sc_currentValue = JStr ''m'', sc_firstChange = False\<rparr>,
       chg_isDisabled = Some \<lparr>sc_previousValue = JUndef, sc_currentValue = JStr [], sc_firstChange = True\<rparr>,
       chg_name = None, chg_options = None\<rparr>)) Microtasks)) = JStr ''m''"
proof -
  let ?c = "\<lparr>sc_previousValue = JUndef, sc_currentValue = JStr ''m'', sc_firstChange = False\<rparr>"
  let ?ch = "\<lparr>chg_model = Some ?c,
       chg_isDisabled = Some \<lparr>sc_previousValue = JUndef, sc_currentValue = JStr [], sc_firstChange = True\<rparr>,
       chg_name = None, chg_options = None\<rparr>"
  have "checkForErrors (set_inputs ?ch (dir (demo_binding UpdBlur))) = Inr (set_inputs ?ch (dir (demo_binding UpdBlur)))"
    by (simp add: demo_binding_def set_inputs_def checkForErrors_def checkName_def isStandalone_def)
  then show ?thesis
    using model_input_reaches_control [of "demo_binding UpdBlur" ?ch "set_inputs ?ch (dir (demo_binding UpdBlur))" ?c]
    by (simp add: demo_binding_def)
qed

end
