(* ===== verification/Directive_Matching.thy ===== *)
theory Directive_Matching
  imports NgModel
begin

text \<open>
  Which directives an element gets, and so which accessors \<open>NgModel\<close> is injected:
  the \<open>selector\<close> of \<open>DefaultValueAccessor\<close>
  (\<open>src/ng-model/default_value_accessor.ts\<close>) and of \<open>NgModel\<close>
  (\<open>src/ng-model/ng_model.ts\<close>) as data, CSS selector matching on an element's tag
  and attributes, and the multi-provider \<open>DEFAULT_VALUE_ACCESSOR\<close> that adds the
  text accessor to the element's \<open>NG_VALUE_ACCESSOR\<close> list. The injection itself:
  tokens, providers (\<open>DEFAULT_VALUE_ACCESSOR\<close>, \<open>formControlBinding\<close>), an
  injector lookup with \<open>multi\<close> providers, and the constructors' parameters
  resolved through it (\<open>ngModel_injected\<close>). Lemmas: the two selectors in plain
  words, what \<open>NgModel\<close> is constructed with on an element, and that construction by
  injection refines the explicit construction.
\<close>

section \<open>Selectors\<close>

text \<open>An element of a template: its tag and its attributes (name and value), as written.\<close>

record element =
  el_tag :: string
  el_attrs :: "(string \<times> string) list"

text \<open>
  The parts of a compound CSS selector the sources use: a tag, \<open>[attr]\<close>,
  \<open>[attr=value]\<close> and \<open>:not(...)\<close>. A compound selector is the list of its parts;
  a selector is a comma-separated list of compound selectors.
\<close>

datatype simple_sel = TagSel string | AttrSel string | AttrValSel string string | NotSel simple_sel

type_synonym selector = "simple_sel list list"

definition has_attr :: "element \<Rightarrow> string \<Rightarrow> bool" where
  "has_attr el a \<longleftrightarrow> list_ex (\<lambda>(n, v). n = a) (el_attrs el)"

fun sel_matches :: "simple_sel \<Rightarrow> element \<Rightarrow> bool" where
  "sel_matches (TagSel t) el = (el_tag el = t)"
| "sel_matches (AttrSel a) el = has_attr el a"
| "sel_matches (AttrValSel a w) el = list_ex (\<lambda>(n, v). n = a \<and> v = w) (el_attrs el)"
| "sel_matches (NotSel s) el = (\<not> sel_matches s el)"

definition selector_matches :: "selector \<Rightarrow> element \<Rightarrow> bool" where
  "selector_matches sel el \<longleftrightarrow> list_ex (\<lambda>c. list_all (\<lambda>s. sel_matches s el) c) sel"

text \<open>
  \<open>'input:not([type=checkbox])[formControlName],textarea[formControlName],
  input:not([type=checkbox])[formControl],textarea[formControl],
  input:not([type=checkbox])[ngModel],textarea[ngModel],[ngDefaultControl]'\<close>.
\<close>

definition dva_selector :: selector where
  "dva_selector =
     [[TagSel ''input'', NotSel (AttrValSel ''type'' ''checkbox''), AttrSel ''formControlName''],
      [TagSel ''textarea'', AttrSel ''formControlName''],
      [TagSel ''input'', NotSel (AttrValSel ''type'' ''checkbox''), AttrSel ''formControl''],
      [TagSel ''textarea'', AttrSel ''formControl''],
      [TagSel ''input'', NotSel (AttrValSel ''type'' ''checkbox''), AttrSel ''ngModel''],
      [TagSel ''textarea'', AttrSel ''ngModel''],
      [AttrSel ''ngDefaultControl'']]"

text \<open>\<open>'[ngModel]:not([formControlName]):not([formControl])'\<close>.\<close>

definition ngModel_selector :: selector where
  "ngModel_selector =
     [[AttrSel ''ngModel'', NotSel (AttrSel ''formControlName''), NotSel (AttrSel ''formControl'')]]"

section \<open>Injection\<close>

text \<open>
  \<open>NG_VALUE_ACCESSOR\<close> on an element: the text accessor (number \<open>i\<close>) when its
  selector matches, through \<open>DEFAULT_VALUE_ACCESSOR\<close> (\<open>multi: true\<close>), then the
  accessors the element's other directives provide. With no provider at all the
  \<open>@Optional()\<close> argument is \<open>null\<close>.
\<close>

definition value_accessors_of :: "element \<Rightarrow> nat \<Rightarrow> cva list \<Rightarrow> cva js_arg" where
  "value_accessors_of el i others =
     (let vs = (if selector_matches dva_selector el then [CVA DefaultValueAccessorC i] else []) @ others
      in if vs = [] then JsAbsent else JsArray vs)"

text \<open>The \<open>NgModel\<close> directive of an element, constructed when its selector matches.\<close>

definition ngModel_on ::
  "element \<Rightarrow> nat \<Rightarrow> cva list \<Rightarrow> container option \<Rightarrow> raw_validator list option \<Rightarrow>
   raw_validator list option \<Rightarrow> accessor \<Rightarrow> name list \<Rightarrow> update_on \<Rightarrow> binding throws option" where
  "ngModel_on el i others parent vs avs a names formPolicy =
     (if selector_matches ngModel_selector el
      then Some (ngModel_new parent vs avs (value_accessors_of el i others) a names formPolicy)
      else None)"

section \<open>Dependency injection\<close>

text \<open>
  The injection tokens the sources declare or request: \<open>NG_VALUE_ACCESSOR\<close> (the
  accessor list \<open>NgModel\<close> asks for), \<open>COMPOSITION_BUFFER_MODE\<close>
  (\<open>new InjectionToken<boolean>('CompositionEventMode')\<close>, asked for by the
  accessor's constructor) and the class token \<open>NgControl\<close>; and the values they
  are bound to: an accessor, a boolean, or the \<open>NgModel\<close> directive numbered
  \<open>i\<close>.
\<close>

datatype di_token = NG_VALUE_ACCESSOR | COMPOSITION_BUFFER_MODE | NgControl

datatype di_value = AccessorV cva | BoolV bool | DirectiveV nat

text \<open>A provider \<open>{provide, useExisting | useValue, multi}\<close>.\<close>

record provider =
  provide :: di_token
  provider_value :: di_value
  multi :: bool

text \<open>
  \<open>DEFAULT_VALUE_ACCESSOR = {provide: NG_VALUE_ACCESSOR, useExisting:
  forwardRef(() => DefaultValueAccessor), multi: true}\<close>, for the accessor numbered \<open>i\<close>.
\<close>

definition DEFAULT_VALUE_ACCESSOR :: "nat \<Rightarrow> provider" where
  "DEFAULT_VALUE_ACCESSOR i =
     \<lparr>provide = NG_VALUE_ACCESSOR, provider_value = AccessorV (CVA DefaultValueAccessorC i), multi = True\<rparr>"

text \<open>\<open>formControlBinding = {provide: NgControl, useExisting: forwardRef(() => NgModel)}\<close>.\<close>

definition formControlBinding :: "nat \<Rightarrow> provider" where
  "formControlBinding i = \<lparr>provide = NgControl, provider_value = DirectiveV i, multi = False\<rparr>"

text \<open>
  The providers of an element: those of the matched \<open>DefaultValueAccessor\<close>
  (\<open>providers: [DEFAULT_VALUE_ACCESSOR]\<close>), of the matched \<open>NgModel\<close>
  (\<open>providers: [formControlBinding]\<close>), then those of the element's other directives.
\<close>

definition element_providers :: "element \<Rightarrow> nat \<Rightarrow> provider list \<Rightarrow> provider list" where
  "element_providers el i others =
     (if selector_matches dva_selector el then [DEFAULT_VALUE_ACCESSOR i] else []) @
     (if selector_matches ngModel_selector el then [formControlBinding i] else []) @ others"

text \<open>
  What an injector gives for a token: nothing when no provider binds it, the list of
  all values when its providers are \<open>multi\<close>, the last value otherwise; multi and
  plain providers of one token are an error.
\<close>

datatype injected = NotProvided | MultiValues "di_value list" | SingleValue di_value

definition resolve :: "provider list \<Rightarrow> di_token \<Rightarrow> injected throws" where
  "resolve ps tok =
     (let qs = filter (\<lambda>p. provide p = tok) ps
      in if qs = [] then Inr NotProvided
         else if list_all multi qs then Inr (MultiValues (map provider_value qs))
         else if list_ex multi qs
         then Inl (Error ''Mixing multi and non multi provider is not possible for token'')
         else Inr (SingleValue (provider_value (last qs))))"

text \<open>
  Without \<open>@Self()\<close> the search goes on to the module's providers when the element
  binds nothing (the ancestors' element injectors are not modelled).
\<close>

definition resolve_up :: "provider list \<Rightarrow> provider list \<Rightarrow> di_token \<Rightarrow> injected throws" where
  "resolve_up ps modules tok =
     (case resolve ps tok of Inr NotProvided \<Rightarrow> resolve modules tok | r \<Rightarrow> r)"

text \<open>
  \<open>@Optional() @Self() @Inject(NG_VALUE_ACCESSOR) valueAccessors\<close>: \<open>null\<close> when
  nothing is bound, the array of a multi binding, a non-array for a plain one.
\<close>

fun accessor_of :: "di_value \<Rightarrow> cva list" where
  "accessor_of (AccessorV a) = [a]"
| "accessor_of _ = []"

fun accessors_arg :: "injected \<Rightarrow> cva js_arg" where
  "accessors_arg NotProvided = JsAbsent"
| "accessors_arg (MultiValues vs) = JsArray (concat (map accessor_of vs))"
| "accessors_arg (SingleValue v) = JsNonArray"

text \<open>
  \<open>@Optional() @Inject(COMPOSITION_BUFFER_MODE) _compositionMode: boolean\<close>:
  \<open>null\<close> when nothing is bound; otherwise the value, read later only for its
  truthiness (an array or an object is truthy).
\<close>

fun compositionMode_arg :: "injected \<Rightarrow> bool option" where
  "compositionMode_arg NotProvided = None"
| "compositionMode_arg (SingleValue (BoolV m)) = Some m"
| "compositionMode_arg _ = Some True"

text \<open>
  The \<open>NgModel\<close> of an element built by injection: its accessor list from the
  element alone, the text accessor's composition mode from the element or the module,
  and the constructors run in that order. An injection error aborts the construction.
\<close>

definition ngModel_injected ::
  "element \<Rightarrow> nat \<Rightarrow> provider list \<Rightarrow> provider list \<Rightarrow> container option \<Rightarrow>
   raw_validator list option \<Rightarrow> raw_validator list option \<Rightarrow> string option \<Rightarrow> name list \<Rightarrow>
   update_on \<Rightarrow> binding throws option" where
  "ngModel_injected el i others modules parent vs avs ua names formPolicy =
     (if selector_matches ngModel_selector el
      then Some (let ps = element_providers el i others
                 in case resolve_up ps modules COMPOSITION_BUFFER_MODE of
                      Inl e \<Rightarrow> Inl e
                    | Inr m \<Rightarrow>
                        (case resolve ps NG_VALUE_ACCESSOR of
                           Inl e \<Rightarrow> Inl e
                         | Inr va \<Rightarrow>
                             ngModel_new parent vs avs (accessors_arg va)
                               (dva_new (compositionMode_arg m) ua) names formPolicy))
      else None)"

section \<open>Lemmas\<close>

lemma sel_matches_attr_val [simp]:
  "sel_matches (AttrValSel a w) el \<longleftrightarrow> (a, w) \<in> set (el_attrs el)"
  by (auto simp: list_ex_iff)

text \<open>An element's accessor providers, all \<open>multi\<close>, resolve to the list \<open>value_accessors_of\<close> builds.\<close>

lemma resolve_accessors:
  assumes "filter (\<lambda>p. provide p = NG_VALUE_ACCESSOR) others =
             map (\<lambda>a. \<lparr>provide = NG_VALUE_ACCESSOR, provider_value = AccessorV a, multi = True\<rparr>) accs"
  shows "map_sum id accessors_arg (resolve (element_providers el i others) NG_VALUE_ACCESSOR) =
           Inr (value_accessors_of el i accs)"
  using assms
  by (simp add: resolve_def element_providers_def value_accessors_of_def DEFAULT_VALUE_ACCESSOR_def
      formControlBinding_def Let_def comp_def list_all_iff)

subsection \<open>Properties\<close>

text \<open>
  The two selectors in plain words: the text accessor attaches to an element
  with \<open>ngDefaultControl\<close>, or to a \<open>textarea\<close> or an \<open>input\<close> that is not
  \<open>type="checkbox"\<close> carrying \<open>ngModel\<close>, \<open>formControl\<close> or
  \<open>formControlName\<close>; \<open>NgModel\<close> attaches exactly to an element with
  \<open>ngModel\<close> and neither \<open>formControlName\<close> nor \<open>formControl\<close>. On such an
  element with no other accessor directive, \<open>NgModel\<close> is built with the text
  accessor when its selector matches, and otherwise with no accessor and no error (the
  provider list is absent, so selection returns \<open>null\<close>): a \<open>div\<close> or a checkbox
  with \<open>ngModel\<close> is only rejected when it registers.
\<close>

lemma selectors_in_words:
  "(selector_matches dva_selector el \<longleftrightarrow>
      has_attr el ''ngDefaultControl'' \<or>
      ((el_tag el = ''input'' \<and> (''type'', ''checkbox'') \<notin> set (el_attrs el)) \<or> el_tag el = ''textarea'') \<and>
      (has_attr el ''ngModel'' \<or> has_attr el ''formControl'' \<or> has_attr el ''formControlName'')) \<and>
   (selector_matches ngModel_selector el \<longleftrightarrow>
      has_attr el ''ngModel'' \<and> \<not> has_attr el ''formControlName'' \<and> \<not> has_attr el ''formControl'') \<and>
   (selector_matches ngModel_selector el \<longrightarrow>
      (\<exists>b. ngModel_on el i [] parent vs avs a names fp = Some (Inr b) \<and>
         nm_valueAccessor (dir b) =
           (if selector_matches dva_selector el then Some (CVA DefaultValueAccessorC i) else None)))"
proof -
  have "selector_matches ngModel_selector el \<longrightarrow>
      (\<exists>b. ngModel_on el i [] parent vs avs a names fp = Some (Inr b) \<and>
         nm_valueAccessor (dir b) =
           (if selector_matches dva_selector el then Some (CVA DefaultValueAccessorC i) else None))"
    by (simp add: ngModel_on_def value_accessors_of_def ngModel_new_def selectValueAccessor_def Let_def)
  then show ?thesis
    by (auto simp: selector_matches_def dva_selector_def ngModel_selector_def list_ex_iff)
qed

text \<open>
  Construction by injection refines the explicit construction: when the
  element's other directives provide accessors only through \<open>multi\<close> providers and
  provide neither \<open>COMPOSITION_BUFFER_MODE\<close> nor \<open>NgControl\<close>, the
  \<open>NgModel\<close> injected on an element is the one built from the text accessor (if its
  selector matches) followed by those accessors, with the accessor's composition mode
  taken from the module's binding, and \<open>NgControl\<close> on the element resolves to that
  \<open>NgModel\<close> through \<open>formControlBinding\<close>.
\<close>

lemma ngModel_injected_refines:
  assumes "filter (\<lambda>p. provide p = NG_VALUE_ACCESSOR) others =
             map (\<lambda>a. \<lparr>provide = NG_VALUE_ACCESSOR, provider_value = AccessorV a, multi = True\<rparr>) accs"
    and "\<forall>p\<in>set others. provide p \<noteq> COMPOSITION_BUFFER_MODE \<and> provide p \<noteq> NgControl"
    and "resolve modules COMPOSITION_BUFFER_MODE = Inr m"
  shows "ngModel_injected el i others modules parent vs avs ua names fp =
           ngModel_on el i accs parent vs avs (dva_new (compositionMode_arg m) ua) names fp \<and>
         (selector_matches ngModel_selector el \<longrightarrow>
            resolve (element_providers el i others) NgControl = Inr (SingleValue (DirectiveV i)))"
proof -
  have cbm: "filter (\<lambda>p. provide p = COMPOSITION_BUFFER_MODE) (element_providers el i others) = []"
    and ctl: "filter (\<lambda>p. provide p = NgControl) (element_providers el i others) =
               (if selector_matches ngModel_selector el then [formControlBinding i] else [])"
    using assms(2) by (simp_all add: element_providers_def DEFAULT_VALUE_ACCESSOR_def
        formControlBinding_def filter_empty_conv)
  have up: "resolve_up (element_providers el i others) modules COMPOSITION_BUFFER_MODE = Inr m"
    using assms(3) cbm by (simp add: resolve_up_def resolve_def)
  obtain va where va: "resolve (element_providers el i others) NG_VALUE_ACCESSOR = Inr va"
    and arg: "accessors_arg va = value_accessors_of el i accs"
    using resolve_accessors [OF assms(1), of el i]
    by (cases "resolve (element_providers el i others) NG_VALUE_ACCESSOR") auto
  show ?thesis
    using up va arg ctl
    by (simp add: ngModel_injected_def ngModel_on_def resolve_def formControlBinding_def)
qed

end
