(* ===== verification/Validator_Wiring.thy ===== *)
theory Validator_Wiring
  imports NgModel
begin

text \<open>
  The validator change callbacks \<open>setUpControl\<close> registers
  (\<open>src/ng-model/shared.ts\<close>, the two \<open>registerOnValidatorChange\<close> loops) over
  whole runs of the directive: which validator's change recomputes the control's
  validity. The invariant \<open>vcb_ok\<close> says the callbacks are installed exactly for the
  directive's validators that implement \<open>registerOnValidatorChange\<close>, and exactly when
  the pipeline is wired; it is proved for every reachable state with the pipeline
  invariant \<open>ngm_inv\<close> as the strengthening invariant.
\<close>

section \<open>The invariant\<close>

definition validator_notifies :: "binding \<Rightarrow> nat \<Rightarrow> bool" where
  "validator_notifies b i \<longleftrightarrow>
     dva_onChange (acc b) \<noteq> None \<and>
     ValidatorObject i True \<in> set (nm_rawValidators (dir b) @ nm_rawAsyncValidators (dir b))"

definition vcb_ok :: "binding \<Rightarrow> bool" where
  "vcb_ok b \<longleftrightarrow> validatorCb b = validator_notifies b"

section \<open>Lemmas\<close>

text \<open>The invariant reads the callbacks, the view callback slot and the validator lists.\<close>

lemma vcb_ok_frame:
  assumes "vcb_ok b" and "validatorCb b' = validatorCb b" and "dva_onChange (acc b') = dva_onChange (acc b)"
    and "nm_rawValidators (dir b') = nm_rawValidators (dir b)"
    and "nm_rawAsyncValidators (dir b') = nm_rawAsyncValidators (dir b)"
  shows "vcb_ok b'"
  using assms by (simp add: vcb_ok_def validator_notifies_def fun_eq_iff)

lemma vcb_ok_setUpControl:
  assumes "vcb_ok b" and "dva_onChange (acc b) = None" and "setUpControl c b = Inr b'"
  shows "vcb_ok b'"
proof -
  from assms(3) obtain a c' where a: "nm_valueAccessor (dir b) = Some a" and c: "c = Some c'"
    by (cases c; cases "nm_valueAccessor (dir b)") (simp_all add: setUpControl_def)
  from assms(1,2) have nv: "\<not> validatorCb b i" for i
    by (simp add: vcb_ok_def validator_notifies_def)
  from assms(3) a c have b': "validatorCb b' i \<longleftrightarrow>
      ValidatorObject i True \<in> set (nm_rawValidators (dir b)) \<or>
      ValidatorObject i True \<in> set (nm_rawAsyncValidators (dir b))"
    "dva_onChange (acc b') = Some ViewToModelCb" "dir b' = dir b" for i
    using nv [of i] by (auto simp: setUpControl_Some)
  then show ?thesis by (simp add: vcb_ok_def validator_notifies_def fun_eq_iff)
qed

lemma vcb_ok_deliver: "vcb_ok b \<Longrightarrow> vcb_ok (deliver e b)"
proof -
  assume ok: "vcb_ok b"
  obtain a1 call where h: "dva_host e (acc b) = (a1, call)" by fastforce
  have slot: "dva_onChange a1 = dva_onChange (acc b)"
    using dva_host_frame [of e "acc b"] h by simp
  let ?b1 = "b\<lparr>acc := a1\<rparr>"
  have ok1: "vcb_ok ?b1" by (rule vcb_ok_frame [OF ok]) (simp_all add: slot)
  have "vcb_ok (catch_into ?b1 (run_change_cb c v ?b1))" for c v
  proof (cases c)
    case (Some f)
    show ?thesis using ok1 Some
      by (cases f; simp) (rule vcb_ok_frame [OF ok1]; simp add: view_change_def updateControl_eq Let_def)+
  qed (simp add: ok1)
  moreover have "vcb_ok (catch_into ?b1 (run_touched_cb c ?b1))" for c
  proof (cases c)
    case (Some f)
    show ?thesis using ok1 Some
      by (cases f; simp) (rule vcb_ok_frame [OF ok1]; simp add: blur_touched_def updateControl_eq Let_def fc_ops_defs)+
  qed (simp add: ok1)
  ultimately show ?thesis
    using ok1 h by (simp add: deliver_def Let_def split: option.splits dva_call.splits)
qed

lemma vcb_ok_run_task:
  assumes inv: "ngm_inv (t # ts) b" and ok: "vcb_ok b"
  shows "vcb_ok (run_task t b)"
proof (cases t)
  case (SetValueTask v)
  then show ?thesis by simp (rule vcb_ok_frame [OF ok]; simp)
next
  case (DisabledTask d)
  obtain ops1 where dis: "control_disable b = b\<lparr>ctrl := fc_disable (ctrl b), viewOps := ops1\<rparr>"
    using control_disable_frame by blast
  obtain ops2 where en: "control_enable b = b\<lparr>ctrl := fc_enable (ctrl b), viewOps := ops2\<rparr>"
    using control_enable_frame by blast
  have "vcb_ok (control_disable b)" "vcb_ok (control_enable b)"
    unfolding dis en by (rule vcb_ok_frame [OF ok]; simp)+
  with ok DisabledTask show ?thesis by simp
next
  case AddControlTask
  with inv have none: "dva_onChange (acc b) = None" by (simp add: ngm_inv_def)
  let ?b1 = "b\<lparr>formNames := (if nm_name (dir b) \<in> set (formNames b) then formNames b
                               else formNames b @ [nm_name (dir b)]),
               ctrl := (ctrl b)\<lparr>fc_parentUpdateOn := Some (formUpdateOn b)\<rparr>\<rparr>"
  have ok1: "vcb_ok ?b1" by (rule vcb_ok_frame [OF ok]) simp_all
  have "vcb_ok (b2\<lparr>ctrl := c, inForm := True\<rparr>)"
    if "setUpControl (Some (ctrl ?b1)) ?b1 = Inr b2" for b2 c
  proof -
    have "vcb_ok b2" using vcb_ok_setUpControl [OF ok1 _ that] none by simp
    then show ?thesis by (rule vcb_ok_frame) simp_all
  qed
  moreover have "vcb_ok (?b1\<lparr>uncaught := es\<rparr>)" for es by (rule vcb_ok_frame [OF ok]) simp_all
  ultimately show ?thesis
    unfolding AddControlTask run_task.simps form_addControl_now_def Let_def
    by (simp only: split: sum.split) blast
next
  case RemoveControlTask
  then show ?thesis by (simp add: form_removeControl_now_def) (rule vcb_ok_frame [OF ok]; simp)
qed

lemma vcb_ok_run_tasks: "ngm_inv ts b \<Longrightarrow> vcb_ok b \<Longrightarrow> queue b = [] \<Longrightarrow> vcb_ok (run_tasks ts b)"
proof (induction ts arbitrary: b)
  case (Cons t ts)
  then show ?case by (simp add: ngm_inv_run_task vcb_ok_run_task)
qed simp

lemma vcb_ok_flush:
  assumes "ngm_inv [] b" and ok: "vcb_ok b"
  shows "vcb_ok (flush b)"
proof -
  have "vcb_ok (b\<lparr>queue := []\<rparr>)" by (rule vcb_ok_frame [OF ok]) simp_all
  with assms(1) show ?thesis
    unfolding flush_def by (intro vcb_ok_run_tasks) (simp_all add: ngm_inv_def)
qed

lemma vcb_ok_upd [simp]:
  "vcb_ok (b\<lparr>ctrl := c\<rparr>) = vcb_ok b" "vcb_ok (b\<lparr>queue := q\<rparr>) = vcb_ok b"
  "vcb_ok (b\<lparr>uncaught := es\<rparr>) = vcb_ok b" "vcb_ok (b\<lparr>inForm := f\<rparr>) = vcb_ok b"
  "vcb_ok (b\<lparr>viewOps := ops\<rparr>) = vcb_ok b" "vcb_ok (b\<lparr>formNames := ns\<rparr>) = vcb_ok b"
  "vcb_ok (b\<lparr>emitted := em\<rparr>) = vcb_ok b"
  by (simp_all add: vcb_ok_def validator_notifies_def fun_eq_iff)

lemma vcb_ok_dir [simp]:
  "nm_rawValidators d = nm_rawValidators (dir b) \<Longrightarrow>
   nm_rawAsyncValidators d = nm_rawAsyncValidators (dir b) \<Longrightarrow> vcb_ok (b\<lparr>dir := d\<rparr>) = vcb_ok b"
  by (simp add: vcb_ok_def validator_notifies_def fun_eq_iff)

text \<open>Registration runs on an unregistered directive, whose view callback is not installed.\<close>

lemma vcb_ok_ngModel_setUpControl:
  assumes inv: "ngm_inv [] b" and unreg: "\<not> nm_registered (dir b)" and ok: "vcb_ok b"
  shows "vcb_ok (case ngModel_setUpControl b of Inl (e, b1) \<Rightarrow> b1 | Inr b1 \<Rightarrow> b1)"
proof -
  let ?b1 = "setUpdateStrategy b"
  have b1: "vcb_ok ?b1" "dva_onChange (acc ?b1) = None"
    using ok inv unreg by (simp_all add: setUpdateStrategy_def ngm_inv_def split: option.splits)
  have "vcb_ok b2" if "setUpControl (Some (ctrl ?b1)) ?b1 = Inr b2" for b2
    using vcb_ok_setUpControl [OF b1 that] .
  with b1 show ?thesis
    by (simp add: ngModel_setUpControl_def setUpStandalone_def formAddControl_def Let_def
        split: sum.splits)
qed

lemma vcb_ok_ngOnChanges:
  assumes inv: "ngm_inv [] b" and ok: "vcb_ok b"
  shows "vcb_ok (case ngOnChanges changes b of Inl (e, b1) \<Rightarrow> b1\<lparr>uncaught := uncaught b1 @ [e]\<rparr>
                  | Inr b1 \<Rightarrow> b1)"
proof (cases "checkForErrors (dir b)")
  case (Inl e)
  with ok show ?thesis by (simp add: ngOnChanges_def)
next
  case (Inr d1)
  let ?b1 = "b\<lparr>dir := d1\<rparr>"
  have d1: "d1 = (dir b)\<lparr>nm_name := nm_name d1\<rparr>" using checkForErrors_Inr [OF Inr] .
  have "nm_registered d1 = nm_registered (dir b)" "nm_rawValidators d1 = nm_rawValidators (dir b)"
    "nm_rawAsyncValidators d1 = nm_rawAsyncValidators (dir b)"
    by (subst d1; simp)+
  with inv ok have inv1: "ngm_inv [] ?b1" and ok1: "vcb_ok ?b1" by simp_all
  obtain b2 where b2: "(if \<not> nm_registered d1 then ngModel_setUpControl ?b1 else Inr ?b1) = Inr b2 \<or>
      (\<exists>e. (if \<not> nm_registered d1 then ngModel_setUpControl ?b1 else Inr ?b1) = Inl (e, b2))"
    and ok2: "vcb_ok b2"
    using ok1 vcb_ok_ngModel_setUpControl [OF inv1 _ ok1]
    by (cases "nm_registered d1"; cases "ngModel_setUpControl ?b1") auto
  let ?b3 = "case chg_isDisabled changes of Some c \<Rightarrow> updateDisabled c b2 | None \<Rightarrow> b2"
  have ok3: "vcb_ok ?b3"
    using ok2 by (simp add: updateDisabled_def Let_def split: option.splits)
  have "dir ?b3 = dir b2" by (simp add: updateDisabled_def Let_def split: option.splits)
  with ok3 have "vcb_ok (updateValue v ?b3\<lparr>dir := (dir (updateValue v ?b3))\<lparr>nm_viewModel := vm\<rparr>\<rparr>)"
    for v vm by (simp add: updateValue_def)
  then show ?thesis
    using b2 ok2 ok3 Inr by (auto simp: ngOnChanges_def Let_def)
qed

lemma vcb_ok_ng_step:
  assumes inv: "ngm_inv [] b" and ok: "vcb_ok b"
  shows "vcb_ok (ng_step b e)"
proof (cases e)
  case (ChangeDetection changes)
  have "ngm_inv [] (b\<lparr>dir := set_inputs changes (dir b)\<rparr>)" "vcb_ok (b\<lparr>dir := set_inputs changes (dir b)\<rparr>)"
    using inv ok by (simp_all add: set_inputs_def)
  with ChangeDetection show ?thesis by (simp add: vcb_ok_ngOnChanges)
next
  case SubmitForm
  with ok show ?thesis
    by (simp add: syncPendingControls_def form_syncPendingControls_def dir_syncPending_def
        viewToModelUpdate_def Let_def)
next
  case (ProgrammaticSetValue v opts)
  then show ?thesis by simp (rule vcb_ok_frame [OF ok]; simp)
qed (simp_all add: inv ok vcb_ok_deliver vcb_ok_flush ngOnDestroy_def formRemoveControl_def)

lemma vcb_ok_init:
  "ngModel_new parent vs avs vas (dva_new mode ua) names pol = Inr b \<Longrightarrow> vcb_ok b"
  by (auto simp: ngModel_new_def dva_new_def vcb_ok_def validator_notifies_def fun_eq_iff Let_def
      split: sum.splits)

lemma reachable_vcb_ok: "reachable b \<Longrightarrow> vcb_ok b"
  by (induction rule: reachable.induct) (simp_all add: vcb_ok_init vcb_ok_ng_step reachable_ngm_inv)

section \<open>Properties\<close>

text \<open>
  C24. In every reachable state the validator change callbacks are wired exactly for
  the directive's validators (sync and async) that implement
  \<open>registerOnValidatorChange\<close>, and only once the pipeline is wired; the change
  of such a validator recomputes the control's validity with an event, and any other
  validator's change does nothing.
\<close>

theorem reachable_validator_wiring:
  assumes "reachable b"
  shows "(validatorCb b i \<longleftrightarrow>
           dva_onChange (acc b) \<noteq> None \<and>
           ValidatorObject i True \<in> set (nm_rawValidators (dir b) @ nm_rawAsyncValidators (dir b))) \<and>
         ng_step b (ValidatorChange i) =
           (if dva_onChange (acc b) \<noteq> None \<and>
               ValidatorObject i True \<in> set (nm_rawValidators (dir b) @ nm_rawAsyncValidators (dir b))
            then b\<lparr>ctrl := fc_updateValueAndValidity True (ctrl b)\<rparr> else b)"
  using reachable_vcb_ok [OF assms] by (simp add: vcb_ok_def validator_notifies_def fun_eq_iff)


theorem reachable_validator_wiring_witness:
  "let b0 = projr (ngModel_new None (Some [ValidatorObject 7 True, ValidatorFunction 3])
                     (Some [ValidatorObject 8 False, ValidatorObject 9 True])
                     (JsArray [CVA DefaultValueAccessorC 0]) (dva_new (Some True) None) [] UpdChange);
       b = ng_step b0 (ChangeDetection (demo_options UpdChange))
   in \<not> validatorCb b0 7 \<and> validatorCb b 7 \<and> validatorCb b 9 \<and> \<not> validatorCb b 8 \<and> \<not> validatorCb b 3 \<and>
      ng_step b (ValidatorChange 8) = b"
proof -
  let ?new = "ngModel_new None (Some [ValidatorObject 7 True, ValidatorFunction 3])
                (Some [ValidatorObject 8 False, ValidatorObject 9 True])
                (JsArray [CVA DefaultValueAccessorC 0]) (dva_new (Some True) None) [] UpdChange"
  let ?fresh = "projr ?new"
  let ?wired = "ng_step ?fresh (ChangeDetection (demo_options UpdChange))"
  have new: "?new = Inr ?fresh"
    by (simp add: ngModel_new_def selectValueAccessor_def nm_path_def Let_def)
  have r0: "reachable ?fresh" using new by (rule reachable.init)
  have r: "reachable ?wired" using r0 by (rule reachable.step)
  have facts: "dva_onChange (acc ?fresh) = None" "dva_onChange (acc ?wired) = Some ViewToModelCb"
    "nm_rawValidators (dir ?fresh) = [ValidatorObject 7 True, ValidatorFunction 3]"
    "nm_rawAsyncValidators (dir ?fresh) = [ValidatorObject 8 False, ValidatorObject 9 True]"
    "nm_rawValidators (dir ?wired) = [ValidatorObject 7 True, ValidatorFunction 3]"
    "nm_rawAsyncValidators (dir ?wired) = [ValidatorObject 8 False, ValidatorObject 9 True]"
    by (simp_all add: ngModel_new_def selectValueAccessor_def nm_path_def demo_options_def
        set_inputs_def ngOnChanges_def checkForErrors_def checkName_def isStandalone_def
        ngModel_setUpControl_def setUpdateStrategy_def setUpStandalone_def setUpControl_Some
        isPropertyUpdated_def dva_new_def Let_def)
  have "\<not> validatorCb ?fresh 7"
    using conjunct1 [OF reachable_validator_wiring [OF r0, of 7]] by (simp only: facts) simp
  moreover have "validatorCb ?wired 7" "validatorCb ?wired 9" "\<not> validatorCb ?wired 8" "\<not> validatorCb ?wired 3"
    using conjunct1 [OF reachable_validator_wiring [OF r, of 7]]
      conjunct1 [OF reachable_validator_wiring [OF r, of 9]]
      conjunct1 [OF reachable_validator_wiring [OF r, of 8]]
      conjunct1 [OF reachable_validator_wiring [OF r, of 3]]
    by (simp_all only: facts) simp_all
  moreover have "ng_step ?wired (ValidatorChange 8) = ?wired"
    using conjunct2 [OF reachable_validator_wiring [OF r, of 8]] by (simp only: facts) simp
  ultimately show ?thesis unfolding Let_def by blast
qed

end
