(* ===== verification/Form_Page.thy ===== *)
theory Form_Page
  imports NgModel "HOL-Library.Sublist"
begin

text \<open>
  Several \<open>ngModel\<close> directives on one page, composed: each keeps its own state
  (a \<open>binding\<close> of \<open>NgModel\<close>, operated by \<open>ng_step\<close> as in
  \<open>src/ng-model/ng_model.ts\<close>), the \<open>NgForm\<close> they live under keeps one registry of
  control names, and the page has one microtask queue, in which the tasks of all
  directives run in the order they were scheduled (the directive's own queue holds its
  tasks, the page's queue says whose task runs next). Lemmas: the pipeline invariant
  of every directive, lifted to the page; what destroying one directive does to the
  registration of another.
\<close>

section \<open>The page\<close>

record page =
  pg_dirs :: "binding list"
  pg_names :: "name list"
  pg_order :: "nat list"

text \<open>Directive \<open>k\<close> as it sees the page: its own state and the form's registry.\<close>

definition dir_view :: "page \<Rightarrow> nat \<Rightarrow> binding" where
  "dir_view p k = (pg_dirs p ! k)\<lparr>formNames := pg_names p\<rparr>"

text \<open>
  Directive \<open>k\<close> after one of its operations: its state, the registry it leaves, and
  the tasks it scheduled, appended to the page's queue.
\<close>

definition put_dir :: "page \<Rightarrow> nat \<Rightarrow> binding \<Rightarrow> page" where
  "put_dir p k b =
     p\<lparr>pg_dirs := (pg_dirs p)[k := b], pg_names := formNames b,
       pg_order := pg_order p @ replicate (length (queue b) - length (queue (pg_dirs p ! k))) k\<rparr>"

text \<open>The next task of directive \<open>k\<close>, taken off its queue and run.\<close>

definition run_next :: "nat \<Rightarrow> page \<Rightarrow> page" where
  "run_next k p =
     (if k < length (pg_dirs p)
      then (case queue (dir_view p k) of
              [] \<Rightarrow> p
            | t # ts \<Rightarrow>
                (let b = run_task t ((dir_view p k)\<lparr>queue := ts\<rparr>)
                 in p\<lparr>pg_dirs := (pg_dirs p)[k := b], pg_names := formNames b\<rparr>))
      else p)"

text \<open>A microtask checkpoint of the page: the scheduled tasks, in scheduling order.\<close>

definition page_flush :: "page \<Rightarrow> page" where
  "page_flush p = fold run_next (pg_order p) (p\<lparr>pg_order := []\<rparr>)"

text \<open>
  Events of the page: an event of one directive (change detection, a DOM event on its
  element, a validator change, a programmatic \<open>setValue\<close>, its destruction), a
  checkpoint, and the submit of the form, which reaches every directive and syncs those
  the form holds (\<open>syncPendingControls(this.form, this._directives)\<close>).
\<close>

datatype page_event = On nat ng_event | PageCheckpoint | PageSubmit

fun page_step :: "page \<Rightarrow> page_event \<Rightarrow> page" where
  "page_step p (On k e) =
     (if k < length (pg_dirs p) \<and> e \<noteq> Microtasks \<and> e \<noteq> SubmitForm
      then put_dir p k (ng_step (dir_view p k) e) else p)"
| "page_step p PageCheckpoint = page_flush p"
| "page_step p PageSubmit = p\<lparr>pg_dirs := map (\<lambda>b. ng_step b SubmitForm) (pg_dirs p)\<rparr>"

inductive page_reachable :: "page \<Rightarrow> bool" where
  init: "\<forall>b\<in>set bs. \<exists>parent vs avs vas mode ua ns pol.
           ngModel_new parent vs avs vas (dva_new mode ua) ns pol = Inr b \<Longrightarrow>
         page_reachable \<lparr>pg_dirs = bs, pg_names = names, pg_order = []\<rparr>"
| step: "page_reachable p \<Longrightarrow> page_reachable (page_step p e)"

section \<open>The lifted invariant\<close>

text \<open>
  Every directive keeps the pipeline invariant \<open>ngm_inv\<close> of \<open>NgModel\<close>, and the
  page's queue \<open>rest\<close> names each directive exactly as often as it has tasks waiting.
\<close>

definition page_inv :: "nat list \<Rightarrow> page \<Rightarrow> bool" where
  "page_inv rest p \<longleftrightarrow>
     (\<forall>k < length (pg_dirs p). ngm_inv [] (pg_dirs p ! k) \<and>
        count_list rest k = length (queue (pg_dirs p ! k))) \<and>
     (\<forall>k \<in> set rest. k < length (pg_dirs p))"

section \<open>Lemmas\<close>

subsection \<open>Operations only append to a directive's queue\<close>

lemma queue_setUpControl:
  assumes "setUpControl c b = Inr b'"
  shows "queue b' = queue b"
proof -
  from assms obtain a c' where "nm_valueAccessor (dir b) = Some a" and "c = Some c'"
    by (cases c; cases "nm_valueAccessor (dir b)") (simp_all add: setUpControl_def)
  with assms show ?thesis by (auto simp: setUpControl_Some)
qed

lemma queue_deliver [simp]: "queue (deliver e b) = queue b"
proof -
  obtain a1 call where h: "dva_host e (acc b) = (a1, call)" by fastforce
  let ?b1 = "b\<lparr>acc := a1\<rparr>"
  have "queue (catch_into ?b1 (run_change_cb c v ?b1)) = queue b" for c v
    by (cases c rule: option.exhaust; simp add: catch_into_def)
      (rename_tac f, case_tac f; simp add: catch_into_def view_change_def updateControl_eq Let_def
        noControlError_def)
  moreover have "queue (catch_into ?b1 (run_touched_cb c ?b1)) = queue b" for c
    by (cases c rule: option.exhaust; simp add: catch_into_def)
      (rename_tac f, case_tac f; simp add: catch_into_def blur_touched_def updateControl_eq Let_def
        noControlError_def)
  ultimately show ?thesis
    using h by (simp add: deliver_def Let_def split: option.splits dva_call.splits)
qed


lemma queue_ngModel_setUpControl:
  "prefix (queue b) (queue (case ngModel_setUpControl b of Inl (e, b1) \<Rightarrow> b1 | Inr b1 \<Rightarrow> b1))"
proof -
  let ?b1 = "setUpdateStrategy b"
  have q1: "queue ?b1 = queue b" by (simp add: setUpdateStrategy_def split: option.splits)
  show ?thesis
  proof (cases "setUpControl (Some (ctrl ?b1)) ?b1")
    case (Inl e)
    with q1 show ?thesis
      by (simp add: ngModel_setUpControl_def setUpStandalone_def formAddControl_def Let_def)
  next
    case (Inr b2)
    with q1 queue_setUpControl [OF Inr] show ?thesis
      by (simp add: ngModel_setUpControl_def setUpStandalone_def formAddControl_def Let_def)
  qed
qed

lemma queue_ngOnChanges:
  "prefix (queue b) (queue (case ngOnChanges changes b of Inl (e, b1) \<Rightarrow> b1\<lparr>uncaught := uncaught b1 @ [e]\<rparr>
                              | Inr b1 \<Rightarrow> b1))"
proof (cases "checkForErrors (dir b)")
  case (Inr d1)
  let ?b1 = "b\<lparr>dir := d1\<rparr>"
  let ?r = "if \<not> nm_registered d1 then ngModel_setUpControl ?b1 else Inr ?b1"
  have q2: "prefix (queue b) (queue (case ?r of Inl (e, b1) \<Rightarrow> b1 | Inr b1 \<Rightarrow> b1))"
    using queue_ngModel_setUpControl [of ?b1] by (cases "nm_registered d1") simp_all
  show ?thesis
  proof (cases ?r)
    case (Inl eb)
    with q2 Inr show ?thesis by (cases eb) (simp add: ngOnChanges_def Let_def)
  next
    case (Inr b2)
    let ?b3 = "case chg_isDisabled changes of Some c \<Rightarrow> updateDisabled c b2 | None \<Rightarrow> b2"
    have q3: "prefix (queue b) (queue ?b3)"
      using q2 Inr by (cases "chg_isDisabled changes")
        (simp_all add: updateDisabled_def Let_def)
    have q4: "prefix (queue b) (queue (updateValue v ?b3))" for v
      using q3 by (simp add: updateValue_def)
    show ?thesis using Inr \<open>checkForErrors (dir b) = Inr d1\<close> q3 q4
      by (simp add: ngOnChanges_def Let_def)
  qed
qed (simp add: ngOnChanges_def)

lemma queue_ng_step: "e \<noteq> Microtasks \<Longrightarrow> prefix (queue b) (queue (ng_step b e))"
proof (cases e)
  case (ChangeDetection changes)
  then show ?thesis
    using queue_ngOnChanges [of "b\<lparr>dir := set_inputs changes (dir b)\<rparr>" changes] by simp
qed (simp_all add: syncPendingControls_def form_syncPendingControls_def dir_syncPending_def
      viewToModelUpdate_def Let_def ngOnDestroy_def formRemoveControl_def)

subsection \<open>The invariant, event by event\<close>

lemma ngm_inv_formNames [simp]: "ngm_inv ts (b\<lparr>formNames := ns\<rparr>) = ngm_inv ts b"
  by (simp add: ngm_inv_def)

lemma count_list_replicate_same [simp]: "count_list (replicate n x) x = n"
  by (induction n) simp_all

lemma page_inv_put_dir:
  assumes inv: "page_inv (pg_order p) p" and k: "k < length (pg_dirs p)"
    and b: "ngm_inv [] b" and q: "prefix (queue (pg_dirs p ! k)) (queue b)"
  shows "page_inv (pg_order (put_dir p k b)) (put_dir p k b)"
proof -
  from q have len: "length (queue (pg_dirs p ! k)) \<le> length (queue b)" by (rule prefix_length_le)
  show ?thesis
    using inv k b len by (auto simp: page_inv_def put_dir_def nth_list_update)
qed

lemma page_inv_run_next:
  assumes "page_inv (k # rest) p"
  shows "page_inv rest (run_next k p)"
proof -
  from assms have k: "k < length (pg_dirs p)" and inv: "ngm_inv [] (pg_dirs p ! k)"
    and cnt: "Suc (count_list rest k) = length (queue (pg_dirs p ! k))"
    by (auto simp: page_inv_def)
  then obtain t ts where q: "queue (pg_dirs p ! k) = t # ts" by (cases "queue (pg_dirs p ! k)") auto
  let ?b = "run_task t ((dir_view p k)\<lparr>queue := ts\<rparr>)"
  have "ngm_inv [t] ((dir_view p k)\<lparr>queue := ts\<rparr>)"
    using inv q by (simp add: dir_view_def ngm_inv_def)
  then have b: "ngm_inv [] ?b" by (rule ngm_inv_run_task)
  have qb: "queue ?b = ts" by simp
  show ?thesis
    using assms k b qb q cnt
    by (auto simp: page_inv_def run_next_def dir_view_def Let_def nth_list_update)
qed

lemma page_inv_fold: "page_inv rest p \<Longrightarrow> page_inv [] (fold run_next rest p)"
  by (induction rest arbitrary: p) (simp_all add: page_inv_run_next)

lemma pg_order_fold_run_next [simp]: "pg_order (fold run_next rest p) = pg_order p"
proof (induction rest arbitrary: p)
  case (Cons k rest)
  have "pg_order (run_next k p) = pg_order p"
    by (simp add: run_next_def Let_def split: list.split)
  with Cons.IH show ?case by simp
qed simp

lemma page_inv_flush:
  assumes "page_inv (pg_order p) p"
  shows "page_inv (pg_order (page_flush p)) (page_flush p)"
proof -
  have "page_inv (pg_order p) (p\<lparr>pg_order := []\<rparr>)" using assms by (simp add: page_inv_def)
  then have "page_inv [] (page_flush p)" unfolding page_flush_def by (rule page_inv_fold)
  then show ?thesis by (simp add: page_flush_def)
qed

lemma queue_submit [simp]: "queue (hd (syncPendingControls [b])) = queue b"
  by (simp add: syncPendingControls_def form_syncPendingControls_def dir_syncPending_def
      viewToModelUpdate_def Let_def)

lemma page_inv_step: "page_inv (pg_order p) p \<Longrightarrow> page_inv (pg_order (page_step p e)) (page_step p e)"
proof (cases e)
  case (On k e')
  assume inv: "page_inv (pg_order p) p"
  show ?thesis
  proof (cases "k < length (pg_dirs p) \<and> e' \<noteq> Microtasks \<and> e' \<noteq> SubmitForm")
    case True
    have "ngm_inv [] (dir_view p k)" using inv True by (simp add: page_inv_def dir_view_def)
    then have "ngm_inv [] (ng_step (dir_view p k) e')" by (rule ngm_inv_ng_step)
    moreover have "prefix (queue (pg_dirs p ! k)) (queue (ng_step (dir_view p k) e'))"
      using queue_ng_step [of e' "dir_view p k"] True by (simp add: dir_view_def)
    ultimately show ?thesis using inv True On by (simp add: page_inv_put_dir)
  qed (use inv On in auto)
next
  case PageSubmit
  assume "page_inv (pg_order p) p"
  moreover have "ngm_inv [] (ng_step b SubmitForm)" if "ngm_inv [] b" for b
    using that by (rule ngm_inv_ng_step)
  moreover have "queue (ng_step b SubmitForm) = queue b" for b by simp
  ultimately show ?thesis using PageSubmit by (auto simp del: ng_step.simps simp: page_inv_def)
qed (simp add: page_inv_flush)

lemma page_inv_init:
  assumes "\<forall>b\<in>set bs. \<exists>parent vs avs vas mode ua ns pol.
             ngModel_new parent vs avs vas (dva_new mode ua) ns pol = Inr b"
  shows "page_inv [] \<lparr>pg_dirs = bs, pg_names = names, pg_order = []\<rparr>"
proof -
  have "ngm_inv [] b \<and> queue b = []" if "b \<in> set bs" for b
    using assms that ngm_inv_init by (fastforce simp: ngModel_new_def Let_def split: sum.splits)
  then show ?thesis by (auto simp: page_inv_def)
qed

lemma page_reachable_inv: "page_reachable p \<Longrightarrow> page_inv (pg_order p) p"
  by (induction rule: page_reachable.induct) (simp_all add: page_inv_init page_inv_step)
text \<open>
  The pipeline invariant holds for every directive of a page, however the events
  of the directives, the page's checkpoints and the form's submits interleave: no
  directive has anything pending under \<open>'change'\<close>, a pending view value is dirty
  and belongs to a registered directive, each control has at most one model
  listener, and every task a directive has waiting is scheduled in the page's queue.
\<close>

lemma page_reachable_directives:
  assumes "page_reachable p" and "k < length (pg_dirs p)"
  shows "let b = pg_dirs p ! k in
     (fc_updateOn (ctrl b) = UpdChange \<longrightarrow> \<not> fc_pendingChange (ctrl b)) \<and>
     (fc_pendingChange (ctrl b) \<longrightarrow> fc_pendingDirty (ctrl b) \<and> nm_registered (dir b)) \<and>
     length (fc_onChange (ctrl b)) \<le> 1 \<and>
     count_list (pg_order p) k = length (queue b)"
  using page_reachable_inv [OF assms(1)] assms(2)
  by (auto simp: page_inv_def ngm_inv_def Let_def)

subsection \<open>Properties\<close>

text \<open>
  C25. Destroying an \<open>ngModel\<close> whose parent is an \<open>NgForm\<close> removes, at the next
  checkpoint, the form's registration of its name, whether or not the directive ever
  registered: destroying a standalone \<open>ngModel\<close> named like a sibling that is in
  the form removes the sibling's registration, while the sibling is left untouched
  and still takes itself to be in the form.
\<close>

theorem page_destroy_unregisters_sibling:
  assumes "j < length (pg_dirs p)" and "k < length (pg_dirs p)" and "j \<noteq> k"
    and "nm_name (dir (pg_dirs p ! k)) = nm_name (dir (pg_dirs p ! j))"
    and "parent_is (dir (pg_dirs p ! k)) NgFormP"
    and "pg_order p = []" and "queue (pg_dirs p ! k) = []"
  shows "let p' = page_step (page_step p (On k Destroy)) PageCheckpoint in
     pg_names p' = filter (\<lambda>n. n \<noteq> nm_name (dir (pg_dirs p ! j))) (pg_names p) \<and>
     pg_dirs p' ! j = pg_dirs p ! j \<and> \<not> inForm (pg_dirs p' ! k)"
  using assms
  by (simp add: put_dir_def dir_view_def page_flush_def run_next_def ngOnDestroy_def
      formRemoveControl_def form_removeControl_now_def Let_def nth_list_update)

theorem page_destroy_unregisters_sibling_witness:
  "let bj = (demo_binding UpdChange)\<lparr>dir := (dir (demo_binding UpdChange))\<lparr>
              nm_parent := Some \<lparr>ct_kind = NgFormP, ct_path = []\<rparr>, nm_name := Some ''x''\<rparr>,
              inForm := True\<rparr>;
       bk = (demo_binding UpdChange)\<lparr>dir := (dir (demo_binding UpdChange))\<lparr>
              nm_parent := Some \<lparr>ct_kind = NgFormP, ct_path = []\<rparr>, nm_name := Some ''x'',
              nm_options := Some \<lparr>opt_name = None, opt_standalone = True, opt_updateOn = None\<rparr>\<rparr>\<rparr>;
       p' = page_step (page_step \<lparr>pg_dirs = [bj, bk], pg_names = [Some ''x''], pg_order = []\<rparr>
              (On 1 Destroy)) PageCheckpoint
   in pg_names p' = [] \<and> inForm (pg_dirs p' ! 0) \<and> isStandalone (dir bk)"
proof -
  let ?bj = "(demo_binding UpdChange)\<lparr>dir := (dir (demo_binding UpdChange))\<lparr>
              nm_parent := Some \<lparr>ct_kind = NgFormP, ct_path = []\<rparr>, nm_name := Some ''x''\<rparr>,
              inForm := True\<rparr>"
  let ?bk = "(demo_binding UpdChange)\<lparr>dir := (dir (demo_binding UpdChange))\<lparr>
              nm_parent := Some \<lparr>ct_kind = NgFormP, ct_path = []\<rparr>, nm_name := Some ''x'',
              nm_options := Some \<lparr>opt_name = None, opt_standalone = True, opt_updateOn = None\<rparr>\<rparr>\<rparr>"
  let ?p = "\<lparr>pg_dirs = [?bj, ?bk], pg_names = [Some ''x''], pg_order = []\<rparr>"
  show ?thesis
    using page_destroy_unregisters_sibling [of 0 ?p 1]
    by (simp add: Let_def parent_is_def isStandalone_def demo_binding_def)
qed



end
