(* ===== verification/Spec2Isabelle.thy ===== *)
theory Spec2Isabelle
  imports Event_Loop Directive_Matching Validator_Wiring Form_Page
begin

text \<open>
  \<^bold>\<open>A verification library for the template-driven \<open>ngModel\<close> core of Angular forms.\<close>

  \<^medskip>\<^bold>\<open>The program.\<close> Three files under \<open>src/ng-model/\<close>:
  \<open>default_value_accessor.ts\<close> (the text-input accessor and its IME buffering),
  \<open>shared.ts\<close> (accessor selection, error messages, \<open>setUpControl\<close> and the
  closures it installs, \<open>cleanUpControl\<close>, \<open>syncPendingControls\<close>, validator
  composition, small helpers) and \<open>ng_model.ts\<close> (the \<open>NgModel\<close> directive). The
  parts interact in one direction each way: DOM events reach the accessor's host
  listeners, which call the callbacks \<open>setUpControl\<close> registered (view to model:
  pending value, commit by \<open>updateControl\<close>, \<open>viewToModelUpdate\<close> emitting
  \<open>ngModelChange\<close>); the directive's input changes queue \<open>setValue\<close> on the
  control, whose listener writes into the accessor (model to view) without emitting.
  The control itself (\<open>FormControl\<close>), the form (\<open>NgForm\<close>), input binding and
  the microtask queue are collaborators outside \<open>src/\<close>; they are modelled from the
  contract the spec gives them.

  \<^medskip>\<^bold>\<open>Theories.\<close>
  \<^item> \<open>Prelude\<close>: JavaScript values (\<open>jsval\<close>), truthiness, \<open>===\<close> and
    \<open>looseIdentical\<close> (proved to be HOL equality, \<open>NaN\<close> included), names and
    \<open>join\<close>, the error datatype \<open>ng_error\<close> and \<open>'a throws = ng_error + 'a\<close> for
    every \<open>throw\<close>, the policy \<open>update_on\<close>.
  \<^item> \<open>Default_Value_Accessor\<close> (\<open>default_value_accessor.ts\<close>): \<open>_isAndroid\<close>
    (\<open>toLowerCase\<close> and the regular expression \<open>/android (\d+)/\<close> as a scan),
    the accessor record \<open>dva\<close> with its constructor, \<open>writeValue\<close>,
    \<open>setDisabledState\<close>, the two \<open>register*\<close> methods, \<open>_handleInput\<close>,
    \<open>_compositionStart\<close>, \<open>_compositionEnd\<close>; \<open>dva_host\<close> is the
    \<open>host\<close> listener table and \<open>dva_run\<close> runs it over a list of DOM events.
    Claims C7, C20, C23.
  \<^item> \<open>Accessor_Selector\<close> (\<open>shared.ts\<close>: \<open>controlPath\<close>, \<open>_throwError\<close>,
    \<open>BUILTIN_ACCESSORS\<close>, \<open>isBuiltInAccessor\<close>, \<open>selectValueAccessor\<close>): the
    \<open>forEach\<close> over the candidates with its three slots is the structural recursion
    \<open>select_loop\<close>, proved equal to the reference classification \<open>select_spec\<close>
    (custom, else built-in, else the last default). Claims C8, C21, C22, C31.
  \<^item> \<open>Form_Control\<close> (collaborator, from the spec): the \<open>FormControl\<close> record
    (value, pending state, flags, policy, validators, listener lists, emissions) and
    the methods the sources call.
  \<^item> \<open>Shared_Helpers\<close> (\<open>shared.ts\<close>): \<open>composeValidators\<close>,
    \<open>setUpFormContainer\<close>, \<open>isPropertyUpdated\<close>, \<open>removeDir\<close> (with
    \<open>indexOf\<close>), \<open>_ngModelWarning\<close>. Claims C28, C29, C30.
  \<^item> \<open>Change_Pipeline\<close> (\<open>shared.ts\<close>): the world state \<open>binding\<close> (control,
    directive, accessor, view writes, emissions, validator callbacks, microtask queue,
    uncaught errors, the form's registry); the closures of \<open>setUpControl\<close> are
    constructors of \<open>change_cb\<close>, \<open>touched_cb\<close>, \<open>model_cb\<close>,
    \<open>disabled_cb\<close>, run by \<open>run_*_cb\<close>; \<open>updateControl\<close>,
    \<open>setUpControl\<close>, \<open>cleanUpControl\<close>, \<open>syncPendingControls\<close>, and
    \<open>deliver\<close>, a DOM event through the accessor into the pipeline, with an escaping
    exception recorded in \<open>uncaught\<close>. Claims C4, C5, C6, C9, C10, C14, C16, C17.
  \<^item> \<open>NgModel\<close> (\<open>ng_model.ts\<close>): \<open>_isStandalone\<close>, \<open>_checkParentType\<close>,
    \<open>_checkName\<close>, \<open>_checkForErrors\<close>, \<open>_setUpdateStrategy\<close>,
    \<open>_setUpStandalone\<close>, \<open>_setUpControl\<close>, \<open>_updateValue\<close>,
    \<open>_updateDisabled\<close>, \<open>ngOnChanges\<close>, \<open>ngOnDestroy\<close>, the constructor
    \<open>ngModel_new\<close>; each \<open>resolvedPromise.then\<close> callback is a \<open>task\<close> appended to
    the queue and run by \<open>run_task\<close>; \<open>ng_step\<close> applies one event of the page and
    \<open>reachable\<close> collects the states of all runs from a fresh directive. Lemmas: the
    invariant \<open>ngm_inv\<close> holds in every reachable state (rule induction, one lemma
    per operation). The form's submit syncs the directive only when it was added to
    the form. Claims C2, C3, C11, C12, C13, C18, C19, C32, C33.
  \<^item> \<open>Event_Loop\<close>: the microtask loop as the browser runs it, \<open>drain\<close>, a
    \<open>partial_function (option)\<close> that pops one task at a time (a task could
    schedule more, so the loop need not end in general), proved to return and to equal
    \<open>flush\<close>; the liveness of the deferred model write (C34).
  \<^item> \<open>Directive_Matching\<close> (\<open>@Directive\<close> selectors and providers of
    \<open>default_value_accessor.ts\<close> and \<open>ng_model.ts\<close>): selectors as data over
    a tag and its attributes, CSS matching, the \<open>NG_VALUE_ACCESSOR\<close> list of an
    element and the \<open>NgModel\<close> constructed on it; the injection tokens
    (\<open>COMPOSITION_BUFFER_MODE\<close> among them), the providers
    \<open>DEFAULT_VALUE_ACCESSOR\<close> and \<open>formControlBinding\<close>, \<open>resolve\<close> (an
    injector with \<open>multi\<close> providers and the mixing error) and
    \<open>ngModel_injected\<close>, the constructors run with their injected parameters,
    proved (lemmas) to refine the explicit construction \<open>ngModel_on\<close>. The spec
    treats this plumbing as out of scope; it carries no claim.
  \<^item> \<open>Form_Page\<close> (several \<open>ngModel\<close> directives under one \<open>NgForm\<close>): a
    \<open>page\<close> holds the directives' bindings, the form's registry of names and the
    page's microtask queue, which records whose task runs next, so that the tasks of
    all directives run in the order they were scheduled; \<open>page_step\<close> runs one
    directive's event through \<open>ng_step\<close> (\<open>dir_view\<close>/\<open>put_dir\<close> read and write
    the shared registry), a checkpoint (\<open>page_flush\<close>), or the form's submit. The
    pipeline invariant \<open>ngm_inv\<close> is lifted to every directive of every reachable
    page (a lemma); destroying one directive unregisters a sibling of the same name
    (C25); the form's submit syncs exactly the directives the form holds (C26).
  \<^item> \<open>Validator_Wiring\<close> (the two \<open>registerOnValidatorChange\<close> loops of
    \<open>setUpControl\<close> over whole runs): the invariant \<open>vcb_ok\<close>, that the
    validator change callbacks are installed exactly for the directive's validators
    with that method and exactly once the view callback is, is kept by every
    operation given the pipeline invariant \<open>ngm_inv\<close> (a strengthening invariant:
    \<open>setUpControl\<close> only runs while no view callback is installed), so it holds
    in every reachable state (C24).
  \<^item> This theory: the policy automaton \<open>policy_step\<close> over \<open>policy_state\<close>
    (committed value, pending edit, emissions), the abstraction \<open>abs_state\<close> of a
    binding, and the refinement (C1) for directives the form's submit reaches; two-way
    binding over any typed sequence with no echo (C15), an IME composition through
    accessor, pipeline and control (C35), and the behaviour of a pending edit under a
    model change (C27).

  \<^medskip>\<^bold>\<open>What the lemmas show.\<close> The accessor forwards one value per IME
  composition and everything without buffering; selection picks custom, then
  built-in, then the last default accessor and fails on duplicates; \<open>setUpControl\<close>
  fails before wiring anything or wires exactly the documented callbacks; each
  policy commits exactly when it should, once, without writing back into the view;
  model writes reach the view without emitting; teardown detaches; every reachable
  state has nothing pending under \<open>'change'\<close> and at most one model listener, and
  exactly the directive's registering validators trigger revalidation; the
  deferred writes run in FIFO order with the last one winning and always reach the
  control; the form's submit syncs exactly its own directives; the whole pipeline
  refines the three-policy automaton.

  \<^medskip>\<^bold>\<open>Bounds and termination.\<close> There is no fuel: every loop of the sources is
  a \<open>forEach\<close> over a finite list (structural recursion or \<open>fold\<close>). The
  checkpoint \<open>flush\<close> runs the tasks present at the checkpoint by structural
  recursion; the browser's own loop, \<open>drain\<close>, is a partial function, and a lemma
  of \<open>Event_Loop\<close> proves that it returns on every state because no task queues
  another. Runs are finite lists of events;
  \<open>reachable\<close> lets change detection, events and checkpoints interleave in any
  order, which includes the orders Angular produces; \<open>page_reachable\<close> does the same
  across the directives of a page.

  \<^medskip>\<^bold>\<open>Not modelled.\<close> Of dependency injection, the ancestors' element
  injectors, the \<open>@Host()\<close> lookup of the parent container and the
  \<open>NG_VALIDATORS\<close>/\<open>NG_ASYNC_VALIDATORS\<close> lookups, whose results stay
  constructor arguments; the \<open>EventEmitter\<close> only routes values and is the
  \<open>emitted\<close> list; selector matching beyond tags and attributes as written
  (no case folding, no other CSS); the renderer beyond the list of
  \<open>setProperty\<close> calls; the validity status and error maps of \<open>FormControl\<close>
  (a count of recomputations stands for them); \<open>NgForm\<close> beyond its registry of
  names and the directives it holds, in particular a name already registered, where
  the directive would adopt the existing control, which two directives would then
  share (the model gives each directive its own control); Unicode case mapping (ASCII only in
  \<open>toLowerCase\<close>); fractional numbers (\<open>jsval\<close> numbers are integers and
  \<open>NaN\<close>); the long messages of \<open>TemplateDrivenErrors\<close>.
\<close>

section \<open>The update-timing policy as an automaton\<close>

text \<open>
  What the three policies promise, independently of callbacks and listeners: a user
  edit (\<open>Type\<close>), leaving the field (\<open>Leave\<close>) and submitting the form
  (\<open>Submit\<close>) act on the committed value, the pending edit and the list of
  \<open>ngModelChange\<close> emissions.
\<close>

datatype user_event = Type jsval | Leave | Submit

record policy_state =
  a_value :: jsval
  a_pending :: "jsval option"
  a_emitted :: "jsval list"

definition commit :: "policy_state \<Rightarrow> policy_state" where
  "commit s =
     (case a_pending s of
        None \<Rightarrow> s
      | Some v \<Rightarrow> s\<lparr>a_value := v, a_pending := None, a_emitted := a_emitted s @ [v]\<rparr>)"

fun policy_step :: "update_on \<Rightarrow> policy_state \<Rightarrow> user_event \<Rightarrow> policy_state" where
  "policy_step pol s (Type v) = (let s1 = s\<lparr>a_pending := Some v\<rparr> in if pol = UpdChange then commit s1 else s1)"
| "policy_step pol s Leave = (if pol = UpdBlur then commit s else s)"
| "policy_step pol s Submit = (if pol = UpdSubmit then commit s else s)"

definition policy_run :: "update_on \<Rightarrow> policy_state \<Rightarrow> user_event list \<Rightarrow> policy_state" where
  "policy_run pol s es = fold (\<lambda>e s. policy_step pol s e) es s"

text \<open>The user events as events of the page: text input, blur, the form's submit.\<close>

fun event_of :: "user_event \<Rightarrow> ng_event" where
  "event_of (Type v) = DomEvent (InputEv v)"
| "event_of Leave = DomEvent BlurEv"
| "event_of Submit = SubmitForm"

definition abs_state :: "binding \<Rightarrow> policy_state" where
  "abs_state b =
     \<lparr>a_value = fc_value (ctrl b),
      a_pending = (if fc_pendingChange (ctrl b) then Some (fc_pendingValue (ctrl b)) else None),
      a_emitted = emitted b\<rparr>"

text \<open>The accessor is wired to the pipeline and not inside a buffered composition.\<close>

definition wired :: "binding \<Rightarrow> bool" where
  "wired b \<longleftrightarrow>
     dva_onChange (acc b) = Some ViewToModelCb \<and> dva_onTouched (acc b) = Some BlurToTouchedCb \<and>
     \<not> (dva_compositionMode (acc b) \<and> dva_composing (acc b))"

section \<open>Lemmas\<close>

lemma policy_simulation_type:
  assumes "wired b"
  shows "abs_state (ng_step b (event_of (Type v))) = policy_step (fc_updateOn (ctrl b)) (abs_state b) (Type v) \<and>
         wired (ng_step b (event_of (Type v))) \<and>
         fc_updateOn (ctrl (ng_step b (event_of (Type v)))) = fc_updateOn (ctrl b) \<and>
         inForm (ng_step b (event_of (Type v))) = inForm b"
  using assms
  by (cases "fc_updateOn (ctrl b)")
    (simp_all add: wired_def deliver_input view_change_def updateControl_eq abs_state_def commit_def
      Let_def fc_ops_defs)

lemma policy_simulation_submit:
  assumes "wired b" and "fc_updateOn (ctrl b) = UpdSubmit \<longrightarrow> inForm b"
  shows "abs_state (ng_step b (event_of Submit)) = policy_step (fc_updateOn (ctrl b)) (abs_state b) Submit \<and>
         wired (ng_step b (event_of Submit)) \<and>
         fc_updateOn (ctrl (ng_step b (event_of Submit))) = fc_updateOn (ctrl b) \<and>
         inForm (ng_step b (event_of Submit)) = inForm b"
  using assms
  by (cases "fc_updateOn (ctrl b)")
    (simp_all add: wired_def syncPendingControls_def form_syncPendingControls_def dir_syncPending_def
      fc_syncPendingControls_def viewToModelUpdate_def abs_state_def commit_def Let_def fc_ops_defs)

lemma ng_run_append: "ng_run b (es @ fs) = ng_run (ng_run b es) fs"
  by (induction es arbitrary: b) simp_all

text \<open>Typing a non-empty sequence of values under \<open>'change'\<close> into a wired text input.\<close>

lemma typing_change_run:
  assumes "wired b" and "fc_updateOn (ctrl b) = UpdChange" and "vs \<noteq> []"
  shows "let b1 = ng_run b (map (\<lambda>v. DomEvent (InputEv v)) vs) in
     fc_value (ctrl b1) = last vs \<and> emitted b1 = emitted b @ vs \<and>
     fc_valueChanges (ctrl b1) = fc_valueChanges (ctrl b) @ vs \<and>
     dir b1 = (dir b)\<lparr>nm_viewModel := last vs\<rparr> \<and> viewOps b1 = viewOps b \<and> queue b1 = queue b \<and>
     \<not> fc_pendingChange (ctrl b1)"
  using assms
proof (induction vs arbitrary: b)
  case (Cons v vs)
  let ?b' = "ng_step b (DomEvent (InputEv v))"
  have one: "fc_value (ctrl ?b') = v" "emitted ?b' = emitted b @ [v]"
    "fc_valueChanges (ctrl ?b') = fc_valueChanges (ctrl b) @ [v]"
    "dir ?b' = (dir b)\<lparr>nm_viewModel := v\<rparr>" "viewOps ?b' = viewOps b" "queue ?b' = queue b"
    "\<not> fc_pendingChange (ctrl ?b')" "wired ?b'" "fc_updateOn (ctrl ?b') = UpdChange"
    using Cons.prems(1,2)
    by (simp_all add: wired_def deliver_input view_change_def updateControl_eq Let_def fc_ops_defs)
  show ?case
  proof (cases "vs = []")
    case True
    with one show ?thesis by simp
  next
    case False
    with Cons.IH [OF one(8,9) False] one show ?thesis by (simp add: Let_def)
  qed
qed simp

text \<open>Assigning the inputs and the checks of \<open>ngOnChanges\<close> do not read the view model.\<close>

lemma set_inputs_viewModel:
  "set_inputs ch (d\<lparr>nm_viewModel := v\<rparr>) = (set_inputs ch d)\<lparr>nm_viewModel := v\<rparr>"
  by (cases d) (simp add: set_inputs_def split: option.splits)

lemma checkForErrors_viewModel:
  "checkForErrors (d\<lparr>nm_viewModel := v\<rparr>) = map_sum id (\<lambda>d. d\<lparr>nm_viewModel := v\<rparr>) (checkForErrors d)"
  by (simp add: checkForErrors_def checkParentType_def checkName_def parent_is_def isStandalone_def Let_def
      split: option.splits)

subsection \<open>Properties\<close>

text \<open>
  C1. Refinement of the update-timing policies: from any reachable state whose text
  accessor is wired and not composing, and which belongs to the form if its policy is
  \<open>'submit'\<close>, any sequence of user edits, blurs and submits of the form changes the
  committed value, the pending edit and the \<open>ngModelChange\<close> emissions exactly as the
  policy automaton \<open>policy_step\<close> of the control's policy says. (A standalone
  \<open>ngModel\<close> is not synced by the form's submit, so under \<open>'submit'\<close> it never
  commits: the automaton does not describe it.)
\<close>

theorem policy_refinement:
  assumes "reachable b" and "wired b" and "fc_updateOn (ctrl b) = UpdSubmit \<longrightarrow> inForm b"
  shows "abs_state (ng_run b (map event_of es)) = policy_run (fc_updateOn (ctrl b)) (abs_state b) es"
proof -
  from assms(1) have "ngm_inv [] b" by (rule reachable_ngm_inv)
  then show ?thesis using assms(2,3)
  proof (induction es arbitrary: b)
    case (Cons e es)
    have step: "abs_state (ng_step b (event_of e)) = policy_step (fc_updateOn (ctrl b)) (abs_state b) e \<and>
        wired (ng_step b (event_of e)) \<and> fc_updateOn (ctrl (ng_step b (event_of e))) = fc_updateOn (ctrl b) \<and>
        inForm (ng_step b (event_of e)) = inForm b"
    proof (cases e)
      case Leave
      have "fc_updateOn (ctrl b) = UpdChange \<Longrightarrow> \<not> fc_pendingChange (ctrl b)"
        using Cons.prems(1) by (simp add: ngm_inv_def)
      with Cons.prems(2) Leave show ?thesis
        by (cases "fc_updateOn (ctrl b)")
          (simp_all add: wired_def deliver_blur blur_touched_def updateControl_eq abs_state_def commit_def
            Let_def fc_ops_defs)
    qed (use Cons.prems(2,3) policy_simulation_type policy_simulation_submit in simp_all)
    moreover have "ngm_inv [] (ng_step b (event_of e))" using Cons.prems(1) by (rule ngm_inv_ng_step)
    ultimately show ?case using Cons.IH [of "ng_step b (event_of e)"] Cons.prems(3)
      by (simp add: policy_run_def)
  qed (simp add: policy_run_def)
qed

theorem policy_refinement_witness:
  "a_emitted (abs_state (ng_run (demo_binding UpdBlur)
      (map event_of [Type (JStr ''x''), Type (JStr ''xy''), Leave, Submit, Leave]))) = [JStr ''xy'']"
  using policy_refinement [OF demo_binding_reachable, of UpdBlur
      "[Type (JStr ''x''), Type (JStr ''xy''), Leave, Submit, Leave]"]
  by (simp add: wired_def abs_state_def policy_run_def commit_def)

text \<open>
  C15. Two-way binding under \<open>'change'\<close>: typing any non-empty sequence of values
  into a wired text input commits each of them in order (the control's
  \<open>valueChanges\<close> and the \<open>ngModelChange\<close> emissions are exactly the typed
  values), leaves the control and the view model at the last one, and writes nothing
  into the view; when the parent binds that last value back, the change detection pass
  and the next checkpoint change neither the control nor the view nor the emissions:
  no value bounces back into the view or out again.
\<close>

theorem two_way_binding:
  assumes "wired b" and "fc_updateOn (ctrl b) = UpdChange" and "vs \<noteq> []" and "queue b = []"
    and "nm_registered (dir b)" and "checkForErrors (set_inputs changes (dir b)) = Inr d"
    and "chg_model changes = Some c" and "sc_currentValue c = last vs" and "\<not> sc_firstChange c"
    and "chg_isDisabled changes = None"
  shows "let b1 = ng_run b (map (\<lambda>v. DomEvent (InputEv v)) vs);
             b2 = ng_run b1 [ChangeDetection changes, Microtasks] in
     fc_value (ctrl b1) = last vs \<and> emitted b1 = emitted b @ vs \<and>
     fc_valueChanges (ctrl b1) = fc_valueChanges (ctrl b) @ vs \<and>
     nm_viewModel (dir b1) = last vs \<and> viewOps b1 = viewOps b \<and>
     ctrl b2 = ctrl b1 \<and> emitted b2 = emitted b1 \<and> viewOps b2 = viewOps b1 \<and> queue b2 = []"
proof -
  let ?b1 = "ng_run b (map (\<lambda>v. DomEvent (InputEv v)) vs)"
  have t: "fc_value (ctrl ?b1) = last vs" "emitted ?b1 = emitted b @ vs"
    "fc_valueChanges (ctrl ?b1) = fc_valueChanges (ctrl b) @ vs"
    "dir ?b1 = (dir b)\<lparr>nm_viewModel := last vs\<rparr>" "viewOps ?b1 = viewOps b" "queue ?b1 = []"
    using typing_change_run [OF assms(1-3)] assms(4) by (simp_all add: Let_def)
  have si: "set_inputs changes (dir ?b1) = (set_inputs changes (dir b))\<lparr>nm_viewModel := last vs\<rparr>"
    by (simp add: t(4) set_inputs_viewModel)
  have chk: "checkForErrors (set_inputs changes (dir ?b1)) = Inr (d\<lparr>nm_viewModel := last vs\<rparr>)"
    by (simp add: si checkForErrors_viewModel assms(6))
  have reg: "nm_registered d"
    using checkForErrors_set_inputs [OF assms(6)] assms(5) by simp
  have "ng_step ?b1 (ChangeDetection changes) = ?b1\<lparr>dir := d\<lparr>nm_viewModel := last vs\<rparr>\<rparr>"
    using chk reg assms(7-10)
    by (simp add: ngOnChanges_def isPropertyUpdated_def looseIdentical_iff)
  moreover have "flush (?b1\<lparr>dir := d'\<rparr>) = ?b1\<lparr>dir := d'\<rparr>" for d'
    using t(6) by (simp add: flush_def)
  ultimately show ?thesis using t by (simp add: Let_def)
qed

theorem two_way_binding_witness:
  "let changes = \<lparr>chg_model = Some \<lparr>sc_previousValue = JUndef, sc_currentValue = JStr ''ab'',
                                     sc_firstChange = False\<rparr>,
                  chg_isDisabled = None, chg_name = None, chg_options = None\<rparr>;
       b1 = ng_run (demo_binding UpdChange) (map (\<lambda>v. DomEvent (InputEv v)) [JStr ''a'', JStr ''ab'']);
       b2 = ng_run b1 [ChangeDetection changes, Microtasks] in
   emitted b1 = [JStr ''a'', JStr ''ab''] \<and> fc_value (ctrl b2) = JStr ''ab'' \<and> emitted b2 = emitted b1 \<and>
   viewOps b2 = viewOps (demo_binding UpdChange)"
proof -
  let ?c = "\<lparr>sc_previousValue = JUndef, sc_currentValue = JStr ''ab'', sc_firstChange = False\<rparr>"
  let ?ch = "\<lparr>chg_model = Some ?c, chg_isDisabled = None, chg_name = None, chg_options = None\<rparr>"
  have h: "wired (demo_binding UpdChange)" "fc_updateOn (ctrl (demo_binding UpdChange)) = UpdChange"
    "queue (demo_binding UpdChange) = []" "nm_registered (dir (demo_binding UpdChange))"
    "emitted (demo_binding UpdChange) = []"
    by (simp_all add: wired_def demo_binding_def fc_updateOn_def)
  have chk: "checkForErrors (set_inputs ?ch (dir (demo_binding UpdChange))) =
      Inr (set_inputs ?ch (dir (demo_binding UpdChange)))"
    by (simp add: checkForErrors_def checkName_def isStandalone_def set_inputs_def demo_binding_def)
  show ?thesis
    using two_way_binding [OF h(1,2) _ h(3,4) chk, of "[JStr ''a'', JStr ''ab'']" ?c] h(5)
    by (simp add: Let_def)
qed

text \<open>
  C27. Under \<open>'submit'\<close>, for a directive the form holds, a model value \<open>v\<close> bound
  by the parent while a user edit is pending overwrites the pending value: the next
  submit of the form commits \<open>v\<close> and emits \<open>ngModelChange(v)\<close>, and the user's
  edit is lost.
\<close>

theorem submit_pending_overwritten:
  assumes "fc_updateOn (ctrl b) = UpdSubmit" and "fc_pendingChange (ctrl b)"
    and "fc_onChange (ctrl b) = [ModelToViewCb]" and "nm_valueAccessor (dir b) = Some a"
    and "queue b = []" and "inForm b"
  shows "let b' = ng_step (ng_step (updateValue v b) Microtasks) SubmitForm in
     fc_value (ctrl b') = v \<and> emitted b' = emitted b @ [v] \<and> \<not> fc_pendingChange (ctrl b') \<and>
     viewOps b' = viewOps b @ [accessor_write a v]"
  using assms
  by (simp add: updateValue_def flush_def control_setValue_to_view no_opts_def
      syncPendingControls_def form_syncPendingControls_def dir_syncPending_def
      fc_syncPendingControls_def viewToModelUpdate_def Let_def fc_ops_defs)

theorem submit_pending_overwritten_witness:
  "let bf = (demo_binding UpdSubmit)\<lparr>dir := (dir (demo_binding UpdSubmit))\<lparr>
              nm_parent := Some \<lparr>ct_kind = NgFormP, ct_path = []\<rparr>, nm_name := Some ''n''\<rparr>,
              formNames := [Some ''n''], inForm := True\<rparr>;
       b = deliver (InputEv (JStr ''y'')) bf;
       b' = ng_step (ng_step (updateValue (JStr ''p'') b) Microtasks) SubmitForm in
   fc_value (ctrl b') = JStr ''p'' \<and> emitted b' = [JStr ''p'']"
proof -
  let ?bf = "(demo_binding UpdSubmit)\<lparr>dir := (dir (demo_binding UpdSubmit))\<lparr>
              nm_parent := Some \<lparr>ct_kind = NgFormP, ct_path = []\<rparr>, nm_name := Some ''n''\<rparr>,
              formNames := [Some ''n''], inForm := True\<rparr>"
  let ?b = "deliver (InputEv (JStr ''y'')) ?bf"
  have h: "fc_updateOn (ctrl ?b) = UpdSubmit" "fc_pendingChange (ctrl ?b)"
    "fc_onChange (ctrl ?b) = [ModelToViewCb]" "nm_valueAccessor (dir ?b) = Some (CVA DefaultValueAccessorC 0)"
    "queue ?b = []" "inForm ?b" "emitted ?b = []"
    by (simp_all add: deliver_input view_change_def demo_binding_def fc_updateOn_def)
  show ?thesis
    using submit_pending_overwritten [OF h(1-6), of "JStr ''p''"] h(7) by (simp only: Let_def) simp
qed

text \<open>
  C35. IME typing through the whole stack: on a wired text input with composition
  buffering under the \<open>'change'\<close> policy, a composition (start, any number of input
  events, end with value \<open>v\<close>) commits exactly once: the control ends at \<open>v\<close>,
  \<open>ngModelChange\<close> is emitted once with \<open>v\<close>, nothing is written into the view and
  the accessor leaves the composition.
\<close>

theorem ime_composition_commits_once:
  assumes "wired b" and "dva_compositionMode (acc b)" and "fc_updateOn (ctrl b) = UpdChange"
  shows "let b' = ng_run b (map DomEvent (CompositionStartEv # map InputEv vs @ [CompositionEndEv v])) in
     fc_value (ctrl b') = v \<and> emitted b' = emitted b @ [v] \<and> viewOps b' = viewOps b \<and>
     \<not> dva_composing (acc b') \<and> \<not> fc_pendingChange (ctrl b')"
proof -
  let ?b1 = "b\<lparr>acc := (acc b)\<lparr>dva_composing := True\<rparr>\<rparr>"
  have start: "ng_step b (DomEvent CompositionStartEv) = ?b1"
    by (simp add: deliver_def dva_compositionStart_def)
  have inputs: "ng_run b' (map DomEvent (map InputEv ws)) = b'"
    if "dva_compositionMode (acc b')" "dva_composing (acc b')" for b' ws
    using that by (induction ws) (simp_all add: deliver_input_buffered)
  have "ng_run ?b1 (map DomEvent (map InputEv vs)) = ?b1"
    using assms(2) by (intro inputs) simp_all
  then have "ng_run b (map DomEvent (CompositionStartEv # map InputEv vs @ [CompositionEndEv v])) =
      ng_step ?b1 (DomEvent (CompositionEndEv v))"
    using start by (simp add: ng_run_append)
  with assms show ?thesis
    by (simp add: wired_def deliver_def dva_compositionEnd_def view_change_def updateControl_eq
        Let_def fc_ops_defs)
qed

theorem ime_composition_commits_once_witness:
  "let b' = ng_run (demo_binding UpdChange)
      (map DomEvent [CompositionStartEv, InputEv (JStr ''n''), InputEv (JStr ''ni''), CompositionEndEv (JStr ''ni'')]) in
   emitted b' = [JStr ''ni'']"
  using ime_composition_commits_once [of "demo_binding UpdChange" "[JStr ''n'', JStr ''ni'']" "JStr ''ni''"]
  by (simp add: wired_def Let_def)

end
